theory Spec2Isabelle
  imports Complex_Main
begin

section \<open>Errors and results\<close>

text \<open>
  Every Python exception the modelled code can raise is a value.  A computation that may
  raise returns \<open>error + 'a\<close>, with \<open>Inl\<close> for the exception.
  \<^item> \<open>TypeError\<close>: \<^verbatim>\<open>functools.reduce\<close> on an empty sequence without initial value;
  \<^item> \<open>UnsupportedExpectation\<close>: no dispatch rule matches the type tuple of a request;
  \<^item> \<open>InvalidArgumentError\<close>: a tensor operation received incompatible shapes;
  \<^item> \<open>NonPositiveDefiniteError\<close>: a Cholesky factorisation failed;
  \<^item> \<open>IndexError\<close>: \<^verbatim>\<open>shape[i]\<close> beyond the rank of a tensor;
  \<^item> \<open>OtherError\<close>: anything an external collaborator raises.
\<close>

datatype error =
    TypeError
  | UnsupportedExpectation
  | InvalidArgumentError
  | NonPositiveDefiniteError
  | IndexError
  | OtherError nat

text \<open>
  Sequencing: the second computation runs on the value of the first, and an exception of the
  first is the exception of the whole.
\<close>

definition bind_err :: "error + 'a \<Rightarrow> ('a \<Rightarrow> error + 'b) \<Rightarrow> error + 'b" where
  "bind_err r f = (case r of Inl e \<Rightarrow> Inl e | Inr v \<Rightarrow> f v)"

text \<open>
  A list comprehension \<^verbatim>\<open>[g(x) for x in xs]\<close> evaluates its elements from left to right; the
  first exception aborts it.
\<close>

fun sequence :: "(error + 'a) list \<Rightarrow> error + 'a list" where
  "sequence [] = Inr []"
| "sequence (r # rs) =
     (case r of
        Inl e \<Rightarrow> Inl e
      | Inr v \<Rightarrow> (case sequence rs of Inl e \<Rightarrow> Inl e | Inr vs \<Rightarrow> Inr (v # vs)))"

text \<open>
  \<^verbatim>\<open>functools.reduce(function, iterable)\<close> without initial value: a left fold that starts
  from the first element, and a \<^verbatim>\<open>TypeError\<close> on the empty sequence.
\<close>

fun reduce :: "('a \<Rightarrow> 'a \<Rightarrow> 'a) \<Rightarrow> 'a list \<Rightarrow> error + 'a" where
  "reduce f [] = Inl TypeError"
| "reduce f (x # xs) = Inr (foldl f x xs)"

section \<open>Objects of the expectation engine\<close>

text \<open>
  Modelled from the spec: the classes that \<^verbatim>\<open>sums.py\<close> imports from
  \<^verbatim>\<open>probability_distributions\<close>, \<^verbatim>\<open>kernels\<close>, \<^verbatim>\<open>mean_functions\<close> and \<^verbatim>\<open>inducing_variables\<close>, whose
  declarations are not among the sources at hand.  As in the data model of the specification,
  a class is a variant: a kernel is atomic or a Sum that owns the ordered list of its children;
  the distributions, the mean functions and the inducing variables are variants too, and the
  subclass relation among their classes is given below.  \<open>InducingPatches\<close> stands for the
  instances of the proper subclasses of \<^verbatim>\<open>InducingPoints\<close>, of which it is one, and
  \<open>OtherInducing\<close> for the inducing variables that are no instances of \<^verbatim>\<open>InducingPoints\<close>;
  likewise \<open>OtherMean\<close> for the mean functions that are instances of none of the four classes
  named.  The payload \<open>'v\<close> stands for the parameter values of an object.  Kernels and
  inducing variables are compared by reference, so each carries an object identifier (\<open>kid\<close>,
  \<open>zid\<close>): two objects with equal content and different identifiers are distinct objects.
\<close>

datatype 'v distribution = Gaussian 'v | DiagonalGaussian 'v | MarkovGaussian 'v

datatype 'v kernel =
    Atomic (kid: nat) 'v
  | Sum (kid: nat) "'v kernel list"

datatype 'v mean_function = Zero | Identity | Linear 'v | Constant 'v | OtherMean 'v

datatype 'v inducing_variable =
    InducingPoints (zid: nat) 'v
  | InducingPatches (zid: nat) 'v
  | OtherInducing (zid: nat) 'v

text \<open>An operand slot of a request holds a kernel, a mean function or \<^verbatim>\<open>None\<close>.\<close>

datatype 'v operand = NoObj | Kern "'v kernel" | Mean "'v mean_function"

text \<open>The attribute \<^verbatim>\<open>kernel.kernels\<close> of a Sum kernel: its ordered child list.\<close>

fun kernels :: "'v operand \<Rightarrow> 'v kernel list" where
  "kernels (Kern (Sum i ks)) = ks"
| "kernels _ = []"

text \<open>
  Modelled from the spec: Python's \<^verbatim>\<open>==\<close> on two kernels and on two inducing variables.  The
  classes define no \<^verbatim>\<open>__eq__\<close> of their own, so \<^verbatim>\<open>==\<close> is object identity: it compares the object
  identifiers and never the content.
\<close>

fun obj_eq :: "'v operand \<Rightarrow> 'v operand \<Rightarrow> bool" where
  "obj_eq (Kern k1) (Kern k2) = (kid k1 = kid k2)"
| "obj_eq NoObj NoObj = True"
| "obj_eq _ _ = False"

fun feat_eq :: "'v inducing_variable option \<Rightarrow> 'v inducing_variable option \<Rightarrow> bool" where
  "feat_eq (Some z1) (Some z2) = (zid z1 = zid z2)"
| "feat_eq None None = True"
| "feat_eq _ _ = False"

subsection \<open>Runtime types and the registry of \<^verbatim>\<open>sums.py\<close>\<close>

text \<open>
  The class of an object as the dispatcher sees it.  \<open>KernelT\<close>, \<open>MeanFunctionT\<close> and
  \<open>InducingVariableT\<close> are the base classes of the three families; an object of a class that is
  not named here is given the base class of its family, which no signature of \<^verbatim>\<open>sums.py\<close>
  names.
\<close>

datatype pytype =
    GaussianT | DiagonalGaussianT | MarkovGaussianT
  | SumT | KernelT
  | ZeroT | IdentityT | LinearT | ConstantT | MeanFunctionT
  | InducingPointsT | InducingPatchesT | InducingVariableT
  | NoneTypeT

fun type_of_dist :: "'v distribution \<Rightarrow> pytype" where
  "type_of_dist (Gaussian _) = GaussianT"
| "type_of_dist (DiagonalGaussian _) = DiagonalGaussianT"
| "type_of_dist (MarkovGaussian _) = MarkovGaussianT"

fun type_of_mean :: "'v mean_function \<Rightarrow> pytype" where
  "type_of_mean Zero = ZeroT"
| "type_of_mean Identity = IdentityT"
| "type_of_mean (Linear _) = LinearT"
| "type_of_mean (Constant _) = ConstantT"
| "type_of_mean (OtherMean _) = MeanFunctionT"

fun type_of_obj :: "'v operand \<Rightarrow> pytype" where
  "type_of_obj NoObj = NoneTypeT"
| "type_of_obj (Kern (Sum _ _)) = SumT"
| "type_of_obj (Kern (Atomic _ _)) = KernelT"
| "type_of_obj (Mean m) = type_of_mean m"

fun type_of_feat :: "'v inducing_variable option \<Rightarrow> pytype" where
  "type_of_feat None = NoneTypeT"
| "type_of_feat (Some (InducingPoints _ _)) = InducingPointsT"
| "type_of_feat (Some (InducingPatches _ _)) = InducingPatchesT"
| "type_of_feat (Some (OtherInducing _ _)) = InducingVariableT"

text \<open>
  Modelled from the spec: the subclass relation of the classes, whose declarations are not
  among the sources at hand.  The dispatcher is inheritance-aware: an argument is accepted at
  a position where its class or one of its superclasses is registered.  In the library
  \<^verbatim>\<open>Identity\<close> is a subclass of \<^verbatim>\<open>Linear\<close>, \<^verbatim>\<open>Zero\<close> a subclass of \<^verbatim>\<open>Constant\<close>, and
  \<^verbatim>\<open>InducingPatches\<close> a subclass of \<^verbatim>\<open>InducingPoints\<close>; a kernel, a mean function and an
  inducing variable is an instance of the base class of its family.  \<open>bases c\<close> lists the
  proper superclasses of \<open>c\<close>, and \<open>issubclass\<close> is Python's function of that name.
\<close>

fun bases :: "pytype \<Rightarrow> pytype list" where
  "bases ZeroT = [ConstantT, MeanFunctionT]"
| "bases IdentityT = [LinearT, MeanFunctionT]"
| "bases LinearT = [MeanFunctionT]"
| "bases ConstantT = [MeanFunctionT]"
| "bases InducingPatchesT = [InducingPointsT, InducingVariableT]"
| "bases InducingPointsT = [InducingVariableT]"
| "bases SumT = [KernelT]"
| "bases _ = []"

definition issubclass :: "pytype \<Rightarrow> pytype \<Rightarrow> bool" where
  "issubclass c d = (c = d \<or> d \<in> set (bases c))"

text \<open>
  The five functions \<^verbatim>\<open>_E\<close> of \<^verbatim>\<open>sums.py\<close>, in source order, and the signatures they are
  registered with.  A position of a signature lists the admitted classes (a Python tuple of
  classes in \<^verbatim>\<open>register\<close> is a union).
\<close>

datatype rule = Rule_Sum_diag | Rule_Sum_Z | Rule_mean_Sum_Z | Rule_Markov_Sum_Z | Rule_Sum_Z_Sum_Z

type_synonym signature = "pytype list \<times> pytype list \<times> pytype list \<times> pytype list \<times> pytype list"

type_synonym type_tuple = "pytype \<times> pytype \<times> pytype \<times> pytype \<times> pytype"

definition registry :: "(signature \<times> rule) list" where
  "registry =
    [(([GaussianT], [SumT], [NoneTypeT], [NoneTypeT], [NoneTypeT]), Rule_Sum_diag),
     (([GaussianT], [SumT], [InducingPointsT], [NoneTypeT], [NoneTypeT]), Rule_Sum_Z),
     (([GaussianT], [LinearT, IdentityT, ConstantT], [NoneTypeT], [SumT], [InducingPointsT]),
        Rule_mean_Sum_Z),
     (([MarkovGaussianT], [IdentityT], [NoneTypeT], [SumT], [InducingPointsT]), Rule_Markov_Sum_Z),
     (([GaussianT, DiagonalGaussianT], [SumT], [InducingPointsT], [SumT], [InducingPointsT]),
        Rule_Sum_Z_Sum_Z)]"

text \<open>
  A type tuple matches a signature when, at every position, the class is a subclass of a class
  admitted there.  Among the signatures that match, the dispatcher takes the most specific.
  No type tuple matches the signatures of two different rules of \<^verbatim>\<open>sums.py\<close>: they differ in
  the distribution, or one has \<^verbatim>\<open>NoneType\<close> or a mean function where the other has a kernel or
  an inducing variable, and no class is a subclass of both.  So the rule found is the only one
  that matches, and the order of the registry does not matter.
\<close>

fun matches :: "signature \<Rightarrow> type_tuple \<Rightarrow> bool" where
  "matches (s1, s2, s3, s4, s5) (t1, t2, t3, t4, t5) =
     (list_ex (issubclass t1) s1 \<and> list_ex (issubclass t2) s2 \<and> list_ex (issubclass t3) s3 \<and>
      list_ex (issubclass t4) s4 \<and> list_ex (issubclass t5) s5)"

definition dispatch :: "type_tuple \<Rightarrow> rule option" where
  "dispatch t = map_option snd (find (\<lambda>(s, r). matches s t) registry)"

text \<open>
  A request: the arguments \<^verbatim>\<open>(p, obj1, feat1, obj2, feat2)\<close> of a dispatched function and the
  keyword argument \<^verbatim>\<open>nghp\<close> (the number of Gauss-Hermite points, or \<^verbatim>\<open>None\<close>).
\<close>

type_synonym 'v request =
  "'v distribution \<times> 'v operand \<times> 'v inducing_variable option \<times> 'v operand \<times>
   'v inducing_variable option \<times> nat option"

text \<open>
  The five functions \<^verbatim>\<open>_E\<close>.  Each takes the entry point \<^verbatim>\<open>expectation\<close> as its first argument,
  since the source calls it for the children.  A call \<^verbatim>\<open>expectation(p, k, nghp=nghp)\<close> has empty
  feature and second-operand slots; \<^verbatim>\<open>expectation(p, (k, Z), nghp=nghp)\<close> fills the first feature
  slot; \<^verbatim>\<open>expectation(p, mean, (k, Z), nghp=nghp)\<close> the second operand and its feature.
  \<^verbatim>\<open>tf.add\<close> is the addition \<open>+\<close> of the tensor type.

  Lines 16 to 26: the diagonal of a Sum kernel.
\<close>

definition E_Sum_diag ::
  "('v request \<Rightarrow> error + 'a) \<Rightarrow> 'v distribution \<Rightarrow> 'v operand \<Rightarrow> nat option \<Rightarrow> error + ('a::plus)" where
  "E_Sum_diag expectation p kern nghp =
     bind_err (sequence (map (\<lambda>k. expectation (p, Kern k, None, NoObj, None, nghp)) (kernels kern)))
       (reduce (+))"

text \<open>
Lines 29 to 39: a Sum kernel against inducing points.
\<close>

definition E_Sum_Z ::
  "('v request \<Rightarrow> error + 'a) \<Rightarrow> 'v distribution \<Rightarrow> 'v operand \<Rightarrow> 'v inducing_variable option \<Rightarrow>
   nat option \<Rightarrow> error + ('a::plus)" where
  "E_Sum_Z expectation p kern inducing_variable nghp =
     bind_err (sequence (map (\<lambda>k. expectation (p, Kern k, inducing_variable, NoObj, None, nghp))
                 (kernels kern)))
       (reduce (+))"

text \<open>
Lines 42 to 53: a Linear, Identity or Constant mean function times a Sum kernel.
\<close>

definition E_mean_Sum_Z ::
  "('v request \<Rightarrow> error + 'a) \<Rightarrow> 'v distribution \<Rightarrow> 'v operand \<Rightarrow> 'v operand \<Rightarrow>
   'v inducing_variable option \<Rightarrow> nat option \<Rightarrow> error + ('a::plus)" where
  "E_mean_Sum_Z expectation p mean kern inducing_variable nghp =
     bind_err (sequence (map (\<lambda>k. expectation (p, mean, None, Kern k, inducing_variable, nghp))
                 (kernels kern)))
       (reduce (+))"

text \<open>
Lines 56 to 66: the same for a \<^verbatim>\<open>MarkovGaussian\<close> and the Identity mean function.
\<close>

definition E_Markov_Sum_Z ::
  "('v request \<Rightarrow> error + 'a) \<Rightarrow> 'v distribution \<Rightarrow> 'v operand \<Rightarrow> 'v operand \<Rightarrow>
   'v inducing_variable option \<Rightarrow> nat option \<Rightarrow> error + ('a::plus)" where
  "E_Markov_Sum_Z expectation p mean kern inducing_variable nghp =
     bind_err (sequence (map (\<lambda>k. expectation (p, mean, None, Kern k, inducing_variable, nghp))
                 (kernels kern)))
       (reduce (+))"

text \<open>
  Lines 81 to 87, the list \<^verbatim>\<open>crossexps\<close> of the symmetric branch: for each child \<^verbatim>\<open>k1\<close> at
  position \<^verbatim>\<open>i\<close> the term of \<^verbatim>\<open>(k1, k1)\<close>, then for each earlier child \<^verbatim>\<open>k2\<close> of
  \<^verbatim>\<open>kern1.kernels[:i]\<close> the term \<^verbatim>\<open>eKK\<close> of \<^verbatim>\<open>(k1, k2)\<close> with its adjoint added.  The terms are
  kept as computations, to be evaluated in order.
\<close>

definition crossexps_symmetric ::
  "('a \<Rightarrow> 'a) \<Rightarrow> ('v request \<Rightarrow> error + 'a) \<Rightarrow> 'v distribution \<Rightarrow> 'v operand \<Rightarrow>
   'v inducing_variable option \<Rightarrow> 'v inducing_variable option \<Rightarrow> nat option \<Rightarrow>
   (error + ('a::plus)) list" where
  "crossexps_symmetric adjoint expectation p kern1 feat1 feat2 nghp =
     concat (map (\<lambda>(i, k1).
        expectation (p, Kern k1, feat1, Kern k1, feat1, nghp) #
        map (\<lambda>k2. bind_err (expectation (p, Kern k1, feat1, Kern k2, feat2, nghp))
                     (\<lambda>eKK. Inr (eKK + adjoint eKK)))
            (take i (kernels kern1)))
       (enumerate 0 (kernels kern1)))"

text \<open>
  Lines 89 to 90, the other branch: one term for each pair of \<^verbatim>\<open>itertools.product\<close>, the first
  child varying slowest.
\<close>

definition crossexps_product ::
  "('v request \<Rightarrow> error + 'a) \<Rightarrow> 'v distribution \<Rightarrow> 'v operand \<Rightarrow>
   'v inducing_variable option \<Rightarrow> 'v operand \<Rightarrow> 'v inducing_variable option \<Rightarrow> nat option \<Rightarrow>
   (error + 'a) list" where
  "crossexps_product expectation p kern1 feat1 kern2 feat2 nghp =
     map (\<lambda>(k1, k2). expectation (p, Kern k1, feat1, Kern k2, feat2, nghp))
       (List.product (kernels kern1) (kernels kern2))"

text \<open>
  Lines 69 to 92: the product of two Sum kernels.  The branch is chosen by
  \<^verbatim>\<open>kern1 == kern2 and feat1 == feat2\<close>.
\<close>

definition E_Sum_Z_Sum_Z ::
  "('a \<Rightarrow> 'a) \<Rightarrow> ('v request \<Rightarrow> error + 'a) \<Rightarrow> 'v distribution \<Rightarrow> 'v operand \<Rightarrow>
   'v inducing_variable option \<Rightarrow> 'v operand \<Rightarrow> 'v inducing_variable option \<Rightarrow> nat option \<Rightarrow>
   error + ('a::plus)" where
  "E_Sum_Z_Sum_Z adjoint expectation p kern1 feat1 kern2 feat2 nghp =
     bind_err
       (sequence
          (if obj_eq kern1 kern2 \<and> feat_eq feat1 feat2
           then crossexps_symmetric adjoint expectation p kern1 feat1 feat2 nghp
           else crossexps_product expectation p kern1 feat1 kern2 feat2 nghp))
       (reduce (+))"

text \<open>
  The size of the kernel in an operand slot; the recursion of the entry point descends along
  the larger of the two slots.
\<close>

fun ksize :: "'v operand \<Rightarrow> nat" where
  "ksize (Kern k) = size k"
| "ksize _ = 0"

lemma kernels_size: "k \<in> set (kernels obj) \<Longrightarrow> size k < ksize obj"
  apply (cases obj rule: kernels.cases)
  apply (auto simp: less_Suc_eq_le dest!: size_list_estimation'[where f=size and y="size k"])
  done

lemma E_Sum_diag_cong [fundef_cong]:
  "p = p' \<Longrightarrow> kern = kern' \<Longrightarrow> nghp = nghp' \<Longrightarrow>
   (\<And>k. k \<in> set (kernels kern') \<Longrightarrow>
      E (p', Kern k, None, NoObj, None, nghp') = E' (p', Kern k, None, NoObj, None, nghp')) \<Longrightarrow>
   E_Sum_diag E p kern nghp = E_Sum_diag E' p' kern' nghp'"
  by (simp add: E_Sum_diag_def cong: map_cong)

lemma E_Sum_Z_cong [fundef_cong]:
  "p = p' \<Longrightarrow> kern = kern' \<Longrightarrow> z = z' \<Longrightarrow> nghp = nghp' \<Longrightarrow>
   (\<And>k. k \<in> set (kernels kern') \<Longrightarrow>
      E (p', Kern k, z', NoObj, None, nghp') = E' (p', Kern k, z', NoObj, None, nghp')) \<Longrightarrow>
   E_Sum_Z E p kern z nghp = E_Sum_Z E' p' kern' z' nghp'"
  by (simp add: E_Sum_Z_def cong: map_cong)

lemma E_mean_Sum_Z_cong [fundef_cong]:
  "p = p' \<Longrightarrow> m = m' \<Longrightarrow> kern = kern' \<Longrightarrow> z = z' \<Longrightarrow> nghp = nghp' \<Longrightarrow>
   (\<And>k. k \<in> set (kernels kern') \<Longrightarrow>
      E (p', m', None, Kern k, z', nghp') = E' (p', m', None, Kern k, z', nghp')) \<Longrightarrow>
   E_mean_Sum_Z E p m kern z nghp = E_mean_Sum_Z E' p' m' kern' z' nghp'"
  by (simp add: E_mean_Sum_Z_def cong: map_cong)

lemma E_Markov_Sum_Z_cong [fundef_cong]:
  "p = p' \<Longrightarrow> m = m' \<Longrightarrow> kern = kern' \<Longrightarrow> z = z' \<Longrightarrow> nghp = nghp' \<Longrightarrow>
   (\<And>k. k \<in> set (kernels kern') \<Longrightarrow>
      E (p', m', None, Kern k, z', nghp') = E' (p', m', None, Kern k, z', nghp')) \<Longrightarrow>
   E_Markov_Sum_Z E p m kern z nghp = E_Markov_Sum_Z E' p' m' kern' z' nghp'"
  by (simp add: E_Markov_Sum_Z_def cong: map_cong)

lemma crossexps_symmetric_cong:
  assumes "\<And>k1 k2. k1 \<in> set (kernels kern1) \<Longrightarrow> k2 \<in> set (kernels kern1) \<Longrightarrow>
      E (p, Kern k1, feat1, Kern k2, feat2, nghp) = E' (p, Kern k1, feat1, Kern k2, feat2, nghp)"
    and "\<And>k1. k1 \<in> set (kernels kern1) \<Longrightarrow>
      E (p, Kern k1, feat1, Kern k1, feat1, nghp) = E' (p, Kern k1, feat1, Kern k1, feat1, nghp)"
  shows "crossexps_symmetric adj E p kern1 feat1 feat2 nghp =
         crossexps_symmetric adj E' p kern1 feat1 feat2 nghp"
proof -
  have "(case ik of (i, k1) \<Rightarrow>
           E (p, Kern k1, feat1, Kern k1, feat1, nghp) #
           map (\<lambda>k2. bind_err (E (p, Kern k1, feat1, Kern k2, feat2, nghp))
                        (\<lambda>eKK. Inr (eKK + adj eKK)))
               (take i (kernels kern1))) =
        (case ik of (i, k1) \<Rightarrow>
           E' (p, Kern k1, feat1, Kern k1, feat1, nghp) #
           map (\<lambda>k2. bind_err (E' (p, Kern k1, feat1, Kern k2, feat2, nghp))
                        (\<lambda>eKK. Inr (eKK + adj eKK)))
               (take i (kernels kern1)))"
    if "ik \<in> set (enumerate 0 (kernels kern1))" for ik
  proof -
    obtain i k1 where ik: "ik = (i, k1)" by (cases ik)
    with that have k1: "k1 \<in> set (kernels kern1)"
      by (auto simp: in_set_enumerate_eq)
    have "E (p, Kern k1, feat1, Kern k2, feat2, nghp) = E' (p, Kern k1, feat1, Kern k2, feat2, nghp)"
      if "k2 \<in> set (take i (kernels kern1))" for k2
      using that k1 assms(1) by (blast dest: in_set_takeD)
    then show ?thesis
      using k1 assms(2) by (simp add: ik cong: map_cong)
  qed
  then show ?thesis
    unfolding crossexps_symmetric_def by (simp cong: map_cong)
qed

lemma crossexps_product_cong:
  assumes "\<And>k1 k2. k1 \<in> set (kernels kern1) \<Longrightarrow> k2 \<in> set (kernels kern2) \<Longrightarrow>
      E (p, Kern k1, feat1, Kern k2, feat2, nghp) = E' (p, Kern k1, feat1, Kern k2, feat2, nghp)"
  shows "crossexps_product E p kern1 feat1 kern2 feat2 nghp =
         crossexps_product E' p kern1 feat1 kern2 feat2 nghp"
  unfolding crossexps_product_def
  by (rule map_cong[OF refl]) (auto simp: assms)

lemma E_Sum_Z_Sum_Z_cong [fundef_cong]:
  "p = p' \<Longrightarrow> kern1 = kern1' \<Longrightarrow> feat1 = feat1' \<Longrightarrow> kern2 = kern2' \<Longrightarrow> feat2 = feat2' \<Longrightarrow>
   nghp = nghp' \<Longrightarrow>
   (\<And>k1 k2. k1 \<in> set (kernels kern1') \<Longrightarrow> k2 \<in> set (kernels kern1') \<union> set (kernels kern2') \<Longrightarrow>
      E (p', Kern k1, feat1', Kern k2, feat2', nghp') =
      E' (p', Kern k1, feat1', Kern k2, feat2', nghp')) \<Longrightarrow>
   (\<And>k1. k1 \<in> set (kernels kern1') \<Longrightarrow>
      E (p', Kern k1, feat1', Kern k1, feat1', nghp') =
      E' (p', Kern k1, feat1', Kern k1, feat1', nghp')) \<Longrightarrow>
   E_Sum_Z_Sum_Z adj E p kern1 feat1 kern2 feat2 nghp =
   E_Sum_Z_Sum_Z adj E' p' kern1' feat1' kern2' feat2' nghp'"
  unfolding E_Sum_Z_Sum_Z_def
  apply (simp only:)
  apply (subst crossexps_symmetric_cong[where E=E and E'=E'])
    apply simp
   apply simp
  apply (subst crossexps_product_cong[where E=E and E'=E'])
   apply simp
  apply (rule refl)
  done

lemma dispatch_mean_ksize:
  "dispatch (t1, type_of_obj obj1, t3, t4, t5) = Some Rule_mean_Sum_Z \<Longrightarrow> ksize obj1 = 0"
  "dispatch (t1, type_of_obj obj1, t3, t4, t5) = Some Rule_Markov_Sum_Z \<Longrightarrow> ksize obj1 = 0"
  by (cases obj1 rule: type_of_obj.cases; simp add: dispatch_def registry_def issubclass_def split: if_splits)+

text \<open>
  Modelled from the spec: the entry point \<^verbatim>\<open>expectation\<close> of \<^verbatim>\<open>expectations.py\<close>, which is not
  among the sources at hand.  It resolves the type tuple of the request against the registry
  and calls the rule found.  The rules of the other modules are the parameter \<open>base\<close>: it
  answers every request that no rule of \<^verbatim>\<open>sums.py\<close> matches, with a tensor or with an exception.
  \<^verbatim>\<open>tf.linalg.adjoint\<close> is the parameter \<open>adjoint\<close>.
\<close>

function expectation ::
  "('v request \<Rightarrow> error + 'a) \<Rightarrow> ('a \<Rightarrow> 'a) \<Rightarrow> 'v request \<Rightarrow> error + ('a::plus)" where
  "expectation base adjoint (p, obj1, feat1, obj2, feat2, nghp) =
     (case dispatch (type_of_dist p, type_of_obj obj1, type_of_feat feat1,
                     type_of_obj obj2, type_of_feat feat2) of
        None \<Rightarrow> base (p, obj1, feat1, obj2, feat2, nghp)
      | Some Rule_Sum_diag \<Rightarrow> E_Sum_diag (expectation base adjoint) p obj1 nghp
      | Some Rule_Sum_Z \<Rightarrow> E_Sum_Z (expectation base adjoint) p obj1 feat1 nghp
      | Some Rule_mean_Sum_Z \<Rightarrow> E_mean_Sum_Z (expectation base adjoint) p obj1 obj2 feat2 nghp
      | Some Rule_Markov_Sum_Z \<Rightarrow> E_Markov_Sum_Z (expectation base adjoint) p obj1 obj2 feat2 nghp
      | Some Rule_Sum_Z_Sum_Z \<Rightarrow>
          E_Sum_Z_Sum_Z adjoint (expectation base adjoint) p obj1 feat1 obj2 feat2 nghp)"
  by pat_completeness auto
termination
  apply (relation "measure (\<lambda>(b, a, (p, obj1, feat1, obj2, feat2, nghp)). max (ksize obj1) (ksize obj2))")
  apply (auto dest: kernels_size simp: dispatch_mean_ksize)
  done

declare expectation.simps [simp del]

text \<open>
  The tensors the symmetric branch appends to \<^verbatim>\<open>crossexps\<close>, in order, when the child request
  for \<open>(k1, k2)\<close> evaluates to \<open>T k1 k2\<close>: for every child its diagonal term, followed by one
  combined term \<open>eKK + adjoint eKK\<close> for each earlier child.
\<close>

definition symmetric_terms :: "('a \<Rightarrow> 'a) \<Rightarrow> ('k \<Rightarrow> 'k \<Rightarrow> 'a::plus) \<Rightarrow> 'k list \<Rightarrow> 'a list" where
  "symmetric_terms adjoint T ks =
     concat (map (\<lambda>(i, k1). T k1 k1 # map (\<lambda>k2. T k1 k2 + adjoint (T k1 k2)) (take i ks))
       (enumerate 0 ks))"

subsection \<open>A concrete engine for the examples\<close>

text \<open>
  Base rules over \<open>1 \<times> 1\<close> complex tensors, whose adjoint is the complex conjugate.  A pair
  of atomic kernels evaluates to a number whose mirror is its conjugate; single kernels
  evaluate to their identifier.
\<close>

fun example_base :: "unit request \<Rightarrow> error + complex" where
  "example_base (p, Kern k1, f1, Kern k2, f2, g) =
     Inr (Complex (real (kid k1 * kid k2)) (real (kid k1) - real (kid k2)))"
| "example_base (p, Kern k, f1, NoObj, f2, g) = Inr (of_nat (kid k))"
| "example_base (p, Mean m, f1, Kern k, f2, g) = Inr (of_nat (kid k))"
| "example_base _ = Inl UnsupportedExpectation"

text \<open>
  Base rules that know a single kernel under a Gaussian and nothing else: every request with a
  \<^verbatim>\<open>MarkovGaussian\<close> is refused.
\<close>

fun gaussian_only_base :: "unit request \<Rightarrow> error + complex" where
  "gaussian_only_base (Gaussian v, Kern k, f1, NoObj, f2, g) = Inr (of_nat (kid k))"
| "gaussian_only_base _ = Inl UnsupportedExpectation"

definition example_Z :: "unit inducing_variable option" where
  "example_Z = Some (InducingPoints 7 ())"

definition example_kernels :: "unit kernel list" where
  "example_kernels = [Atomic 1 (), Atomic 2 ()]"

text \<open>
  A second engine, whose tensors are formal expressions: \<open>+\<close> builds an \<open>Add\<close> node and the
  adjoint an \<open>Adj\<close> node, with no algebraic law.  The value of a request is then the very
  expression the code evaluates, which shows the order of accumulation.
\<close>

datatype expr = Leaf nat | Add expr expr | Adj expr

instantiation expr :: plus
begin

definition plus_expr :: "expr \<Rightarrow> expr \<Rightarrow> expr" where
  "plus_expr = Add"

instance ..

end

fun trace_base :: "unit request \<Rightarrow> error + expr" where
  "trace_base (p, Kern k1, f1, Kern k2, f2, g) = Inr (Leaf (10 * kid k1 + kid k2))"
| "trace_base (p, Kern k, f1, NoObj, f2, g) = Inr (Leaf (kid k))"
| "trace_base (p, Mean m, f1, Kern k, f2, g) = Inr (Leaf (kid k))"
| "trace_base _ = Inl UnsupportedExpectation"

definition example_kernels3 :: "unit kernel list" where
  "example_kernels3 = [Atomic 1 (), Atomic 2 (), Atomic 3 ()]"

section \<open>Tensors and the TensorFlow operations of \<^verbatim>\<open>vgp.py\<close>\<close>

text \<open>
  A tensor is a shape and a real entry for every index.  Floating-point numbers are idealised
  as real numbers: rounding, overflow, infinities and NaN are not modelled.  \<open>tensor_of\<close>
  builds a tensor from an index function and sets the entries outside the shape to 0, so that
  two tensors are equal when they agree on shape and on the valid indices.
\<close>

record tensor =
  shape :: "nat list"
  elem :: "nat list \<Rightarrow> real"

definition tensor_of :: "nat list \<Rightarrow> (nat list \<Rightarrow> real) \<Rightarrow> tensor" where
  "tensor_of sh f = \<lparr>shape = sh, elem = (\<lambda>idx. if list_all2 (<) idx sh then f idx else 0)\<rparr>"

definition scalar :: "real \<Rightarrow> tensor" where
  "scalar c = tensor_of [] (\<lambda>idx. c)"

definition matrix_of :: "nat \<Rightarrow> nat \<Rightarrow> (nat \<Rightarrow> nat \<Rightarrow> real) \<Rightarrow> tensor" where
  "matrix_of n m f = tensor_of [n, m] (\<lambda>idx. f (idx ! 0) (idx ! 1))"

definition tensor3_of :: "nat \<Rightarrow> nat \<Rightarrow> nat \<Rightarrow> (nat \<Rightarrow> nat \<Rightarrow> nat \<Rightarrow> real) \<Rightarrow> tensor" where
  "tensor3_of l n m f = tensor_of [l, n, m] (\<lambda>idx. f (idx ! 0) (idx ! 1) (idx ! 2))"

text \<open>
  NumPy broadcasting, as the binary operations of TensorFlow apply it: shapes are aligned at
  the last axis, a missing axis or an axis of size 1 is stretched, and any other disagreement
  is an \<^verbatim>\<open>InvalidArgumentError\<close>.  \<open>bindex\<close> maps an index of the result to the index of an
  operand.
\<close>

fun bshape_rev :: "nat list \<Rightarrow> nat list \<Rightarrow> nat list option" where
  "bshape_rev [] ys = Some ys"
| "bshape_rev (x # xs) [] = Some (x # xs)"
| "bshape_rev (x # xs) (y # ys) =
     (if x = y \<or> y = 1 then map_option ((#) x) (bshape_rev xs ys)
      else if x = 1 then map_option ((#) y) (bshape_rev xs ys)
      else None)"

definition broadcast_shape :: "nat list \<Rightarrow> nat list \<Rightarrow> nat list option" where
  "broadcast_shape a b = map_option rev (bshape_rev (rev a) (rev b))"

definition bindex :: "nat list \<Rightarrow> nat list \<Rightarrow> nat list" where
  "bindex sh idx = map2 (\<lambda>d i. if d = 1 then 0 else i) sh (drop (length idx - length sh) idx)"

definition tf_binop :: "(real \<Rightarrow> real \<Rightarrow> real) \<Rightarrow> tensor \<Rightarrow> tensor \<Rightarrow> error + tensor" where
  "tf_binop f a b =
     (case broadcast_shape (shape a) (shape b) of
        None \<Rightarrow> Inl InvalidArgumentError
      | Some sh \<Rightarrow>
          Inr (tensor_of sh
                 (\<lambda>idx. f (elem a (bindex (shape a) idx)) (elem b (bindex (shape b) idx)))))"

definition tf_add :: "tensor \<Rightarrow> tensor \<Rightarrow> error + tensor" where
  "tf_add = tf_binop (+)"

definition tf_subtract :: "tensor \<Rightarrow> tensor \<Rightarrow> error + tensor" where
  "tf_subtract = tf_binop (-)"

definition tf_multiply :: "tensor \<Rightarrow> tensor \<Rightarrow> error + tensor" where
  "tf_multiply = tf_binop (*)"

definition tf_divide :: "tensor \<Rightarrow> tensor \<Rightarrow> error + tensor" where
  "tf_divide = tf_binop (/)"

text \<open>
Entrywise operations.
\<close>

definition tf_map :: "(real \<Rightarrow> real) \<Rightarrow> tensor \<Rightarrow> tensor" where
  "tf_map f t = tensor_of (shape t) (\<lambda>idx. f (elem t idx))"

definition tf_square :: "tensor \<Rightarrow> tensor" where
  "tf_square = tf_map (\<lambda>x. x\<^sup>2)"

definition tf_log :: "tensor \<Rightarrow> tensor" where
  "tf_log = tf_map ln"

text \<open>
\<^verbatim>\<open>tf.eye(n)\<close>: the identity matrix.
\<close>

definition tf_eye :: "nat \<Rightarrow> tensor" where
  "tf_eye n = tensor_of [n, n] (\<lambda>idx. if idx ! 0 = idx ! 1 then 1 else 0)"

text \<open>
\<^verbatim>\<open>tf.transpose(t)\<close> without a permutation reverses the order of the axes.
\<close>

definition tf_transpose :: "tensor \<Rightarrow> tensor" where
  "tf_transpose t = tensor_of (rev (shape t)) (\<lambda>idx. elem t (rev idx))"

text \<open>
  \<^verbatim>\<open>tf.expand_dims(t, axis)\<close> inserts an axis of size 1; the subscripts \<^verbatim>\<open>t[None, ...]\<close>,
  \<^verbatim>\<open>t[:, None, ...]\<close> and \<^verbatim>\<open>t[:, :, None, ...]\<close> are the axes 0, 1 and 2.
\<close>

definition tf_expand_dims :: "tensor \<Rightarrow> nat \<Rightarrow> error + tensor" where
  "tf_expand_dims t axis =
     (if axis > length (shape t) then Inl InvalidArgumentError
      else Inr (tensor_of (take axis (shape t) @ [1] @ drop axis (shape t))
                  (\<lambda>idx. elem t (take axis idx @ drop (Suc axis) idx))))"

text \<open>
\<^verbatim>\<open>tf.tile(t, multiples)\<close> repeats the tensor along every axis.
\<close>

definition tf_tile :: "tensor \<Rightarrow> nat list \<Rightarrow> error + tensor" where
  "tf_tile t multiples =
     (if length multiples \<noteq> length (shape t) then Inl InvalidArgumentError
      else Inr (tensor_of (map2 (*) (shape t) multiples)
                  (\<lambda>idx. elem t (map2 (\<lambda>i d. i mod d) idx (shape t)))))"

text \<open>
  \<^verbatim>\<open>tf.linalg.band_part(t, num_lower, num_upper)\<close> keeps the entries \<open>(m, n)\<close> of the innermost
  matrices with \<open>m - n \<le> num_lower\<close> and \<open>n - m \<le> num_upper\<close>, a negative bound keeping
  everything on its side; \<^verbatim>\<open>band_part(t, -1, 0)\<close> is the lower triangle.
\<close>

definition tf_band_part :: "tensor \<Rightarrow> int \<Rightarrow> int \<Rightarrow> error + tensor" where
  "tf_band_part t num_lower num_upper =
     (let r = length (shape t) in
      if r < 2 then Inl InvalidArgumentError
      else Inr (tensor_of (shape t)
             (\<lambda>idx. let m = int (idx ! (r - 2)); n = int (idx ! (r - 1)) in
                if (num_lower < 0 \<or> m - n \<le> num_lower) \<and> (num_upper < 0 \<or> n - m \<le> num_upper)
                then elem t idx else 0)))"

text \<open>
\<^verbatim>\<open>tf.reduce_sum(t, axis)\<close> sums over one axis and removes it.
\<close>

definition tf_reduce_sum_axis :: "tensor \<Rightarrow> nat \<Rightarrow> error + tensor" where
  "tf_reduce_sum_axis t axis =
     (if axis \<ge> length (shape t) then Inl InvalidArgumentError
      else Inr (tensor_of (take axis (shape t) @ drop (Suc axis) (shape t))
                  (\<lambda>idx. \<Sum>l<shape t ! axis. elem t (take axis idx @ [l] @ drop axis idx))))"

text \<open>
\<^verbatim>\<open>tf.reduce_sum(t)\<close> sums all entries to a scalar.
\<close>

fun sum_all :: "nat list \<Rightarrow> (nat list \<Rightarrow> real) \<Rightarrow> real" where
  "sum_all [] f = f []"
| "sum_all (n # sh) f = (\<Sum>i<n. sum_all sh (\<lambda>idx. f (i # idx)))"

definition tf_reduce_sum :: "tensor \<Rightarrow> tensor" where
  "tf_reduce_sum t = scalar (sum_all (shape t) (elem t))"

text \<open>
  \<^verbatim>\<open>tf.linalg.matmul(a, b, transpose_a)\<close>: the product of the innermost matrices, over broadcast
  batch axes.
\<close>

definition tf_matmul :: "bool \<Rightarrow> tensor \<Rightarrow> tensor \<Rightarrow> error + tensor" where
  "tf_matmul transpose_a a b =
     (let ra = length (shape a); rb = length (shape b) in
      if ra < 2 \<or> rb < 2 then Inl InvalidArgumentError
      else
        let ba = take (ra - 2) (shape a); bb = take (rb - 2) (shape b);
            m = shape a ! (if transpose_a then ra - 1 else ra - 2);
            k = shape a ! (if transpose_a then ra - 2 else ra - 1);
            k' = shape b ! (rb - 2); n = shape b ! (rb - 1)
        in if k \<noteq> k' then Inl InvalidArgumentError
           else case broadcast_shape ba bb of
                  None \<Rightarrow> Inl InvalidArgumentError
                | Some bs \<Rightarrow>
                    Inr (tensor_of (bs @ [m, n])
                      (\<lambda>idx. let p = take (length bs) idx;
                                 i = idx ! length bs; j = idx ! Suc (length bs)
                             in \<Sum>l<k. elem a (bindex ba p @ (if transpose_a then [l, i] else [i, l])) *
                                       elem b (bindex bb p @ [l, j]))))"

text \<open>
\<^verbatim>\<open>tf.linalg.diag_part(t)\<close>: the diagonals of the innermost matrices.
\<close>

definition tf_diag_part :: "tensor \<Rightarrow> error + tensor" where
  "tf_diag_part t =
     (let r = length (shape t) in
      if r < 2 then Inl InvalidArgumentError
      else Inr (tensor_of (take (r - 2) (shape t) @ [min (shape t ! (r - 2)) (shape t ! (r - 1))])
                  (\<lambda>idx. elem t (idx @ [last idx]))))"

text \<open>
\<^verbatim>\<open>tf.linalg.diag(t)\<close>: diagonal matrices from the innermost vectors.
\<close>

definition tf_linalg_diag :: "tensor \<Rightarrow> error + tensor" where
  "tf_linalg_diag t =
     (if shape t = [] then Inl InvalidArgumentError
      else Inr (tensor_of (shape t @ [last (shape t)])
                  (\<lambda>idx. if last (butlast idx) = last idx then elem t (butlast idx) else 0)))"

section \<open>The variational models of \<^verbatim>\<open>vgp.py\<close>\<close>

text \<open>
  A \<^verbatim>\<open>Parameter\<close> is a value under an optional transform: \<^verbatim>\<open>triangular()\<close> or \<^verbatim>\<open>positive()\<close>.
\<close>

datatype transform = Triangular | Positive

record parameter =
  param_value :: tensor
  param_transform :: "transform option"

text \<open>
  What \<^verbatim>\<open>vgp.py\<close> imports and calls is a parameter of the model:
  \<^item> \<open>kernel_call k X X2 full\<close>: \<^verbatim>\<open>kernel(X)\<close>, \<^verbatim>\<open>kernel(X, X2)\<close> and \<^verbatim>\<open>kernel(X, full=False)\<close>;
  \<^item> \<open>mean_function_call\<close>: \<^verbatim>\<open>mean_function(X)\<close>;
  \<^item> \<open>variational_expectations\<close>: the method of the likelihood;
  \<^item> \<open>gauss_kl\<close>, \<open>conditional\<close>: the functions of \<^verbatim>\<open>kullback_leiblers\<close> and \<^verbatim>\<open>conditionals\<close>;
  \<^item> \<open>cholesky\<close>, \<open>triangular_solve\<close>: \<^verbatim>\<open>tf.linalg.cholesky\<close> and
    \<^verbatim>\<open>tf.linalg.triangular_solve\<close>, on a matrix or a batch of matrices;
  \<^item> \<open>default_jitter\<close>: the configured jitter.

  Each may raise.  What a theorem needs of them, it assumes.
\<close>

record ('v, 'l) externals =
  kernel_call :: "'v kernel \<Rightarrow> tensor \<Rightarrow> tensor option \<Rightarrow> bool \<Rightarrow> error + tensor"
  mean_function_call :: "'v mean_function \<Rightarrow> tensor \<Rightarrow> error + tensor"
  variational_expectations :: "'l \<Rightarrow> tensor \<Rightarrow> tensor \<Rightarrow> tensor \<Rightarrow> error + tensor"
  gauss_kl :: "tensor \<Rightarrow> tensor \<Rightarrow> error + tensor"
  conditional ::
    "tensor \<Rightarrow> tensor \<Rightarrow> 'v kernel \<Rightarrow> tensor \<Rightarrow> tensor option \<Rightarrow> bool \<Rightarrow> bool \<Rightarrow> error + tensor \<times> tensor"
  cholesky :: "tensor \<Rightarrow> error + tensor"
  triangular_solve :: "tensor \<Rightarrow> tensor \<Rightarrow> error + tensor"
  default_jitter :: real

text \<open>
  Modelled from the spec: the base class \<^verbatim>\<open>GPModel\<close> of \<^verbatim>\<open>models/model.py\<close>, which is not among
  the sources at hand.  Its constructor stores the kernel, the likelihood, the mean function
  and the number of latent outputs; the constructors of \<^verbatim>\<open>vgp.py\<close> then set \<^verbatim>\<open>data\<close>,
  \<^verbatim>\<open>num_data\<close> and \<^verbatim>\<open>num_latent\<close> themselves.
\<close>

record ('v, 'l) GPModel =
  kern :: "'v kernel"
  likelihood :: 'l
  mean_function :: "'v mean_function"
  data :: "tensor \<times> tensor"
  num_data :: nat
  num_latent :: nat

record ('v, 'l) VGP = "('v, 'l) GPModel" +
  q_mu :: parameter
  q_sqrt :: parameter

text \<open>
  \<^verbatim>\<open>VGP.log_likelihood\<close>, lines 75 to 106, one binding for every operation of the source, in
  the order of evaluation.
\<close>

definition VGP_log_likelihood :: "('v, 'l) externals \<Rightarrow> ('v, 'l) VGP \<Rightarrow> error + tensor" where
  "VGP_log_likelihood ext self =
     (case data self of (x_data, y_data) \<Rightarrow>
      bind_err (gauss_kl ext (param_value (q_mu self)) (param_value (q_sqrt self))) (\<lambda>KL.
      bind_err (kernel_call ext (kern self) x_data None True) (\<lambda>Kxx.
      bind_err (tf_multiply (tf_eye (num_data self)) (scalar (default_jitter ext))) (\<lambda>jitter.
      bind_err (tf_add Kxx jitter) (\<lambda>K.
      bind_err (cholesky ext K) (\<lambda>L.
      bind_err (tf_matmul False L (param_value (q_mu self))) (\<lambda>L_q_mu.
      bind_err (mean_function_call ext (mean_function self) x_data) (\<lambda>mean_X.
      bind_err (tf_add L_q_mu mean_X) (\<lambda>fmean.
      bind_err (tf_band_part (param_value (q_sqrt self)) (- 1) 0) (\<lambda>q_sqrt_dnn.
      bind_err (tf_expand_dims L 0) (\<lambda>L_expanded.
      bind_err (tf_tile L_expanded [num_latent self, 1, 1]) (\<lambda>L_tiled.
      bind_err (tf_matmul False L_tiled q_sqrt_dnn) (\<lambda>LTA.
      bind_err (tf_reduce_sum_axis (tf_square LTA) 2) (\<lambda>fvar_dn.
      bind_err (variational_expectations ext (likelihood self) fmean (tf_transpose fvar_dn) y_data)
        (\<lambda>var_exp.
      tf_subtract (tf_reduce_sum var_exp) KL)))))))))))))))"

text \<open>
\<^verbatim>\<open>VGP.predict_f\<close>, lines 108 to 118.
\<close>

definition VGP_predict_f ::
  "('v, 'l) externals \<Rightarrow> ('v, 'l) VGP \<Rightarrow> tensor \<Rightarrow> bool \<Rightarrow> bool \<Rightarrow> error + tensor \<times> tensor" where
  "VGP_predict_f ext self predict_at full_cov full_output_cov =
     (case data self of (x_data, y_data) \<Rightarrow>
      bind_err (conditional ext predict_at x_data (kern self) (param_value (q_mu self))
                  (Some (param_value (q_sqrt self))) full_cov True) (\<lambda>(mu, var).
      bind_err (mean_function_call ext (mean_function self) predict_at) (\<lambda>mean_new.
      bind_err (tf_add mu mean_new) (\<lambda>mean.
      Inr (mean, var)))))"

record ('v, 'l) VGPOpperArchambeau = "('v, 'l) GPModel" +
  q_alpha :: parameter
  q_lambda :: parameter

text \<open>
  \<^verbatim>\<open>np.zeros(shape)\<close>, \<^verbatim>\<open>np.ones(shape)\<close>, and \<^verbatim>\<open>t.shape[i]\<close>, which raises an \<^verbatim>\<open>IndexError\<close>
  beyond the rank.
\<close>

definition np_zeros :: "nat list \<Rightarrow> tensor" where
  "np_zeros sh = tensor_of sh (\<lambda>idx. 0)"

definition np_ones :: "nat list \<Rightarrow> tensor" where
  "np_ones sh = tensor_of sh (\<lambda>idx. 1)"

definition shape_at :: "tensor \<Rightarrow> nat \<Rightarrow> error + nat" where
  "shape_at t i = (if i < length (shape t) then Inr (shape t ! i) else Inl IndexError)"

text \<open>
  \<^verbatim>\<open>VGPOpperArchambeau.__init__\<close>, lines 147 to 167.  \<^verbatim>\<open>num_latent or y_data.shape[1]\<close> takes the
  second operand when \<^verbatim>\<open>num_latent\<close> is \<^verbatim>\<open>None\<close> or 0.
\<close>

definition VGPOpperArchambeau_init ::
  "tensor \<times> tensor \<Rightarrow> 'v kernel \<Rightarrow> 'l \<Rightarrow> 'v mean_function option \<Rightarrow> nat option \<Rightarrow>
   error + ('v, 'l) VGPOpperArchambeau" where
  "VGPOpperArchambeau_init data_arg kernel_arg likelihood_arg mean_function_arg num_latent_arg =
     (let mean_function_arg = (case mean_function_arg of None \<Rightarrow> Zero | Some m \<Rightarrow> m) in
      case data_arg of (x_data, y_data) \<Rightarrow>
      bind_err (shape_at x_data 0) (\<lambda>n_data.
      bind_err (case num_latent_arg of
                  Some n \<Rightarrow> if n \<noteq> 0 then Inr n else shape_at y_data 1
                | None \<Rightarrow> shape_at y_data 1) (\<lambda>n_latent.
      Inr \<lparr>kern = kernel_arg, likelihood = likelihood_arg, mean_function = mean_function_arg,
           data = data_arg, num_data = n_data, num_latent = n_latent,
           q_alpha = \<lparr>param_value = np_zeros [n_data, n_latent], param_transform = None\<rparr>,
           q_lambda = \<lparr>param_value = np_ones [n_data, n_latent],
                       param_transform = Some Positive\<rparr>\<rparr>)))"

text \<open>
  \<^verbatim>\<open>VGPOpperArchambeau.log_likelihood\<close>, lines 169 to 198.  The function with the suffix
  \<open>locals\<close> returns the local variables \<^verbatim>\<open>f_mean\<close>, \<^verbatim>\<open>f_var\<close> and \<^verbatim>\<open>KL\<close> next to the result, so
  that they can be spoken about; the method itself returns the result alone.
\<close>

record log_likelihood_locals =
  local_f_mean :: tensor
  local_f_var :: tensor
  local_KL :: tensor
  local_result :: tensor

definition VGPOpperArchambeau_log_likelihood_locals ::
  "('v, 'l) externals \<Rightarrow> ('v, 'l) VGPOpperArchambeau \<Rightarrow> error + log_likelihood_locals" where
  "VGPOpperArchambeau_log_likelihood_locals ext self =
     (case data self of (x_data, y_data) \<Rightarrow>
      let q_alpha_v = param_value (q_alpha self); q_lambda_v = param_value (q_lambda self) in
      bind_err (kernel_call ext (kern self) x_data None True) (\<lambda>K.
      bind_err (tf_matmul False K q_alpha_v) (\<lambda>K_alpha.
      bind_err (mean_function_call ext (mean_function self) x_data) (\<lambda>mean_X.
      bind_err (tf_add K_alpha mean_X) (\<lambda>f_mean.
      bind_err (tf_expand_dims (tf_eye (num_data self)) 0) (\<lambda>eye_1.
      bind_err (tf_tile eye_1 [num_latent self, 1, 1]) (\<lambda>I.
      bind_err (tf_expand_dims (tf_transpose q_lambda_v) 1) (\<lambda>lam_row.
      bind_err (tf_expand_dims (tf_transpose q_lambda_v) 2) (\<lambda>lam_col.
      bind_err (tf_multiply lam_row lam_col) (\<lambda>lam_outer.
      bind_err (tf_multiply lam_outer K) (\<lambda>lam_K.
      bind_err (tf_add I lam_K) (\<lambda>A.
      bind_err (cholesky ext A) (\<lambda>L.
      bind_err (triangular_solve ext L I) (\<lambda>Li.
      bind_err (tf_expand_dims (tf_transpose q_lambda_v) 1) (\<lambda>lam_row'.
      bind_err (tf_divide Li lam_row') (\<lambda>tmp.
      bind_err (tf_divide (scalar 1) (tf_square q_lambda_v)) (\<lambda>inv_lam2.
      bind_err (tf_reduce_sum_axis (tf_square tmp) 1) (\<lambda>col_sums.
      bind_err (tf_subtract inv_lam2 (tf_transpose col_sums)) (\<lambda>f_var.
      bind_err (tf_diag_part L) (\<lambda>L_diag.
      bind_err (tf_multiply (scalar 2) (tf_reduce_sum (tf_log L_diag))) (\<lambda>A_logdet.
      let trAi = tf_reduce_sum (tf_square Li) in
      bind_err (tf_add A_logdet trAi) (\<lambda>s1.
      bind_err (tf_subtract s1 (scalar (real (num_data self * num_latent self)))) (\<lambda>s2.
      bind_err (tf_multiply K_alpha q_alpha_v) (\<lambda>K_alpha_alpha.
      bind_err (tf_add s2 (tf_reduce_sum K_alpha_alpha)) (\<lambda>s3.
      bind_err (tf_multiply (scalar (1 / 2)) s3) (\<lambda>KL.
      bind_err (variational_expectations ext (likelihood self) f_mean f_var y_data) (\<lambda>v_exp.
      bind_err (tf_subtract (tf_reduce_sum v_exp) KL) (\<lambda>result.
      Inr \<lparr>local_f_mean = f_mean, local_f_var = f_var, local_KL = KL,
           local_result = result\<rparr>))))))))))))))))))))))))))))"

definition VGPOpperArchambeau_log_likelihood ::
  "('v, 'l) externals \<Rightarrow> ('v, 'l) VGPOpperArchambeau \<Rightarrow> error + tensor" where
  "VGPOpperArchambeau_log_likelihood ext self =
     bind_err (VGPOpperArchambeau_log_likelihood_locals ext self) (\<lambda>locals. Inr (local_result locals))"

text \<open>
\<^verbatim>\<open>VGPOpperArchambeau.predict_f\<close>, lines 200 to 227.
\<close>

definition VGPOpperArchambeau_predict_f ::
  "('v, 'l) externals \<Rightarrow> ('v, 'l) VGPOpperArchambeau \<Rightarrow> tensor \<Rightarrow> bool \<Rightarrow> error + tensor \<times> tensor" where
  "VGPOpperArchambeau_predict_f ext self predict_at full_cov =
     (case data self of (x_data, y_data) \<Rightarrow>
      let q_alpha_v = param_value (q_alpha self); q_lambda_v = param_value (q_lambda self) in
      bind_err (kernel_call ext (kern self) x_data (Some predict_at) True) (\<lambda>Kx.
      bind_err (kernel_call ext (kern self) x_data None True) (\<lambda>K.
      bind_err (tf_matmul True Kx q_alpha_v) (\<lambda>Kx_alpha.
      bind_err (mean_function_call ext (mean_function self) predict_at) (\<lambda>mean_new.
      bind_err (tf_add Kx_alpha mean_new) (\<lambda>f_mean.
      bind_err (tf_divide (scalar 1) (tf_square q_lambda_v)) (\<lambda>inv_lam2.
      bind_err (tf_linalg_diag (tf_transpose inv_lam2)) (\<lambda>D.
      bind_err (tf_add K D) (\<lambda>A.
      bind_err (cholesky ext A) (\<lambda>L.
      bind_err (tf_expand_dims Kx 0) (\<lambda>Kx_1.
      bind_err (tf_tile Kx_1 [num_latent self, 1, 1]) (\<lambda>Kx_tiled.
      bind_err (triangular_solve ext L Kx_tiled) (\<lambda>LiKx.
      bind_err
        (if full_cov
         then bind_err (kernel_call ext (kern self) predict_at None True) (\<lambda>Kss.
              bind_err (tf_matmul True LiKx LiKx) (\<lambda>G.
              tf_subtract Kss G))
         else bind_err (kernel_call ext (kern self) predict_at None False) (\<lambda>Kss_diag.
              bind_err (tf_reduce_sum_axis (tf_square LiKx) 1) (\<lambda>col_sums.
              tf_subtract Kss_diag col_sums))) (\<lambda>f_var.
      Inr (f_mean, tf_transpose f_var)))))))))))))))"

section \<open>Determinant, trace and inverse of a square matrix\<close>

text \<open>
  Square matrices of dimension \<open>n\<close> are functions on indices below \<open>n\<close>.  The determinant is
  the Laplace expansion along the first column: \<open>minor i A\<close> omits row \<open>i\<close> and the first
  column.  \<open>setrow\<close> replaces one row; it is used to state that the determinant is linear in
  every row.
\<close>

definition skip :: "nat \<Rightarrow> nat \<Rightarrow> nat" where
  "skip i r = (if r < i then r else Suc r)"

definition minor :: "nat \<Rightarrow> (nat \<Rightarrow> nat \<Rightarrow> real) \<Rightarrow> nat \<Rightarrow> nat \<Rightarrow> real" where
  "minor i A = (\<lambda>r c. A (skip i r) (Suc c))"

fun determinant :: "nat \<Rightarrow> (nat \<Rightarrow> nat \<Rightarrow> real) \<Rightarrow> real" where
  "determinant 0 A = 1"
| "determinant (Suc n) A = (\<Sum>i\<le>n. (- 1) ^ i * A i 0 * determinant n (minor i A))"

definition setrow :: "nat \<Rightarrow> (nat \<Rightarrow> real) \<Rightarrow> (nat \<Rightarrow> nat \<Rightarrow> real) \<Rightarrow> nat \<Rightarrow> nat \<Rightarrow> real" where
  "setrow k v A = (\<lambda>r. if r = k then v else A r)"

text \<open>
  Lower triangular matrices, product, identity, transpose and trace.  \<open>meq n A B\<close> is equality
  on the indices below \<open>n\<close>, and \<open>matrix_inverse n A B\<close> says that \<open>B\<close> is a two-sided inverse
  of \<open>A\<close>.
\<close>

definition lower_triangular :: "nat \<Rightarrow> (nat \<Rightarrow> nat \<Rightarrow> real) \<Rightarrow> bool" where
  "lower_triangular n L = (\<forall>i<n. \<forall>j<n. i < j \<longrightarrow> L i j = 0)"

definition mmul :: "nat \<Rightarrow> (nat \<Rightarrow> nat \<Rightarrow> real) \<Rightarrow> (nat \<Rightarrow> nat \<Rightarrow> real) \<Rightarrow> nat \<Rightarrow> nat \<Rightarrow> real" where
  "mmul n A B = (\<lambda>i j. \<Sum>k<n. A i k * B k j)"

definition identity_matrix :: "nat \<Rightarrow> nat \<Rightarrow> real" where
  "identity_matrix = (\<lambda>i j. if i = j then 1 else 0)"

definition transpose_matrix :: "(nat \<Rightarrow> nat \<Rightarrow> real) \<Rightarrow> nat \<Rightarrow> nat \<Rightarrow> real" where
  "transpose_matrix A = (\<lambda>i j. A j i)"

definition trace :: "nat \<Rightarrow> (nat \<Rightarrow> nat \<Rightarrow> real) \<Rightarrow> real" where
  "trace n A = (\<Sum>i<n. A i i)"

definition meq :: "nat \<Rightarrow> (nat \<Rightarrow> nat \<Rightarrow> real) \<Rightarrow> (nat \<Rightarrow> nat \<Rightarrow> real) \<Rightarrow> bool" where
  "meq n A B = (\<forall>i<n. \<forall>j<n. A i j = B i j)"

definition matrix_inverse :: "nat \<Rightarrow> (nat \<Rightarrow> nat \<Rightarrow> real) \<Rightarrow> (nat \<Rightarrow> nat \<Rightarrow> real) \<Rightarrow> bool" where
  "matrix_inverse n A B = (meq n (mmul n A B) identity_matrix \<and> meq n (mmul n B A) identity_matrix)"

text \<open>The matrix at position \<open>l\<close> of a batch of matrices (a tensor of rank 3).\<close>

definition slice :: "tensor \<Rightarrow> nat \<Rightarrow> nat \<Rightarrow> nat \<Rightarrow> real" where
  "slice t l = (\<lambda>i j. elem t [l, i, j])"

text \<open>
  The sums of the rows and of the columns of a matrix: \<open>rowSums m A i\<close> is the sum of row \<open>i\<close>
  of a matrix with \<open>m\<close> columns, and \<open>colSums n A j\<close> the sum of column \<open>j\<close> of a matrix with
  \<open>n\<close> rows.
\<close>

definition rowSums :: "nat \<Rightarrow> (nat \<Rightarrow> nat \<Rightarrow> real) \<Rightarrow> nat \<Rightarrow> real" where
  "rowSums m A i = (\<Sum>j<m. A i j)"

definition colSums :: "nat \<Rightarrow> (nat \<Rightarrow> nat \<Rightarrow> real) \<Rightarrow> nat \<Rightarrow> real" where
  "colSums n A j = (\<Sum>i<n. A i j)"

subsection \<open>A concrete model for the examples\<close>

text \<open>
  Two training inputs, two new inputs and one latent output.  The kernel matrix of the
  training inputs is \<open>3 I\<close>, the jitter is 1 and \<open>q_lambda\<close> is 1, so that every matrix to
  factor is diagonal: on diagonal matrices the Cholesky factor is the entrywise square root and
  the triangular solve divides row \<open>i\<close> by the diagonal entry \<open>i\<close>.  The cross-covariance \<open>Kx\<close>
  between training and new inputs is not symmetric.  The mean function is zero, the likelihood
  term is \<open>fmean - fvar\<close>, the prior KL of \<open>VGP\<close> is 7, and the conditional returns its \<open>f\<close>
  argument as mean and refuses the non-whitened case.  The matrix \<open>q_sqrt\<close> has the rows
  \<open>(1, 5)\<close> and \<open>(3, 4)\<close>: its entry above the diagonal is not zero.
\<close>

definition example_X :: tensor where
  "example_X = matrix_of 2 1 (\<lambda>i j. real i)"

definition example_Y :: tensor where
  "example_Y = matrix_of 2 1 (\<lambda>i j. 0)"

definition example_Xnew :: tensor where
  "example_Xnew = matrix_of 2 1 (\<lambda>i j. real i + 1 / 2)"

definition example_Kx :: tensor where
  "example_Kx =
     matrix_of 2 2 (\<lambda>i j. if i = 0 \<and> j = 1 then 2 else if i = 1 \<and> j = 0 then 0 else 1)"

definition example_ext :: "(unit, unit) externals" where
  "example_ext =
     \<lparr>kernel_call = (\<lambda>k X X2 full.
        if \<not> full then Inr (tensor_of [2] (\<lambda>idx. 3))
        else case X2 of
               None \<Rightarrow> Inr (matrix_of 2 2 (\<lambda>i j. if i = j then 3 else 0))
             | Some X' \<Rightarrow> Inr example_Kx),
      mean_function_call = (\<lambda>m X. Inr (np_zeros [2, 1])),
      variational_expectations = (\<lambda>lik fmean fvar Y. tf_subtract fmean fvar),
      gauss_kl = (\<lambda>mu S. Inr (scalar 7)),
      conditional = (\<lambda>Xnew X k f q_sqrt full_cov white.
        if white then Inr (f, np_ones [2, 1]) else Inl (OtherError 0)),
      cholesky = (\<lambda>A. Inr (tf_map sqrt A)),
      triangular_solve = (\<lambda>L B.
        Inr (tensor_of (shape B) (\<lambda>idx. elem B idx / elem L [idx ! 0, idx ! 1, idx ! 1]))),
      default_jitter = 1\<rparr>"

definition example_VGP :: "(unit, unit) VGP" where
  "example_VGP =
     \<lparr>kern = Atomic 0 (), likelihood = (), mean_function = Zero,
      data = (example_X, example_Y), num_data = 2, num_latent = 1,
      q_mu = \<lparr>param_value = matrix_of 2 1 (\<lambda>i j. real i + 1), param_transform = None\<rparr>,
      q_sqrt = \<lparr>param_value = tensor3_of 1 2 2 (\<lambda>l i j. real (2 * i + j) + 1 + (if i < j then 3 else 0)),
                 param_transform = Some Triangular\<rparr>\<rparr>"

definition example_OA :: "(unit, unit) VGPOpperArchambeau" where
  "example_OA =
     \<lparr>kern = Atomic 0 (), likelihood = (), mean_function = Zero,
      data = (example_X, example_Y), num_data = 2, num_latent = 1,
      q_alpha = \<lparr>param_value = matrix_of 2 1 (\<lambda>i j. real i + 1), param_transform = None\<rparr>,
      q_lambda = \<lparr>param_value = matrix_of 2 1 (\<lambda>i j. 1), param_transform = Some Positive\<rparr>\<rparr>"

text \<open>The solution \<open>L\<^sup>-\<^sup>1 Kx\<close> of the example, where \<open>L = 2 I\<close>.\<close>

definition example_LiKx :: tensor where
  "example_LiKx = tensor3_of 1 2 2 (\<lambda>l i j. elem example_Kx [i, j] / 2)"

section \<open>Properties of the expectation engine\<close>

subsection \<open>Auxiliary facts\<close>

lemma bind_err_Inr [simp]: "bind_err (Inr v) f = f v"
  by (simp add: bind_err_def)

lemma bind_err_Inl [simp]: "bind_err (Inl e) f = Inl e"
  by (simp add: bind_err_def)

lemma foldl_plus_sum_list:
  fixes a :: "'a::monoid_add"
  shows "foldl (+) a xs = a + sum_list xs"
  by (induction xs arbitrary: a) (simp_all add: add.assoc)

lemma reduce_sum_list:
  fixes xs :: "'a::monoid_add list"
  shows "xs \<noteq> [] \<Longrightarrow> reduce (+) xs = Inr (sum_list xs)"
  by (cases xs) (simp_all add: foldl_plus_sum_list)

lemma sequence_map_Inr:
  "(\<And>x. x \<in> set xs \<Longrightarrow> f x = Inr (g x)) \<Longrightarrow> sequence (map f xs) = Inr (map g xs)"
  by (induction xs) simp_all

lemma sequence_Inr: "sequence (map Inr xs) = Inr xs"
  by (induction xs) simp_all

lemma sequence_Inr_comp: "sequence (map (Inr \<circ> f) xs) = Inr (map f xs)"
  by (induction xs) simp_all

lemma expectation_Sum_diag:
  "expectation base adj (Gaussian v, Kern (Sum i ks), None, NoObj, None, g) =
     E_Sum_diag (expectation base adj) (Gaussian v) (Kern (Sum i ks)) g"
  by (simp add: expectation.simps dispatch_def registry_def issubclass_def)

lemma issubclass_iff:
  "issubclass t GaussianT \<longleftrightarrow> t = GaussianT"
  "issubclass t DiagonalGaussianT \<longleftrightarrow> t = DiagonalGaussianT"
  "issubclass t MarkovGaussianT \<longleftrightarrow> t = MarkovGaussianT"
  "issubclass t SumT \<longleftrightarrow> t = SumT"
  "issubclass t NoneTypeT \<longleftrightarrow> t = NoneTypeT"
  "issubclass t InducingPointsT \<longleftrightarrow> t = InducingPointsT \<or> t = InducingPatchesT"
  "issubclass t LinearT \<longleftrightarrow> t = LinearT \<or> t = IdentityT"
  "issubclass t IdentityT \<longleftrightarrow> t = IdentityT"
  "issubclass t ConstantT \<longleftrightarrow> t = ConstantT \<or> t = ZeroT"
  by (cases t; simp add: issubclass_def)+

lemma is_points_cases:
  "issubclass (type_of_feat feat) InducingPointsT \<longleftrightarrow>
     (\<exists>a z. feat = Some (InducingPoints a z) \<or> feat = Some (InducingPatches a z))"
  by (cases feat rule: type_of_feat.cases) (simp_all add: issubclass_def)

lemma affine_mean_cases:
  "list_ex (issubclass (type_of_mean m)) [LinearT, IdentityT, ConstantT] \<longleftrightarrow>
     (\<exists>c. m = Linear c \<or> m = Identity \<or> m = Constant c \<or> m = Zero)"
  by (cases m) (simp_all add: issubclass_def)

lemma identity_mean_cases: "issubclass (type_of_mean m) IdentityT \<longleftrightarrow> m = Identity"
  by (cases m) (simp_all add: issubclass_def)

lemma expectation_Sum_Z_sub:
  "issubclass (type_of_feat feat) InducingPointsT \<Longrightarrow>
   expectation base adj (Gaussian v, Kern (Sum i ks), feat, NoObj, None, g) =
     E_Sum_Z (expectation base adj) (Gaussian v) (Kern (Sum i ks)) feat g"
  unfolding is_points_cases
  by (auto simp: expectation.simps dispatch_def registry_def issubclass_def)

lemma expectation_mean_Sum_Z_sub:
  "list_ex (issubclass (type_of_mean m)) [LinearT, IdentityT, ConstantT] \<Longrightarrow>
   issubclass (type_of_feat feat) InducingPointsT \<Longrightarrow>
   expectation base adj (Gaussian v, Mean m, None, Kern (Sum i ks), feat, g) =
     E_mean_Sum_Z (expectation base adj) (Gaussian v) (Mean m) (Kern (Sum i ks)) feat g"
  unfolding is_points_cases affine_mean_cases
  by (auto simp: expectation.simps dispatch_def registry_def issubclass_def)

lemma expectation_Markov_Sum_Z_sub:
  "issubclass (type_of_mean m) IdentityT \<Longrightarrow>
   issubclass (type_of_feat feat) InducingPointsT \<Longrightarrow>
   expectation base adj (MarkovGaussian v, Mean m, None, Kern (Sum i ks), feat, g) =
     E_Markov_Sum_Z (expectation base adj) (MarkovGaussian v) (Mean m) (Kern (Sum i ks)) feat g"
  unfolding is_points_cases identity_mean_cases
  by (auto simp: expectation.simps dispatch_def registry_def issubclass_def)

lemma expectation_Sum_Z_Sum_Z_sub:
  "p = Gaussian v \<or> p = DiagonalGaussian v \<Longrightarrow>
   issubclass (type_of_feat feat1) InducingPointsT \<Longrightarrow>
   issubclass (type_of_feat feat2) InducingPointsT \<Longrightarrow>
   expectation base adj (p, Kern (Sum i ks1), feat1, Kern (Sum j ks2), feat2, g) =
     E_Sum_Z_Sum_Z adj (expectation base adj) p (Kern (Sum i ks1)) feat1 (Kern (Sum j ks2)) feat2 g"
  unfolding is_points_cases
  by (auto simp: expectation.simps dispatch_def registry_def issubclass_def)

lemma expectation_Sum_Z_Sum_Z:
  "p = Gaussian v \<or> p = DiagonalGaussian v \<Longrightarrow>
   expectation base adj
     (p, Kern (Sum i ks1), Some (InducingPoints a z1), Kern (Sum j ks2),
      Some (InducingPoints b z2), g) =
     E_Sum_Z_Sum_Z adj (expectation base adj) p (Kern (Sum i ks1)) (Some (InducingPoints a z1))
       (Kern (Sum j ks2)) (Some (InducingPoints b z2)) g"
  by (auto simp add: expectation.simps dispatch_def registry_def issubclass_def)

lemma expectation_atomic_pair:
  "expectation base adj (p, Kern (Atomic i v), f1, Kern (Atomic j w), f2, g) =
     base (p, Kern (Atomic i v), f1, Kern (Atomic j w), f2, g)"
  by (simp add: expectation.simps dispatch_def registry_def issubclass_def)

lemma expectation_atomic_single:
  "expectation base adj (p, Kern (Atomic i v), f1, NoObj, f2, g) =
     base (p, Kern (Atomic i v), f1, NoObj, f2, g)"
  by (simp add: expectation.simps dispatch_def registry_def issubclass_def)

lemma expectation_mean_atomic:
  "expectation base adj (p, Mean m, f1, Kern (Atomic i v), f2, g) =
     base (p, Mean m, f1, Kern (Atomic i v), f2, g)"
  by (cases m) (simp_all add: expectation.simps dispatch_def registry_def issubclass_def)

lemma sum_list_product:
  fixes f :: "'b \<times> 'c \<Rightarrow> 'a::comm_monoid_add"
  shows "sum_list (map f (List.product xs ys)) = (\<Sum>x\<leftarrow>xs. \<Sum>y\<leftarrow>ys. f (x, y))"
  by (induction xs) (simp_all add: comp_def)

lemma symmetric_terms_snoc:
  "symmetric_terms adj T (ks @ [k]) =
     symmetric_terms adj T ks @ (T k k # map (\<lambda>k2. T k k2 + adj (T k k2)) ks)"
proof -
  have "(case ik of (i, k1) \<Rightarrow> T k1 k1 # map (\<lambda>k2. T k1 k2 + adj (T k1 k2)) (take i (ks @ [k]))) =
        (case ik of (i, k1) \<Rightarrow> T k1 k1 # map (\<lambda>k2. T k1 k2 + adj (T k1 k2)) (take i ks))"
    if "ik \<in> set (enumerate 0 ks)" for ik
  proof -
    obtain i k1 where ik: "ik = (i, k1)" by (cases ik)
    with that have "i < length ks" by (simp add: in_set_enumerate_eq)
    then show ?thesis by (simp add: ik)
  qed
  then show ?thesis
    by (simp add: symmetric_terms_def enumerate_append_eq cong: map_cong)
qed

lemma sum_list_symmetric_terms:
  fixes T :: "'k \<Rightarrow> 'k \<Rightarrow> 'a::comm_monoid_add"
  assumes "\<And>i j. i < length ks \<Longrightarrow> j < i \<Longrightarrow> T (ks ! j) (ks ! i) = adj (T (ks ! i) (ks ! j))"
  shows "sum_list (symmetric_terms adj T ks) = (\<Sum>x\<leftarrow>ks. \<Sum>y\<leftarrow>ks. T x y)"
  using assms
proof (induction ks rule: rev_induct)
  case Nil
  show ?case by (simp add: symmetric_terms_def)
next
  case (snoc k ks)
  have IH: "sum_list (symmetric_terms adj T ks) = (\<Sum>x\<leftarrow>ks. \<Sum>y\<leftarrow>ks. T x y)"
  proof (rule snoc.IH)
    fix i j assume "i < length ks" "j < i"
    then show "T (ks ! j) (ks ! i) = adj (T (ks ! i) (ks ! j))"
      using snoc.prems[of i j] by (simp add: nth_append)
  qed
  have mirror: "adj (T k k2) = T k2 k" if "k2 \<in> set ks" for k2
  proof -
    from that obtain j where j: "j < length ks" "ks ! j = k2"
      by (auto simp: in_set_conv_nth)
    with snoc.prems[of "length ks" j] show ?thesis
      by (simp add: nth_append)
  qed
  have last: "map (\<lambda>k2. T k k2 + adj (T k k2)) ks = map (\<lambda>k2. T k k2 + T k2 k) ks"
    by (rule map_cong[OF refl]) (simp add: mirror)
  show ?case
    by (simp add: symmetric_terms_snoc IH last sum_list_addf ac_simps)
qed

lemma crossexps_symmetric_values:
  assumes "\<And>k1 k2. k1 \<in> set (kernels kern1) \<Longrightarrow> k2 \<in> set (kernels kern1) \<Longrightarrow>
             E (p, Kern k1, feat1, Kern k2, feat1, g) = Inr (T k1 k2)"
  shows "crossexps_symmetric adj E p kern1 feat1 feat1 g =
         map Inr (symmetric_terms adj T (kernels kern1))"
proof -
  have "(case ik of (i, k1) \<Rightarrow>
           E (p, Kern k1, feat1, Kern k1, feat1, g) #
           map (\<lambda>k2. bind_err (E (p, Kern k1, feat1, Kern k2, feat1, g))
                        (\<lambda>eKK. Inr (eKK + adj eKK)))
               (take i (kernels kern1))) =
        map Inr (case ik of (i, k1) \<Rightarrow>
           T k1 k1 # map (\<lambda>k2. T k1 k2 + adj (T k1 k2)) (take i (kernels kern1)))"
    if "ik \<in> set (enumerate 0 (kernels kern1))" for ik
  proof -
    obtain i k1 where ik: "ik = (i, k1)" by (cases ik)
    with that have k1: "k1 \<in> set (kernels kern1)"
      by (auto simp: in_set_enumerate_eq)
    have "E (p, Kern k1, feat1, Kern k2, feat1, g) = Inr (T k1 k2)"
      if "k2 \<in> set (take i (kernels kern1))" for k2
      using that k1 assms by (blast dest: in_set_takeD)
    then show ?thesis
      using k1 assms by (simp add: ik cong: map_cong)
  qed
  then show ?thesis
    unfolding crossexps_symmetric_def symmetric_terms_def
    by (simp add: map_concat cong: map_cong)
qed

lemma crossexps_product_values:
  assumes "\<And>k1 k2. k1 \<in> set (kernels kern1) \<Longrightarrow> k2 \<in> set (kernels kern2) \<Longrightarrow>
             E (p, Kern k1, feat1, Kern k2, feat2, g) = Inr (T k1 k2)"
  shows "crossexps_product E p kern1 feat1 kern2 feat2 g =
         map Inr (map (\<lambda>(k1, k2). T k1 k2) (List.product (kernels kern1) (kernels kern2)))"
  unfolding crossexps_product_def map_map
  by (rule map_cong[OF refl]) (auto simp: assms)

lemma symmetric_terms_Nil_iff: "symmetric_terms adj T ks = [] \<longleftrightarrow> ks = []"
  by (cases ks) (simp_all add: symmetric_terms_def enumerate_eq_zip upt_conv_Cons del: upt_Suc)

lemma reduce_hd_tl: "xs \<noteq> [] \<Longrightarrow> reduce f xs = Inr (foldl f (hd xs) (tl xs))"
  by (cases xs) simp_all

lemma symmetric_terms_Cons_hd:
  "hd (symmetric_terms adj T (k0 # rest)) = T k0 k0"
  by (simp add: symmetric_terms_def enumerate_eq_zip upt_conv_Cons del: upt_Suc)

subsection \<open>Claim C1: the symmetric path agrees with the brute-force path\<close>

text \<open>
  C1.  Take a Gaussian or DiagonalGaussian input distribution and a cross-covariance request
  over two Sum kernels with inducing points in which both kernel operands are the same object
  and both inducing variables are the same object, so that the code takes the branch that
  evaluates only the terms \<open>(i, i)\<close> and \<open>(i, j)\<close> with \<open>j < i\<close> and adds to each of the latter
  its adjoint.  Tensors are taken in exact arithmetic (a commutative monoid under
  \<^verbatim>\<open>tf.add\<close>).  If every child pair evaluates to a tensor \<open>T k1 k2\<close> and the term of a
  mirrored pair is the adjoint of the term of the pair, the request returns what the
  brute-force branch returns on the same operands: the reduction of all terms of the
  Cartesian product of the children.  With no children both raise the same \<open>TypeError\<close>.
\<close>

theorem symmetric_path_equals_brute_force:
  fixes base :: "'v request \<Rightarrow> error + 'a::comm_monoid_add"
  assumes dist: "p = Gaussian v \<or> p = DiagonalGaussian v"
    and kern1: "kern1 = Kern (Sum i ks)"
    and feat1: "feat1 = Some (InducingPoints a z)"
    and same: "kern2 = kern1" "feat2 = feat1"
    and terms: "\<And>k1 k2. k1 \<in> set ks \<Longrightarrow> k2 \<in> set ks \<Longrightarrow>
        expectation base adj (p, Kern k1, feat1, Kern k2, feat1, g) = Inr (T k1 k2)"
    and mirror: "\<And>m n. m < length ks \<Longrightarrow> n < m \<Longrightarrow>
        T (ks ! n) (ks ! m) = adj (T (ks ! m) (ks ! n))"
  shows "expectation base adj (p, kern1, feat1, kern2, feat2, g) =
         bind_err (sequence (crossexps_product (expectation base adj) p kern1 feat1 kern2 feat2 g))
           (reduce (+))"
proof -
  let ?E = "expectation base adj"
  have ks: "kernels kern1 = ks" by (simp add: kern1)
  have sym: "crossexps_symmetric adj ?E p kern1 feat1 feat1 g = map Inr (symmetric_terms adj T ks)"
    using crossexps_symmetric_values[of kern1 ?E p feat1 g T adj] terms by (simp add: ks)
  have prod: "crossexps_product ?E p kern1 feat1 kern1 feat1 g =
      map Inr (map (\<lambda>(k1, k2). T k1 k2) (List.product ks ks))"
    using crossexps_product_values[of kern1 kern1 ?E p feat1 feat1 g T] terms by (simp add: ks)
  have lhs: "?E (p, kern1, feat1, kern1, feat1, g) =
      bind_err (sequence (crossexps_symmetric adj ?E p kern1 feat1 feat1 g)) (reduce (+))"
    using dist by (auto simp: kern1 feat1 expectation_Sum_Z_Sum_Z E_Sum_Z_Sum_Z_def)
  show ?thesis
  proof (cases "ks = []")
    case True
    then show ?thesis
      by (simp add: lhs same sym prod symmetric_terms_def)
  next
    case False
    then have ne: "symmetric_terms adj T ks \<noteq> []" "List.product ks ks \<noteq> []"
      by (simp_all add: symmetric_terms_Nil_iff) (cases ks; simp)
    have "sum_list (symmetric_terms adj T ks) = (\<Sum>x\<leftarrow>ks. \<Sum>y\<leftarrow>ks. T x y)"
      by (rule sum_list_symmetric_terms) (rule mirror)
    also have "\<dots> = sum_list (map (\<lambda>(k1, k2). T k1 k2) (List.product ks ks))"
      by (simp add: sum_list_product)
    finally show ?thesis
      using ne by (simp add: lhs same sym prod sequence_Inr sequence_Inr_comp reduce_sum_list)
  qed
qed

text \<open>
  The theorem at a Sum of two atomic kernels over \<open>1 \<times> 1\<close> complex tensors: the terms are
  \<open>1\<close>, \<open>4\<close>, \<open>2 - \<i>\<close> and \<open>2 + \<i>\<close>, and both paths return \<open>9\<close>.
\<close>

theorem symmetric_path_equals_brute_force_witness:
  "expectation example_base cnj
     (Gaussian (), Kern (Sum 0 example_kernels), example_Z, Kern (Sum 0 example_kernels),
      example_Z, None) =
   bind_err (sequence (crossexps_product (expectation example_base cnj) (Gaussian ())
       (Kern (Sum 0 example_kernels)) example_Z (Kern (Sum 0 example_kernels)) example_Z None))
     (reduce (+)) \<and>
   expectation example_base cnj
     (Gaussian (), Kern (Sum 0 example_kernels), example_Z, Kern (Sum 0 example_kernels),
      example_Z, None) = Inr 9"
proof -
  let ?T = "\<lambda>k1 k2. Complex (real (kid k1 * kid k2)) (real (kid k1) - real (kid k2))"
  have terms: "expectation example_base cnj (Gaussian (), Kern k1, example_Z, Kern k2, example_Z, None) =
      Inr (?T k1 k2)"
    if "k1 \<in> set example_kernels" "k2 \<in> set example_kernels" for k1 k2
    using that by (auto simp: example_kernels_def expectation_atomic_pair)
  have eq: "expectation example_base cnj
     (Gaussian (), Kern (Sum 0 example_kernels), example_Z, Kern (Sum 0 example_kernels),
      example_Z, None) =
   bind_err (sequence (crossexps_product (expectation example_base cnj) (Gaussian ())
       (Kern (Sum 0 example_kernels)) example_Z (Kern (Sum 0 example_kernels)) example_Z None))
     (reduce (+))"
    by (rule symmetric_path_equals_brute_force[where v="()" and i=0 and ks=example_kernels
          and a=7 and z="()" and T="?T"])
       (simp_all add: example_Z_def terms[unfolded example_Z_def] complex_eq_iff mult.commute)
  have "bind_err (sequence (crossexps_product (expectation example_base cnj) (Gaussian ())
       (Kern (Sum 0 example_kernels)) example_Z (Kern (Sum 0 example_kernels)) example_Z None))
     (reduce (+)) = Inr 9"
    by (simp add: crossexps_product_def example_kernels_def expectation_atomic_pair complex_eq_iff)
  with eq show ?thesis by simp
qed

subsection \<open>Claim C2: the symmetric branch is chosen by object identity\<close>

text \<open>
  C2.  The double-Sum-kernel rule takes the symmetric branch exactly when the two kernel
  operands have the same object identifier and the two inducing variables have the same
  object identifier; the children and parameter values play no part in the test.  In
  particular, two operands with equal children and equal inducing points that are distinct
  objects are evaluated over the full Cartesian product of the children, one request per pair.
\<close>

theorem symmetry_branch_iff_reference_identity:
  fixes base :: "'v request \<Rightarrow> error + 'a::plus"
  assumes dist: "p = Gaussian v \<or> p = DiagonalGaussian v"
    and kern1: "kern1 = Kern (Sum i ks1)" and kern2: "kern2 = Kern (Sum j ks2)"
    and feat1: "feat1 = Some (InducingPoints a z1)" and feat2: "feat2 = Some (InducingPoints b z2)"
  shows "expectation base adj (p, kern1, feat1, kern2, feat2, g) =
           bind_err
             (sequence
               (if i = j \<and> a = b
                then crossexps_symmetric adj (expectation base adj) p kern1 feat1 feat2 g
                else crossexps_product (expectation base adj) p kern1 feat1 kern2 feat2 g))
             (reduce (+)) \<and>
         (ks1 = ks2 \<and> z1 = z2 \<and> (i \<noteq> j \<or> a \<noteq> b) \<longrightarrow>
          expectation base adj (p, kern1, feat1, kern2, feat2, g) =
            bind_err
              (sequence (map (\<lambda>(k1, k2). expectation base adj (p, Kern k1, feat1, Kern k2, feat2, g))
                 (List.product ks1 ks1)))
              (reduce (+)))"
  using dist unfolding kern1 kern2 feat1 feat2
  by (auto simp: expectation_Sum_Z_Sum_Z E_Sum_Z_Sum_Z_def crossexps_product_def)

text \<open>
  With formal expressions as tensors: two Sum kernels that are distinct objects with the same
  children are evaluated over all four pairs, the same object against itself over the two
  diagonal terms and one combined term.
\<close>

theorem symmetry_branch_iff_reference_identity_witness:
  "expectation trace_base Adj
     (Gaussian (), Kern (Sum 0 example_kernels), example_Z, Kern (Sum 5 example_kernels),
      example_Z, None) =
   Inr (Add (Add (Add (Leaf 11) (Leaf 12)) (Leaf 21)) (Leaf 22)) \<and>
   expectation trace_base Adj
     (Gaussian (), Kern (Sum 0 example_kernels), example_Z, Kern (Sum 0 example_kernels),
      example_Z, None) =
   Inr (Add (Add (Leaf 11) (Leaf 22)) (Add (Leaf 21) (Adj (Leaf 21))))"
proof -
  have distinct: "expectation trace_base Adj
     (Gaussian (), Kern (Sum 0 example_kernels), example_Z, Kern (Sum 5 example_kernels),
      example_Z, None) =
     bind_err
       (sequence (map (\<lambda>(k1, k2). expectation trace_base Adj
            (Gaussian (), Kern k1, example_Z, Kern k2, example_Z, None))
          (List.product example_kernels example_kernels)))
       (reduce (+))"
    by (rule symmetry_branch_iff_reference_identity[where v="()" and a=7 and b=7
          and ?z1.0="()" and ?z2.0="()" and i=0 and j=5 and p="Gaussian ()"
          and ?kern1.0="Kern (Sum 0 example_kernels)" and ?kern2.0="Kern (Sum 5 example_kernels)"
          and ?feat1.0=example_Z and ?feat2.0=example_Z and base=trace_base and adj=Adj
          and ?ks1.0=example_kernels and ?ks2.0=example_kernels
          and g=None, THEN conjunct2, rule_format])
       (simp_all add: example_Z_def)
  have "expectation trace_base Adj
     (Gaussian (), Kern (Sum 0 example_kernels), example_Z, Kern (Sum 0 example_kernels),
      example_Z, None) =
     bind_err
       (sequence
         (if (0::nat) = 0 \<and> (7::nat) = 7
          then crossexps_symmetric Adj (expectation trace_base Adj) (Gaussian ())
                 (Kern (Sum 0 example_kernels)) example_Z example_Z None
          else crossexps_product (expectation trace_base Adj) (Gaussian ())
                 (Kern (Sum 0 example_kernels)) example_Z (Kern (Sum 0 example_kernels))
                 example_Z None))
       (reduce (+))"
    by (rule symmetry_branch_iff_reference_identity[where v="()" and a=7 and b=7
          and ?z1.0="()" and ?z2.0="()" and i=0 and j=0 and p="Gaussian ()"
          and ?kern1.0="Kern (Sum 0 example_kernels)" and ?kern2.0="Kern (Sum 0 example_kernels)"
          and ?feat1.0=example_Z and ?feat2.0=example_Z and base=trace_base and adj=Adj
          and ?ks1.0=example_kernels and ?ks2.0=example_kernels
          and g=None, THEN conjunct1])
       (simp_all add: example_Z_def)
  then have same: "expectation trace_base Adj
     (Gaussian (), Kern (Sum 0 example_kernels), example_Z, Kern (Sum 0 example_kernels),
      example_Z, None) =
     bind_err (sequence (crossexps_symmetric Adj (expectation trace_base Adj) (Gaussian ())
       (Kern (Sum 0 example_kernels)) example_Z example_Z None)) (reduce (+))"
    by (simp only: simp_thms if_True)
  have v1: "bind_err
       (sequence (map (\<lambda>(k1, k2). expectation trace_base Adj
            (Gaussian (), Kern k1, example_Z, Kern k2, example_Z, None))
          (List.product example_kernels example_kernels)))
       (reduce (+)) = Inr (Add (Add (Add (Leaf 11) (Leaf 12)) (Leaf 21)) (Leaf 22))"
    by (simp add: example_kernels_def expectation_atomic_pair plus_expr_def)
  have v2: "bind_err (sequence (crossexps_symmetric Adj (expectation trace_base Adj) (Gaussian ())
       (Kern (Sum 0 example_kernels)) example_Z example_Z None)) (reduce (+)) =
     Inr (Add (Add (Leaf 11) (Leaf 22)) (Add (Leaf 21) (Adj (Leaf 21))))"
    by (simp add: example_kernels_def expectation_atomic_pair crossexps_symmetric_def
        enumerate_eq_zip upt_conv_Cons plus_expr_def del: upt_Suc)
  show ?thesis
    unfolding distinct same v1 v2 by simp
qed

subsection \<open>Claim C3: the expectation of a Sum kernel is the sum over its children\<close>

text \<open>
  C3.  Each of the four rules for a single Sum kernel, on its own: the diagonal
  self-expectation, the cross term against inducing points, the mean-function-times-kernel
  cross term and the Markov-chain variant.  If the kernel operand is a Sum kernel with a
  non-empty child list and the request of that kind for every child, made through the same entry
  point with all other operands unchanged, returns a tensor, then the request for the Sum kernel
  returns the sum of these tensors.  No rule needs the child requests of another kind.  The
  other operands are any that the dispatcher sends to the rule: an inducing variable that is an
  instance of \<^verbatim>\<open>InducingPoints\<close>, a mean function that is an instance of \<^verbatim>\<open>Linear\<close>, \<^verbatim>\<open>Identity\<close>
  or \<^verbatim>\<open>Constant\<close> (a \<^verbatim>\<open>Zero\<close> mean is one), and for the Markov rule an instance of \<^verbatim>\<open>Identity\<close>.
\<close>

theorem sum_kernel_linearity:
  fixes base :: "'v request \<Rightarrow> error + 'a::comm_monoid_add"
  assumes ne: "ks \<noteq> []"
  shows "((\<forall>k\<in>set ks. expectation base adj (Gaussian v, Kern k, None, NoObj, None, g) = Inr (T1 k)) \<longrightarrow>
            expectation base adj (Gaussian v, Kern (Sum i ks), None, NoObj, None, g) =
              Inr (\<Sum>k\<leftarrow>ks. T1 k)) \<and>
         (issubclass (type_of_feat featZ) InducingPointsT \<and>
          (\<forall>k\<in>set ks. expectation base adj (Gaussian v, Kern k, featZ, NoObj, None, g) = Inr (T2 k)) \<longrightarrow>
            expectation base adj (Gaussian v, Kern (Sum i ks), featZ, NoObj, None, g) =
              Inr (\<Sum>k\<leftarrow>ks. T2 k)) \<and>
         (list_ex (issubclass (type_of_mean meanG)) [LinearT, IdentityT, ConstantT] \<and>
          issubclass (type_of_feat featG) InducingPointsT \<and>
          (\<forall>k\<in>set ks. expectation base adj (Gaussian v, Mean meanG, None, Kern k, featG, g) =
             Inr (T3 k)) \<longrightarrow>
            expectation base adj (Gaussian v, Mean meanG, None, Kern (Sum i ks), featG, g) =
              Inr (\<Sum>k\<leftarrow>ks. T3 k)) \<and>
         (issubclass (type_of_mean meanM) IdentityT \<and>
          issubclass (type_of_feat featM) InducingPointsT \<and>
          (\<forall>k\<in>set ks. expectation base adj (MarkovGaussian v, Mean meanM, None, Kern k, featM, g) =
             Inr (T4 k)) \<longrightarrow>
            expectation base adj (MarkovGaussian v, Mean meanM, None, Kern (Sum i ks), featM, g) =
              Inr (\<Sum>k\<leftarrow>ks. T4 k))"
proof (intro conjI impI; (elim conjE)?)
  assume T: "\<forall>k\<in>set ks. expectation base adj (Gaussian v, Kern k, None, NoObj, None, g) = Inr (T1 k)"
  have "sequence (map (\<lambda>k. expectation base adj (Gaussian v, Kern k, None, NoObj, None, g)) ks) =
      Inr (map T1 ks)"
    by (rule sequence_map_Inr) (use T in simp)
  then show "expectation base adj (Gaussian v, Kern (Sum i ks), None, NoObj, None, g) =
      Inr (\<Sum>k\<leftarrow>ks. T1 k)"
    using ne by (simp add: expectation_Sum_diag E_Sum_diag_def reduce_sum_list)
next
  assume Z: "issubclass (type_of_feat featZ) InducingPointsT"
    and T: "\<forall>k\<in>set ks. expectation base adj (Gaussian v, Kern k, featZ, NoObj, None, g) = Inr (T2 k)"
  have "sequence (map (\<lambda>k. expectation base adj (Gaussian v, Kern k, featZ, NoObj, None, g)) ks) =
      Inr (map T2 ks)"
    by (rule sequence_map_Inr) (use T in simp)
  then show "expectation base adj (Gaussian v, Kern (Sum i ks), featZ, NoObj, None, g) =
      Inr (\<Sum>k\<leftarrow>ks. T2 k)"
    using ne by (simp add: expectation_Sum_Z_sub[OF Z] E_Sum_Z_def reduce_sum_list)
next
  assume m: "list_ex (issubclass (type_of_mean meanG)) [LinearT, IdentityT, ConstantT]"
    and Z: "issubclass (type_of_feat featG) InducingPointsT"
    and T: "\<forall>k\<in>set ks. expectation base adj (Gaussian v, Mean meanG, None, Kern k, featG, g) =
        Inr (T3 k)"
  have "sequence (map (\<lambda>k. expectation base adj (Gaussian v, Mean meanG, None, Kern k, featG, g)) ks) =
      Inr (map T3 ks)"
    by (rule sequence_map_Inr) (use T in simp)
  then show "expectation base adj (Gaussian v, Mean meanG, None, Kern (Sum i ks), featG, g) =
      Inr (\<Sum>k\<leftarrow>ks. T3 k)"
    using ne by (simp add: expectation_mean_Sum_Z_sub[OF m Z] E_mean_Sum_Z_def reduce_sum_list)
next
  assume m: "issubclass (type_of_mean meanM) IdentityT"
    and Z: "issubclass (type_of_feat featM) InducingPointsT"
    and T: "\<forall>k\<in>set ks. expectation base adj (MarkovGaussian v, Mean meanM, None, Kern k, featM, g) =
        Inr (T4 k)"
  have "sequence (map (\<lambda>k. expectation base adj (MarkovGaussian v, Mean meanM, None, Kern k, featM, g))
      ks) = Inr (map T4 ks)"
    by (rule sequence_map_Inr) (use T in simp)
  then show "expectation base adj (MarkovGaussian v, Mean meanM, None, Kern (Sum i ks), featM, g) =
      Inr (\<Sum>k\<leftarrow>ks. T4 k)"
    using ne by (simp add: expectation_Markov_Sum_Z_sub[OF m Z] E_Markov_Sum_Z_def reduce_sum_list)
qed

text \<open>
  The four requests at a Sum of the atomic kernels 1 and 2, whose expectations are \<open>1\<close> and
  \<open>2\<close>, with \<^verbatim>\<open>InducingPatches\<close> and with a \<^verbatim>\<open>Zero\<close> mean among the operands: each returns
  \<open>3\<close>.  The diagonal request also returns \<open>3\<close> over base rules that refuse every Markov
  request.
\<close>

theorem sum_kernel_linearity_witness:
  "expectation example_base cnj
     (Gaussian (), Kern (Sum 0 example_kernels), None, NoObj, None, None) = Inr 3 \<and>
   expectation example_base cnj
     (Gaussian (), Kern (Sum 0 example_kernels), Some (InducingPatches 8 ()), NoObj, None, None) =
     Inr 3 \<and>
   expectation example_base cnj
     (Gaussian (), Mean Zero, None, Kern (Sum 0 example_kernels), example_Z, None) = Inr 3 \<and>
   expectation example_base cnj
     (MarkovGaussian (), Mean Identity, None, Kern (Sum 0 example_kernels), example_Z, None) =
     Inr 3 \<and>
   expectation gaussian_only_base cnj
     (Gaussian (), Kern (Sum 0 example_kernels), None, NoObj, None, None) = Inr 3 \<and>
   expectation gaussian_only_base cnj
     (MarkovGaussian (), Mean Identity, None, Kern (Atomic 1 ()), example_Z, None) =
     Inl UnsupportedExpectation"
proof -
  let ?T = "\<lambda>k :: unit kernel. (of_nat (kid k) :: complex)"
  have s: "(\<Sum>k\<leftarrow>example_kernels. ?T k) = 3"
    by (simp add: example_kernels_def)
  have ne: "example_kernels \<noteq> []"
    by (simp add: example_kernels_def)
  note lin = sum_kernel_linearity[OF ne, where base=example_base and adj=cnj and v="()"
      and g=None and i=0 and ?T1.0="?T" and ?T2.0="?T" and ?T3.0="?T" and ?T4.0="?T"
      and featZ="Some (InducingPatches 8 ())" and meanG=Zero and featG=example_Z
      and meanM=Identity and featM=example_Z]
  have 1: "expectation example_base cnj
     (Gaussian (), Kern (Sum 0 example_kernels), None, NoObj, None, None) = Inr 3"
    unfolding s[symmetric]
    by (rule lin[THEN conjunct1, rule_format])
       (auto simp: example_kernels_def expectation_atomic_single)
  have 2: "expectation example_base cnj
     (Gaussian (), Kern (Sum 0 example_kernels), Some (InducingPatches 8 ()), NoObj, None, None) =
     Inr 3"
    unfolding s[symmetric]
    by (rule lin[THEN conjunct2, THEN conjunct1, rule_format])
       (auto simp: example_kernels_def expectation_atomic_single issubclass_def)
  have 3: "expectation example_base cnj
     (Gaussian (), Mean Zero, None, Kern (Sum 0 example_kernels), example_Z, None) = Inr 3"
    unfolding s[symmetric]
    by (rule lin[THEN conjunct2, THEN conjunct2, THEN conjunct1, rule_format])
       (auto simp: example_kernels_def example_Z_def expectation_mean_atomic issubclass_def)
  have 4: "expectation example_base cnj
     (MarkovGaussian (), Mean Identity, None, Kern (Sum 0 example_kernels), example_Z, None) =
     Inr 3"
    unfolding s[symmetric]
    by (rule lin[THEN conjunct2, THEN conjunct2, THEN conjunct2, rule_format])
       (auto simp: example_kernels_def example_Z_def expectation_mean_atomic issubclass_def)
  have 5: "expectation gaussian_only_base cnj
     (Gaussian (), Kern (Sum 0 example_kernels), None, NoObj, None, None) = Inr 3"
    unfolding s[symmetric]
    by (rule sum_kernel_linearity[OF ne, where base=gaussian_only_base and ?T1.0="?T",
          THEN conjunct1, rule_format])
       (auto simp: example_kernels_def expectation_atomic_single)
  have 6: "expectation gaussian_only_base cnj
     (MarkovGaussian (), Mean Identity, None, Kern (Atomic 1 ()), example_Z, None) =
     Inl UnsupportedExpectation"
    by (simp add: expectation_mean_atomic)
  from 1 2 3 4 5 6 show ?thesis by (intro conjI)
qed

subsection \<open>Claim C7: the order of accumulation\<close>

text \<open>
  C7.  Every Sum-kernel rule adds its terms by a left-to-right fold, starting from the first
  term.  For each of the four single-kernel rules the terms are the child results in the order
  of the Sum's child list.  For the double rule on operands that are not the same objects they
  are the pair results in the order of the Cartesian product of the two child lists, which may
  differ, the first kernel's child varying slowest; on the same object they are the diagonal and
  combined terms in the order of the symmetric branch.  Each rule is stated on its own, for any
  operands that the dispatcher sends to it, and needs the child requests of its own kind only.
  Nothing is assumed of the addition, so the result is one fixed expression in the child
  results: repeated calls with the same inputs add in the same order and return the same value.
\<close>

theorem sum_accumulation_order:
  fixes base :: "'v request \<Rightarrow> error + 'a::plus"
  assumes ks: "ks = k0 # rest"
  shows "((\<forall>k\<in>set ks. expectation base adj (Gaussian v, Kern k, None, NoObj, None, g) = Inr (T1 k)) \<longrightarrow>
            expectation base adj (Gaussian v, Kern (Sum i ks), None, NoObj, None, g) =
              Inr (foldl (+) (T1 k0) (map T1 rest))) \<and>
         (issubclass (type_of_feat featZ) InducingPointsT \<and>
          (\<forall>k\<in>set ks. expectation base adj (Gaussian v, Kern k, featZ, NoObj, None, g) = Inr (T2 k)) \<longrightarrow>
            expectation base adj (Gaussian v, Kern (Sum i ks), featZ, NoObj, None, g) =
              Inr (foldl (+) (T2 k0) (map T2 rest))) \<and>
         (list_ex (issubclass (type_of_mean meanG)) [LinearT, IdentityT, ConstantT] \<and>
          issubclass (type_of_feat featG) InducingPointsT \<and>
          (\<forall>k\<in>set ks. expectation base adj (Gaussian v, Mean meanG, None, Kern k, featG, g) =
             Inr (T3 k)) \<longrightarrow>
            expectation base adj (Gaussian v, Mean meanG, None, Kern (Sum i ks), featG, g) =
              Inr (foldl (+) (T3 k0) (map T3 rest))) \<and>
         (issubclass (type_of_mean meanM) IdentityT \<and>
          issubclass (type_of_feat featM) InducingPointsT \<and>
          (\<forall>k\<in>set ks. expectation base adj (MarkovGaussian v, Mean meanM, None, Kern k, featM, g) =
             Inr (T4 k)) \<longrightarrow>
            expectation base adj (MarkovGaussian v, Mean meanM, None, Kern (Sum i ks), featM, g) =
              Inr (foldl (+) (T4 k0) (map T4 rest))) \<and>
         ((p = Gaussian v \<or> p = DiagonalGaussian v) \<and>
          issubclass (type_of_feat feat1) InducingPointsT \<and>
          issubclass (type_of_feat feat2) InducingPointsT \<and>
          \<not> (i = j \<and> feat_eq feat1 feat2) \<and> ks' = k0' # rest' \<and>
          (\<forall>k1\<in>set ks. \<forall>k2\<in>set ks'.
             expectation base adj (p, Kern k1, feat1, Kern k2, feat2, g) = Inr (U k1 k2)) \<longrightarrow>
            expectation base adj (p, Kern (Sum i ks), feat1, Kern (Sum j ks'), feat2, g) =
              Inr (foldl (+) (U k0 k0')
                     (tl (map (\<lambda>(k1, k2). U k1 k2) (List.product ks ks'))))) \<and>
         ((p = Gaussian v \<or> p = DiagonalGaussian v) \<and>
          issubclass (type_of_feat feat1) InducingPointsT \<and>
          (\<forall>k1\<in>set ks. \<forall>k2\<in>set ks.
             expectation base adj (p, Kern k1, feat1, Kern k2, feat1, g) = Inr (S k1 k2)) \<longrightarrow>
            expectation base adj (p, Kern (Sum i ks), feat1, Kern (Sum i ks), feat1, g) =
              Inr (foldl (+) (S k0 k0) (tl (symmetric_terms adj S ks))))"
proof (intro conjI impI; (elim conjE)?)
  let ?E = "expectation base adj"
  {
    assume T: "\<forall>k\<in>set ks. ?E (Gaussian v, Kern k, None, NoObj, None, g) = Inr (T1 k)"
    have "sequence (map (\<lambda>k. ?E (Gaussian v, Kern k, None, NoObj, None, g)) ks) = Inr (map T1 ks)"
      by (rule sequence_map_Inr) (use T in simp)
    then show "?E (Gaussian v, Kern (Sum i ks), None, NoObj, None, g) =
        Inr (foldl (+) (T1 k0) (map T1 rest))"
      by (simp add: expectation_Sum_diag E_Sum_diag_def ks)
  }
  {
    assume Z: "issubclass (type_of_feat featZ) InducingPointsT"
      and T: "\<forall>k\<in>set ks. ?E (Gaussian v, Kern k, featZ, NoObj, None, g) = Inr (T2 k)"
    have "sequence (map (\<lambda>k. ?E (Gaussian v, Kern k, featZ, NoObj, None, g)) ks) = Inr (map T2 ks)"
      by (rule sequence_map_Inr) (use T in simp)
    then show "?E (Gaussian v, Kern (Sum i ks), featZ, NoObj, None, g) =
        Inr (foldl (+) (T2 k0) (map T2 rest))"
      by (simp add: expectation_Sum_Z_sub[OF Z] E_Sum_Z_def ks)
  }
  {
    assume m: "list_ex (issubclass (type_of_mean meanG)) [LinearT, IdentityT, ConstantT]"
      and Z: "issubclass (type_of_feat featG) InducingPointsT"
      and T: "\<forall>k\<in>set ks. ?E (Gaussian v, Mean meanG, None, Kern k, featG, g) = Inr (T3 k)"
    have "sequence (map (\<lambda>k. ?E (Gaussian v, Mean meanG, None, Kern k, featG, g)) ks) =
        Inr (map T3 ks)"
      by (rule sequence_map_Inr) (use T in simp)
    then show "?E (Gaussian v, Mean meanG, None, Kern (Sum i ks), featG, g) =
        Inr (foldl (+) (T3 k0) (map T3 rest))"
      by (simp add: expectation_mean_Sum_Z_sub[OF m Z] E_mean_Sum_Z_def ks)
  }
  {
    assume m: "issubclass (type_of_mean meanM) IdentityT"
      and Z: "issubclass (type_of_feat featM) InducingPointsT"
      and T: "\<forall>k\<in>set ks. ?E (MarkovGaussian v, Mean meanM, None, Kern k, featM, g) = Inr (T4 k)"
    have "sequence (map (\<lambda>k. ?E (MarkovGaussian v, Mean meanM, None, Kern k, featM, g)) ks) =
        Inr (map T4 ks)"
      by (rule sequence_map_Inr) (use T in simp)
    then show "?E (MarkovGaussian v, Mean meanM, None, Kern (Sum i ks), featM, g) =
        Inr (foldl (+) (T4 k0) (map T4 rest))"
      by (simp add: expectation_Markov_Sum_Z_sub[OF m Z] E_Markov_Sum_Z_def ks)
  }
  {
    assume dist: "p = Gaussian v \<or> p = DiagonalGaussian v"
      and Z1: "issubclass (type_of_feat feat1) InducingPointsT"
      and Z2: "issubclass (type_of_feat feat2) InducingPointsT"
      and ne: "\<not> (i = j \<and> feat_eq feat1 feat2)"
      and ks': "ks' = k0' # rest'"
      and U: "\<forall>k1\<in>set ks. \<forall>k2\<in>set ks'. ?E (p, Kern k1, feat1, Kern k2, feat2, g) = Inr (U k1 k2)"
    have prod: "crossexps_product ?E p (Kern (Sum i ks)) feat1 (Kern (Sum j ks')) feat2 g =
        map Inr (map (\<lambda>(k1, k2). U k1 k2) (List.product ks ks'))"
      using crossexps_product_values[of "Kern (Sum i ks)" "Kern (Sum j ks')" ?E p feat1 feat2 g U] U
      by simp
    have hdp: "map (\<lambda>(k1, k2). U k1 k2) (List.product ks ks') =
        U k0 k0' # tl (map (\<lambda>(k1, k2). U k1 k2) (List.product ks ks'))"
      by (simp add: ks ks')
    have "?E (p, Kern (Sum i ks), feat1, Kern (Sum j ks'), feat2, g) =
        bind_err (sequence (crossexps_product ?E p (Kern (Sum i ks)) feat1 (Kern (Sum j ks')) feat2 g))
          (reduce (+))"
      using ne by (auto simp: expectation_Sum_Z_Sum_Z_sub[OF dist Z1 Z2] E_Sum_Z_Sum_Z_def)
    also have "\<dots> = reduce (+) (map (\<lambda>(k1, k2). U k1 k2) (List.product ks ks'))"
      unfolding prod by (simp only: sequence_Inr bind_err_Inr)
    also have "\<dots> = Inr (foldl (+) (U k0 k0')
        (tl (map (\<lambda>(k1, k2). U k1 k2) (List.product ks ks'))))"
      by (subst hdp) (simp only: reduce.simps)
    finally show "?E (p, Kern (Sum i ks), feat1, Kern (Sum j ks'), feat2, g) =
        Inr (foldl (+) (U k0 k0') (tl (map (\<lambda>(k1, k2). U k1 k2) (List.product ks ks'))))" .
  }
  {
    assume dist: "p = Gaussian v \<or> p = DiagonalGaussian v"
      and Z1: "issubclass (type_of_feat feat1) InducingPointsT"
      and S: "\<forall>k1\<in>set ks. \<forall>k2\<in>set ks. ?E (p, Kern k1, feat1, Kern k2, feat1, g) = Inr (S k1 k2)"
    have sym: "crossexps_symmetric adj ?E p (Kern (Sum i ks)) feat1 feat1 g =
        map Inr (symmetric_terms adj S ks)"
      using crossexps_symmetric_values[of "Kern (Sum i ks)" ?E p feat1 g S adj] S by simp
    have hds: "symmetric_terms adj S ks = S k0 k0 # tl (symmetric_terms adj S ks)"
      using symmetric_terms_Cons_hd[of adj S k0 rest] symmetric_terms_Nil_iff[of adj S ks]
      by (cases "symmetric_terms adj S ks") (simp_all add: ks)
    have same: "feat_eq feat1 feat1"
      using Z1 by (auto simp: is_points_cases)
    have "?E (p, Kern (Sum i ks), feat1, Kern (Sum i ks), feat1, g) =
        bind_err (sequence (crossexps_symmetric adj ?E p (Kern (Sum i ks)) feat1 feat1 g)) (reduce (+))"
      using same by (simp add: expectation_Sum_Z_Sum_Z_sub[OF dist Z1 Z1] E_Sum_Z_Sum_Z_def)
    also have "\<dots> = reduce (+) (symmetric_terms adj S ks)"
      unfolding sym by (simp only: sequence_Inr bind_err_Inr)
    also have "\<dots> = Inr (foldl (+) (S k0 k0) (tl (symmetric_terms adj S ks)))"
      by (subst hds) (simp only: reduce.simps)
    finally show "?E (p, Kern (Sum i ks), feat1, Kern (Sum i ks), feat1, g) =
        Inr (foldl (+) (S k0 k0) (tl (symmetric_terms adj S ks)))" .
  }
qed

text \<open>
  With formal expressions as tensors, every result is a left-nested chain of additions in
  child order.  The product is taken between a Sum of three children and another Sum of two,
  with different inducing variables.
\<close>

theorem sum_accumulation_order_witness:
  "expectation trace_base Adj
     (Gaussian (), Kern (Sum 0 example_kernels3), None, NoObj, None, None) =
     Inr (Add (Add (Leaf 1) (Leaf 2)) (Leaf 3)) \<and>
   expectation trace_base Adj
     (Gaussian (), Kern (Sum 0 example_kernels3), Some (InducingPatches 8 ()), NoObj, None, None) =
     Inr (Add (Add (Leaf 1) (Leaf 2)) (Leaf 3)) \<and>
   expectation trace_base Adj
     (Gaussian (), Mean Zero, None, Kern (Sum 0 example_kernels3), example_Z, None) =
     Inr (Add (Add (Leaf 1) (Leaf 2)) (Leaf 3)) \<and>
   expectation trace_base Adj
     (MarkovGaussian (), Mean Identity, None, Kern (Sum 0 example_kernels3), example_Z, None) =
     Inr (Add (Add (Leaf 1) (Leaf 2)) (Leaf 3)) \<and>
   expectation trace_base Adj
     (DiagonalGaussian (), Kern (Sum 0 example_kernels3), example_Z, Kern (Sum 5 example_kernels),
      Some (InducingPatches 8 ()), None) =
     Inr (Add (Add (Add (Add (Add (Leaf 11) (Leaf 12)) (Leaf 21)) (Leaf 22)) (Leaf 31)) (Leaf 32)) \<and>
   expectation trace_base Adj
     (Gaussian (), Kern (Sum 0 example_kernels3), example_Z, Kern (Sum 0 example_kernels3),
      example_Z, None) =
     Inr (Add (Add (Add (Add (Add (Leaf 11) (Leaf 22)) (Add (Leaf 21) (Adj (Leaf 21))))
            (Leaf 33)) (Add (Leaf 31) (Adj (Leaf 31)))) (Add (Leaf 32) (Adj (Leaf 32))))"
proof -
  let ?T = "\<lambda>k :: unit kernel. Leaf (kid k)"
  let ?U = "\<lambda>k1 k2 :: unit kernel. Leaf (10 * kid k1 + kid k2)"
  let ?rest = "[Atomic 2 (), Atomic 3 ()] :: unit kernel list"
  let ?E = "expectation trace_base Adj"
  have ks: "example_kernels3 = Atomic 1 () # ?rest"
    by (simp add: example_kernels3_def)
  have chain: "foldl (+) (?T (Atomic 1 ())) (map ?T ?rest) = Add (Add (Leaf 1) (Leaf 2)) (Leaf 3)"
    by (simp add: plus_expr_def)
  have 1: "?E (Gaussian (), Kern (Sum 0 example_kernels3), None, NoObj, None, None) =
      Inr (foldl (+) (?T (Atomic 1 ())) (map ?T ?rest))"
    by (rule sum_accumulation_order[OF ks, where ?T1.0="?T", THEN conjunct1, rule_format])
       (auto simp: example_kernels3_def expectation_atomic_single)
  have 2: "?E (Gaussian (), Kern (Sum 0 example_kernels3), Some (InducingPatches 8 ()), NoObj, None,
        None) = Inr (foldl (+) (?T (Atomic 1 ())) (map ?T ?rest))"
    by (rule sum_accumulation_order[OF ks, where ?T2.0="?T", THEN conjunct2, THEN conjunct1,
          rule_format])
       (auto simp: example_kernels3_def expectation_atomic_single issubclass_def)
  have 3: "?E (Gaussian (), Mean Zero, None, Kern (Sum 0 example_kernels3), example_Z, None) =
      Inr (foldl (+) (?T (Atomic 1 ())) (map ?T ?rest))"
    by (rule sum_accumulation_order[OF ks, where ?T3.0="?T", THEN conjunct2, THEN conjunct2,
          THEN conjunct1, rule_format])
       (auto simp: example_kernels3_def example_Z_def expectation_mean_atomic issubclass_def)
  have 4: "?E (MarkovGaussian (), Mean Identity, None, Kern (Sum 0 example_kernels3), example_Z,
        None) = Inr (foldl (+) (?T (Atomic 1 ())) (map ?T ?rest))"
    by (rule sum_accumulation_order[OF ks, where ?T4.0="?T", THEN conjunct2, THEN conjunct2,
          THEN conjunct2, THEN conjunct1, rule_format])
       (auto simp: example_kernels3_def example_Z_def expectation_mean_atomic issubclass_def)
  have 5: "?E (DiagonalGaussian (), Kern (Sum 0 example_kernels3), example_Z,
        Kern (Sum 5 example_kernels), Some (InducingPatches 8 ()), None) =
      Inr (foldl (+) (?U (Atomic 1 ()) (Atomic 1 ()))
             (tl (map (\<lambda>(k1, k2). ?U k1 k2) (List.product example_kernels3 example_kernels))))"
    by (rule sum_accumulation_order[OF ks, where U="?U" and v="()" and rest'="[Atomic 2 ()]",
          THEN conjunct2, THEN conjunct2, THEN conjunct2, THEN conjunct2, THEN conjunct1,
          rule_format])
       (auto simp: example_kernels3_def example_kernels_def example_Z_def expectation_atomic_pair
          issubclass_def)
  have 6: "?E (Gaussian (), Kern (Sum 0 example_kernels3), example_Z, Kern (Sum 0 example_kernels3),
        example_Z, None) =
      Inr (foldl (+) (?U (Atomic 1 ()) (Atomic 1 ())) (tl (symmetric_terms Adj ?U example_kernels3)))"
    by (rule sum_accumulation_order[OF ks, where S="?U" and v="()",
          THEN conjunct2, THEN conjunct2, THEN conjunct2, THEN conjunct2, THEN conjunct2,
          rule_format])
       (auto simp: example_kernels3_def example_Z_def expectation_atomic_pair issubclass_def)
  have sym: "symmetric_terms Adj ?U example_kernels3 =
      [Leaf 11, Leaf 22, Add (Leaf 21) (Adj (Leaf 21)), Leaf 33,
       Add (Leaf 31) (Adj (Leaf 31)), Add (Leaf 32) (Adj (Leaf 32))]"
    by (simp add: symmetric_terms_def example_kernels3_def enumerate_eq_zip upt_conv_Cons
        plus_expr_def del: upt_Suc)
  have prod: "map (\<lambda>(k1, k2). ?U k1 k2) (List.product example_kernels3 example_kernels) =
      [Leaf 11, Leaf 12, Leaf 21, Leaf 22, Leaf 31, Leaf 32]"
    by (simp add: example_kernels3_def example_kernels_def)
  show ?thesis
    using 1 2 3 4 5 6 unfolding sym prod by (simp add: plus_expr_def)
qed

subsection \<open>Claim C9: what the registry of \<^verbatim>\<open>sums.py\<close> covers\<close>

text \<open>
  C9 (amended).  The module registers five signatures.  The diagonal rule, the inducing-point
  rule and the mean-times-kernel rule (means Linear, Identity or Constant) are registered for a
  Gaussian only, the Markov rule for the Identity mean only, and a DiagonalGaussian is accepted
  by the double Sum-kernel rule alone.  Matching is by subclass: an operand is accepted where
  its class or a superclass of it is registered, so a Zero mean is accepted as a Constant and
  InducingPatches are accepted as InducingPoints.  A type tuple that is not covered in this
  sense (a DiagonalGaussian diagonal or inducing-point request, a MarkovGaussian with a Linear,
  Constant or Zero mean) matches no rule of the module, and the request is left to the rules
  registered elsewhere.
\<close>

theorem sums_registry_coverage:
  "length registry = 5 \<and>
   (dispatch (d, a, b, c, e) = Some Rule_Sum_diag \<longleftrightarrow>
      d = GaussianT \<and> a = SumT \<and> b = NoneTypeT \<and> c = NoneTypeT \<and> e = NoneTypeT) \<and>
   (dispatch (d, a, b, c, e) = Some Rule_Sum_Z \<longleftrightarrow>
      d = GaussianT \<and> a = SumT \<and> b \<in> {InducingPointsT, InducingPatchesT} \<and> c = NoneTypeT \<and>
      e = NoneTypeT) \<and>
   (dispatch (d, a, b, c, e) = Some Rule_mean_Sum_Z \<longleftrightarrow>
      d = GaussianT \<and> a \<in> {LinearT, IdentityT, ConstantT, ZeroT} \<and> b = NoneTypeT \<and> c = SumT \<and>
      e \<in> {InducingPointsT, InducingPatchesT}) \<and>
   (dispatch (d, a, b, c, e) = Some Rule_Markov_Sum_Z \<longleftrightarrow>
      d = MarkovGaussianT \<and> a = IdentityT \<and> b = NoneTypeT \<and> c = SumT \<and>
      e \<in> {InducingPointsT, InducingPatchesT}) \<and>
   (dispatch (d, a, b, c, e) = Some Rule_Sum_Z_Sum_Z \<longleftrightarrow>
      d \<in> {GaussianT, DiagonalGaussianT} \<and> a = SumT \<and> b \<in> {InducingPointsT, InducingPatchesT} \<and>
      c = SumT \<and> e \<in> {InducingPointsT, InducingPatchesT}) \<and>
   (dispatch (d, a, b, c, e) = None \<longleftrightarrow>
      \<not> (d = GaussianT \<and> a = SumT \<and> b = NoneTypeT \<and> c = NoneTypeT \<and> e = NoneTypeT) \<and>
      \<not> (d = GaussianT \<and> a = SumT \<and> b \<in> {InducingPointsT, InducingPatchesT} \<and> c = NoneTypeT \<and>
         e = NoneTypeT) \<and>
      \<not> (d = GaussianT \<and> a \<in> {LinearT, IdentityT, ConstantT, ZeroT} \<and> b = NoneTypeT \<and>
         c = SumT \<and> e \<in> {InducingPointsT, InducingPatchesT}) \<and>
      \<not> (d = MarkovGaussianT \<and> a = IdentityT \<and> b = NoneTypeT \<and> c = SumT \<and>
         e \<in> {InducingPointsT, InducingPatchesT}) \<and>
      \<not> (d \<in> {GaussianT, DiagonalGaussianT} \<and> a = SumT \<and>
         b \<in> {InducingPointsT, InducingPatchesT} \<and> c = SumT \<and>
         e \<in> {InducingPointsT, InducingPatchesT})) \<and>
   dispatch (DiagonalGaussianT, SumT, NoneTypeT, NoneTypeT, NoneTypeT) = None \<and>
   dispatch (DiagonalGaussianT, SumT, InducingPointsT, NoneTypeT, NoneTypeT) = None \<and>
   dispatch (MarkovGaussianT, LinearT, NoneTypeT, SumT, InducingPointsT) = None \<and>
   dispatch (MarkovGaussianT, ConstantT, NoneTypeT, SumT, InducingPointsT) = None \<and>
   dispatch (MarkovGaussianT, ZeroT, NoneTypeT, SumT, InducingPointsT) = None \<and>
   expectation base adj (DiagonalGaussian v, Kern (Sum i ks), None, NoObj, None, g) =
     base (DiagonalGaussian v, Kern (Sum i ks), None, NoObj, None, g) \<and>
   expectation base adj
     (MarkovGaussian v, Mean (Linear w), None, Kern (Sum i ks), Some (InducingPoints n z), g) =
     base (MarkovGaussian v, Mean (Linear w), None, Kern (Sum i ks), Some (InducingPoints n z), g)"
proof -
  define r1 where "r1 \<longleftrightarrow>
      d = GaussianT \<and> a = SumT \<and> b = NoneTypeT \<and> c = NoneTypeT \<and> e = NoneTypeT"
  define r2 where "r2 \<longleftrightarrow>
      d = GaussianT \<and> a = SumT \<and> b \<in> {InducingPointsT, InducingPatchesT} \<and> c = NoneTypeT \<and>
      e = NoneTypeT"
  define r3 where "r3 \<longleftrightarrow>
      d = GaussianT \<and> a \<in> {LinearT, IdentityT, ConstantT, ZeroT} \<and> b = NoneTypeT \<and> c = SumT \<and>
      e \<in> {InducingPointsT, InducingPatchesT}"
  define r4 where "r4 \<longleftrightarrow>
      d = MarkovGaussianT \<and> a = IdentityT \<and> b = NoneTypeT \<and> c = SumT \<and>
      e \<in> {InducingPointsT, InducingPatchesT}"
  define r5 where "r5 \<longleftrightarrow>
      d \<in> {GaussianT, DiagonalGaussianT} \<and> a = SumT \<and> b \<in> {InducingPointsT, InducingPatchesT} \<and>
      c = SumT \<and> e \<in> {InducingPointsT, InducingPatchesT}"
  have m1: "matches ([GaussianT], [SumT], [NoneTypeT], [NoneTypeT], [NoneTypeT]) (d, a, b, c, e) = r1"
    by (auto simp: r1_def issubclass_iff)
  have m2: "matches ([GaussianT], [SumT], [InducingPointsT], [NoneTypeT], [NoneTypeT])
      (d, a, b, c, e) = r2"
    by (auto simp: r2_def issubclass_iff)
  have m3: "matches ([GaussianT], [LinearT, IdentityT, ConstantT], [NoneTypeT], [SumT],
      [InducingPointsT]) (d, a, b, c, e) = r3"
    by (auto simp: r3_def issubclass_iff)
  have m4: "matches ([MarkovGaussianT], [IdentityT], [NoneTypeT], [SumT], [InducingPointsT])
      (d, a, b, c, e) = r4"
    by (auto simp: r4_def issubclass_iff)
  have m5: "matches ([GaussianT, DiagonalGaussianT], [SumT], [InducingPointsT], [SumT],
      [InducingPointsT]) (d, a, b, c, e) = r5"
    by (auto simp: r5_def issubclass_iff)
  have disp: "dispatch (d, a, b, c, e) =
      (if r1 then Some Rule_Sum_diag else if r2 then Some Rule_Sum_Z
       else if r3 then Some Rule_mean_Sum_Z else if r4 then Some Rule_Markov_Sum_Z
       else if r5 then Some Rule_Sum_Z_Sum_Z else None)"
    unfolding dispatch_def registry_def by (simp only: find.simps prod.case m1 m2 m3 m4 m5) simp
  have excl: "\<not> (r1 \<and> r2)" "\<not> (r1 \<and> r3)" "\<not> (r1 \<and> r4)" "\<not> (r1 \<and> r5)" "\<not> (r2 \<and> r3)"
    "\<not> (r2 \<and> r4)" "\<not> (r2 \<and> r5)" "\<not> (r3 \<and> r4)" "\<not> (r3 \<and> r5)" "\<not> (r4 \<and> r5)"
    by (auto simp: r1_def r2_def r3_def r4_def r5_def)
  have "length registry = 5"
    by (simp add: registry_def)
  moreover have "dispatch (d, a, b, c, e) = Some Rule_Sum_diag \<longleftrightarrow> r1"
    unfolding disp using excl by auto
  moreover have "dispatch (d, a, b, c, e) = Some Rule_Sum_Z \<longleftrightarrow> r2"
    unfolding disp using excl by auto
  moreover have "dispatch (d, a, b, c, e) = Some Rule_mean_Sum_Z \<longleftrightarrow> r3"
    unfolding disp using excl by auto
  moreover have "dispatch (d, a, b, c, e) = Some Rule_Markov_Sum_Z \<longleftrightarrow> r4"
    unfolding disp using excl by auto
  moreover have "dispatch (d, a, b, c, e) = Some Rule_Sum_Z_Sum_Z \<longleftrightarrow> r5"
    unfolding disp using excl by auto
  moreover have "dispatch (d, a, b, c, e) = None \<longleftrightarrow> \<not> r1 \<and> \<not> r2 \<and> \<not> r3 \<and> \<not> r4 \<and> \<not> r5"
    unfolding disp by auto
  moreover have "dispatch (DiagonalGaussianT, SumT, NoneTypeT, NoneTypeT, NoneTypeT) = None"
    "dispatch (DiagonalGaussianT, SumT, InducingPointsT, NoneTypeT, NoneTypeT) = None"
    "dispatch (MarkovGaussianT, LinearT, NoneTypeT, SumT, InducingPointsT) = None"
    "dispatch (MarkovGaussianT, ConstantT, NoneTypeT, SumT, InducingPointsT) = None"
    "dispatch (MarkovGaussianT, ZeroT, NoneTypeT, SumT, InducingPointsT) = None"
    by (simp_all add: dispatch_def registry_def issubclass_def)
  moreover have "expectation base adj (DiagonalGaussian v, Kern (Sum i ks), None, NoObj, None, g) =
     base (DiagonalGaussian v, Kern (Sum i ks), None, NoObj, None, g)"
    by (simp add: expectation.simps dispatch_def registry_def issubclass_def)
  moreover have "expectation base adj
     (MarkovGaussian v, Mean (Linear w), None, Kern (Sum i ks), Some (InducingPoints n z), g) =
     base (MarkovGaussian v, Mean (Linear w), None, Kern (Sum i ks), Some (InducingPoints n z), g)"
    by (simp add: expectation.simps dispatch_def registry_def issubclass_def)
  ultimately show ?thesis
    unfolding r1_def r2_def r3_def r4_def r5_def by (intro conjI)
qed

text \<open>
  C9 as the specification words it fails: it lets no rule of the module match a combination
  other than the registered ones.  A Gaussian, a Zero mean and a Sum kernel with inducing
  points are none of the registered combinations, since the registered means are Linear,
  Identity and Constant; yet the request is sent to the mean-times-kernel rule, which returns
  the sum over the children.
\<close>

theorem zero_mean_reaches_sum_rule_counterexample:
  "(GaussianT, type_of_obj (Mean Zero :: unit operand), NoneTypeT, SumT, InducingPointsT) \<notin>
     {(GaussianT, SumT, NoneTypeT, NoneTypeT, NoneTypeT),
      (GaussianT, SumT, InducingPointsT, NoneTypeT, NoneTypeT),
      (GaussianT, LinearT, NoneTypeT, SumT, InducingPointsT),
      (GaussianT, IdentityT, NoneTypeT, SumT, InducingPointsT),
      (GaussianT, ConstantT, NoneTypeT, SumT, InducingPointsT),
      (MarkovGaussianT, IdentityT, NoneTypeT, SumT, InducingPointsT),
      (GaussianT, SumT, InducingPointsT, SumT, InducingPointsT),
      (DiagonalGaussianT, SumT, InducingPointsT, SumT, InducingPointsT)} \<and>
   dispatch (GaussianT, type_of_obj (Mean Zero :: unit operand), NoneTypeT, SumT, InducingPointsT) =
     Some Rule_mean_Sum_Z \<and>
   expectation trace_base Adj
     (Gaussian (), Mean Zero, None, Kern (Sum 0 example_kernels), example_Z, None) =
     Inr (Add (Leaf 1) (Leaf 2))"
proof -
  have "expectation trace_base Adj
     (Gaussian (), Mean Zero, None, Kern (Sum 0 example_kernels), example_Z, None) =
     Inr (Add (Leaf 1) (Leaf 2))"
    by (simp add: example_Z_def example_kernels_def expectation_mean_Sum_Z_sub issubclass_def
        E_mean_Sum_Z_def expectation_mean_atomic plus_expr_def)
  then show ?thesis
    by (simp add: dispatch_def registry_def issubclass_def)
qed

section \<open>Facts about tensors\<close>

lemma shape_tensor_of [simp]: "shape (tensor_of sh f) = sh"
  by (simp add: tensor_of_def)

lemma elem_tensor_of: "elem (tensor_of sh f) idx = (if list_all2 (<) idx sh then f idx else 0)"
  by (simp add: tensor_of_def)

lemma valid_index1: "list_all2 (<) idx [n] \<longleftrightarrow> (\<exists>i. idx = [i] \<and> i < n)"
  by (auto simp: list_all2_Cons2)

lemma valid_index2: "list_all2 (<) idx [n, m] \<longleftrightarrow> (\<exists>i j. idx = [i, j] \<and> i < n \<and> j < m)"
  by (auto simp: list_all2_Cons2)

lemma valid_index3:
  "list_all2 (<) idx [l, n, m] \<longleftrightarrow> (\<exists>h i j. idx = [h, i, j] \<and> h < l \<and> i < n \<and> j < m)"
  by (auto simp: list_all2_Cons2)

lemma tensor_of_cong:
  "(\<And>idx. list_all2 (<) idx sh \<Longrightarrow> f idx = g idx) \<Longrightarrow> tensor_of sh f = tensor_of sh g"
  by (auto simp: tensor_of_def)

lemma shape_matrix_of [simp]: "shape (matrix_of n m f) = [n, m]"
  by (simp add: matrix_of_def)

lemma elem_matrix_of: "elem (matrix_of n m f) [i, j] = (if i < n \<and> j < m then f i j else 0)"
  by (simp add: matrix_of_def elem_tensor_of)

lemma elem_matrix_of_valid [simp]: "i < n \<Longrightarrow> j < m \<Longrightarrow> elem (matrix_of n m f) [i, j] = f i j"
  by (simp add: elem_matrix_of)

lemma shape_tensor3_of [simp]: "shape (tensor3_of l n m f) = [l, n, m]"
  by (simp add: tensor3_of_def)

lemma elem_tensor3_of_valid [simp]:
  "h < l \<Longrightarrow> i < n \<Longrightarrow> j < m \<Longrightarrow> elem (tensor3_of l n m f) [h, i, j] = f h i j"
  by (simp add: tensor3_of_def elem_tensor_of)

lemma matrix_of_cong:
  "(\<And>i j. i < n \<Longrightarrow> j < m \<Longrightarrow> f i j = g i j) \<Longrightarrow> matrix_of n m f = matrix_of n m g"
  unfolding matrix_of_def by (rule tensor_of_cong) (auto simp: valid_index2)

lemma tensor3_of_cong:
  "(\<And>h i j. h < l \<Longrightarrow> i < n \<Longrightarrow> j < m \<Longrightarrow> f h i j = g h i j) \<Longrightarrow>
   tensor3_of l n m f = tensor3_of l n m g"
  unfolding tensor3_of_def by (rule tensor_of_cong) (auto simp: valid_index3)

lemma tensor_of_eq_matrix_ofI:
  "(\<And>i j. i < n \<Longrightarrow> j < m \<Longrightarrow> f [i, j] = g i j) \<Longrightarrow> tensor_of [n, m] f = matrix_of n m g"
  unfolding matrix_of_def by (rule tensor_of_cong) (auto simp: valid_index2)

lemma tensor_of_eq_tensor3_ofI:
  "(\<And>h i j. h < l \<Longrightarrow> i < n \<Longrightarrow> j < m \<Longrightarrow> f [h, i, j] = g h i j) \<Longrightarrow>
   tensor_of [l, n, m] f = tensor3_of l n m g"
  unfolding tensor3_of_def by (rule tensor_of_cong) (auto simp: valid_index3)

lemma bdim [simp]: "i < d \<Longrightarrow> (if d = Suc 0 then 0 else i) = i"
  by auto

lemma tf_matmul_2:
  "shape a = [n, k] \<Longrightarrow> shape b = [k, m] \<Longrightarrow>
   tf_matmul False a b = Inr (matrix_of n m (\<lambda>i j. \<Sum>l<k. elem a [i, l] * elem b [l, j]))"
  by (simp add: tf_matmul_def broadcast_shape_def bindex_def Let_def tensor_of_eq_matrix_ofI)

lemma tf_matmul_2T:
  "shape a = [k, n] \<Longrightarrow> shape b = [k, m] \<Longrightarrow>
   tf_matmul True a b = Inr (matrix_of n m (\<lambda>i j. \<Sum>l<k. elem a [l, i] * elem b [l, j]))"
  by (simp add: tf_matmul_def broadcast_shape_def bindex_def Let_def tensor_of_eq_matrix_ofI)

lemma tf_matmul_3:
  "shape a = [d, n, k] \<Longrightarrow> shape b = [d, k, m] \<Longrightarrow>
   tf_matmul False a b =
     Inr (tensor3_of d n m (\<lambda>h i j. \<Sum>l<k. elem a [h, i, l] * elem b [h, l, j]))"
  by (simp add: tf_matmul_def broadcast_shape_def bindex_def Let_def tensor_of_eq_tensor3_ofI)

lemma tf_matmul_3T:
  "shape a = [d, k, n] \<Longrightarrow> shape b = [d, k, m] \<Longrightarrow>
   tf_matmul True a b =
     Inr (tensor3_of d n m (\<lambda>h i j. \<Sum>l<k. elem a [h, l, i] * elem b [h, l, j]))"
  by (simp add: tf_matmul_def broadcast_shape_def bindex_def Let_def tensor_of_eq_tensor3_ofI)

lemma tf_binop_same2:
  "shape a = [n, m] \<Longrightarrow> shape b = [n, m] \<Longrightarrow>
   tf_binop f a b = Inr (matrix_of n m (\<lambda>i j. f (elem a [i, j]) (elem b [i, j])))"
  by (simp add: tf_binop_def broadcast_shape_def bindex_def tensor_of_eq_matrix_ofI)

lemma tf_binop_same3:
  "shape a = [l, n, m] \<Longrightarrow> shape b = [l, n, m] \<Longrightarrow>
   tf_binop f a b = Inr (tensor3_of l n m (\<lambda>h i j. f (elem a [h, i, j]) (elem b [h, i, j])))"
  by (simp add: tf_binop_def broadcast_shape_def bindex_def tensor_of_eq_tensor3_ofI)

lemma tf_binop_scalar_right2:
  "shape a = [n, m] \<Longrightarrow> shape b = [] \<Longrightarrow>
   tf_binop f a b = Inr (matrix_of n m (\<lambda>i j. f (elem a [i, j]) (elem b [])))"
  by (simp add: tf_binop_def broadcast_shape_def bindex_def tensor_of_eq_matrix_ofI)

lemma tf_binop_scalar_left2:
  "shape a = [] \<Longrightarrow> shape b = [n, m] \<Longrightarrow>
   tf_binop f a b = Inr (matrix_of n m (\<lambda>i j. f (elem a []) (elem b [i, j])))"
  by (simp add: tf_binop_def broadcast_shape_def bindex_def tensor_of_eq_matrix_ofI)

lemma tf_binop_scalars:
  "shape a = [] \<Longrightarrow> shape b = [] \<Longrightarrow> tf_binop f a b = Inr (scalar (f (elem a []) (elem b [])))"
  by (simp add: tf_binop_def broadcast_shape_def bindex_def scalar_def)

lemma tf_binop_cols2:
  "shape a = [n, m] \<Longrightarrow> shape b = [n, c] \<Longrightarrow> c = m \<or> c = 1 \<Longrightarrow>
   tf_binop f a b =
     Inr (matrix_of n m (\<lambda>i j. f (elem a [i, j]) (elem b [i, if c = 1 then 0 else j])))"
  by (auto simp add: tf_binop_def broadcast_shape_def bindex_def tensor_of_eq_matrix_ofI)

lemma tf_eye_matrix: "tf_eye n = matrix_of n n (\<lambda>i j. if i = j then 1 else 0)"
  by (simp add: tf_eye_def tensor_of_eq_matrix_ofI)

lemma shape_scalar [simp]: "shape (scalar c) = []"
  by (simp add: scalar_def)

lemma elem_scalar [simp]: "elem (scalar c) [] = c"
  by (simp add: scalar_def elem_tensor_of)

lemma tf_band_part_lower3:
  "shape t = [d, n, m] \<Longrightarrow>
   tf_band_part t (- 1) 0 =
     Inr (tensor3_of d n m (\<lambda>h i j. if j \<le> i then elem t [h, i, j] else 0))"
  by (simp add: tf_band_part_def Let_def tensor_of_eq_tensor3_ofI)

lemma tf_expand_dims_0_2:
  "shape t = [n, m] \<Longrightarrow> tf_expand_dims t 0 = Inr (tensor3_of 1 n m (\<lambda>h i j. elem t [i, j]))"
  by (simp add: tf_expand_dims_def tensor_of_eq_tensor3_ofI)

lemma tf_tile_3:
  "shape t = [1, n, m] \<Longrightarrow>
   tf_tile t [d, 1, 1] = Inr (tensor3_of d n m (\<lambda>h i j. elem t [0, i, j]))"
  by (simp add: tf_tile_def tensor_of_eq_tensor3_ofI)

lemma tf_square_3:
  "shape t = [d, n, m] \<Longrightarrow> tf_square t = tensor3_of d n m (\<lambda>h i j. (elem t [h, i, j])\<^sup>2)"
  by (simp add: tf_square_def tf_map_def tensor_of_eq_tensor3_ofI)

lemma tf_reduce_sum_axis_2_3:
  "shape t = [d, n, m] \<Longrightarrow>
   tf_reduce_sum_axis t 2 = Inr (matrix_of d n (\<lambda>h i. \<Sum>l<m. elem t [h, i, l]))"
  by (simp add: tf_reduce_sum_axis_def tensor_of_eq_matrix_ofI)

lemma tf_reduce_sum_axis_1_3:
  "shape t = [d, n, m] \<Longrightarrow>
   tf_reduce_sum_axis t 1 = Inr (matrix_of d m (\<lambda>h j. \<Sum>l<n. elem t [h, l, j]))"
  by (simp add: tf_reduce_sum_axis_def tensor_of_eq_matrix_ofI)

lemma tf_transpose_2:
  "shape t = [n, m] \<Longrightarrow> tf_transpose t = matrix_of m n (\<lambda>i j. elem t [j, i])"
  by (simp add: tf_transpose_def tensor_of_eq_matrix_ofI)

lemma tf_transpose_3:
  "shape t = [d, n, m] \<Longrightarrow> tf_transpose t = tensor3_of m n d (\<lambda>h i j. elem t [j, i, h])"
  by (simp add: tf_transpose_def tensor_of_eq_tensor3_ofI)

lemma tf_expand_dims_1_2:
  "shape t = [n, m] \<Longrightarrow> tf_expand_dims t 1 = Inr (tensor3_of n 1 m (\<lambda>h i j. elem t [h, j]))"
  by (simp add: tf_expand_dims_def tensor_of_eq_tensor3_ofI)

lemma tf_expand_dims_2_2:
  "shape t = [n, m] \<Longrightarrow> tf_expand_dims t 2 = Inr (tensor3_of n m 1 (\<lambda>h i j. elem t [h, i]))"
  by (simp add: tf_expand_dims_def tensor_of_eq_tensor3_ofI)

lemma tf_binop_row_col3:
  "shape a = [l, 1, n] \<Longrightarrow> shape b = [l, n, 1] \<Longrightarrow>
   tf_binop f a b = Inr (tensor3_of l n n (\<lambda>h i j. f (elem a [h, 0, j]) (elem b [h, i, 0])))"
  by (auto simp add: tf_binop_def broadcast_shape_def bindex_def tensor_of_eq_tensor3_ofI)

lemma tf_binop_3_row:
  "shape a = [l, n, m] \<Longrightarrow> shape b = [l, 1, m] \<Longrightarrow>
   tf_binop f a b = Inr (tensor3_of l n m (\<lambda>h i j. f (elem a [h, i, j]) (elem b [h, 0, j])))"
  by (auto simp add: tf_binop_def broadcast_shape_def bindex_def tensor_of_eq_tensor3_ofI)

lemma tf_binop_3_2:
  "shape a = [l, n, m] \<Longrightarrow> shape b = [n, m] \<Longrightarrow>
   tf_binop f a b = Inr (tensor3_of l n m (\<lambda>h i j. f (elem a [h, i, j]) (elem b [i, j])))"
  by (auto simp add: tf_binop_def broadcast_shape_def bindex_def tensor_of_eq_tensor3_ofI)

lemma tf_binop_2_3:
  "shape a = [n, m] \<Longrightarrow> shape b = [l, n, m] \<Longrightarrow>
   tf_binop f a b = Inr (tensor3_of l n m (\<lambda>h i j. f (elem a [i, j]) (elem b [h, i, j])))"
  by (auto simp add: tf_binop_def broadcast_shape_def bindex_def tensor_of_eq_tensor3_ofI)

lemma tf_binop_1_2:
  "shape a = [m] \<Longrightarrow> shape b = [l, m] \<Longrightarrow>
   tf_binop f a b = Inr (matrix_of l m (\<lambda>h j. f (elem a [j]) (elem b [h, j])))"
  by (auto simp add: tf_binop_def broadcast_shape_def bindex_def tensor_of_eq_matrix_ofI)

lemma tf_diag_part_3:
  "shape t = [l, n, n] \<Longrightarrow> tf_diag_part t = Inr (matrix_of l n (\<lambda>h i. elem t [h, i, i]))"
  by (simp add: tf_diag_part_def Let_def tensor_of_eq_matrix_ofI)

lemma tf_linalg_diag_2:
  "shape t = [l, n] \<Longrightarrow>
   tf_linalg_diag t = Inr (tensor3_of l n n (\<lambda>h i j. if i = j then elem t [h, i] else 0))"
  by (simp add: tf_linalg_diag_def tensor_of_eq_tensor3_ofI cong: if_cong)

lemma tf_map_2:
  "shape t = [n, m] \<Longrightarrow> tf_map f t = matrix_of n m (\<lambda>i j. f (elem t [i, j]))"
  by (simp add: tf_map_def tensor_of_eq_matrix_ofI)

lemma tf_map_3:
  "shape t = [l, n, m] \<Longrightarrow> tf_map f t = tensor3_of l n m (\<lambda>h i j. f (elem t [h, i, j]))"
  by (simp add: tf_map_def tensor_of_eq_tensor3_ofI)

lemma sum_all_2: "sum_all [n, m] f = (\<Sum>i<n. \<Sum>j<m. f [i, j])"
  by simp

lemma sum_all_3: "sum_all [l, n, m] f = (\<Sum>h<l. \<Sum>i<n. \<Sum>j<m. f [h, i, j])"
  by simp

lemma tf_reduce_sum_2:
  "shape t = [n, m] \<Longrightarrow> tf_reduce_sum t = scalar (\<Sum>i<n. \<Sum>j<m. elem t [i, j])"
  by (simp add: tf_reduce_sum_def)

lemma tf_reduce_sum_3:
  "shape t = [l, n, m] \<Longrightarrow> tf_reduce_sum t = scalar (\<Sum>h<l. \<Sum>i<n. \<Sum>j<m. elem t [h, i, j])"
  by (simp add: tf_reduce_sum_def)

section \<open>Facts about determinants and inverses\<close>

lemma skip_less: "r < n \<Longrightarrow> skip i r < Suc n"
  by (simp add: skip_def)

lemma determinant_cong:
  "(\<And>i j. i < n \<Longrightarrow> j < n \<Longrightarrow> A i j = B i j) \<Longrightarrow> determinant n A = determinant n B"
proof (induction n arbitrary: A B)
  case 0
  show ?case by simp
next
  case (Suc n)
  have "determinant n (minor i A) = determinant n (minor i B)" for i
    by (rule Suc.IH) (simp add: minor_def Suc.prems skip_less)
  moreover have "A i 0 = B i 0" if "i \<le> n" for i
    using that by (simp add: Suc.prems)
  ultimately show ?case by simp
qed

lemma minor_setrow_same: "minor k (setrow k v A) = minor k A"
  by (auto simp: minor_def setrow_def skip_def fun_eq_iff)

lemma minor_setrow_other:
  "i \<noteq> k \<Longrightarrow>
   minor i (setrow k v A) =
     setrow (if k < i then k else k - 1) (\<lambda>c. v (Suc c)) (minor i A)"
  by (auto simp: minor_def setrow_def skip_def fun_eq_iff)

lemma determinant_row_linear:
  "k < n \<Longrightarrow>
   determinant n (setrow k (\<lambda>c. a * u c + b * v c) A) =
     a * determinant n (setrow k u A) + b * determinant n (setrow k v A)"
proof (induction n arbitrary: k u v A)
  case 0
  then show ?case by simp
next
  case (Suc n)
  let ?w = "\<lambda>c. a * u c + b * v c"
  have step: "(- 1) ^ i * setrow k ?w A i 0 * determinant n (minor i (setrow k ?w A)) =
      a * ((- 1) ^ i * setrow k u A i 0 * determinant n (minor i (setrow k u A))) +
      b * ((- 1) ^ i * setrow k v A i 0 * determinant n (minor i (setrow k v A)))"
    if "i \<le> n" for i
  proof (cases "i = k")
    case True
    then show ?thesis
      by (simp add: minor_setrow_same) (simp add: setrow_def algebra_simps)
  next
    case False
    let ?k = "if k < i then k else k - 1"
    have k': "?k < n"
      using False that Suc.prems by auto
    have "determinant n (setrow ?k (\<lambda>c. a * u (Suc c) + b * v (Suc c)) (minor i A)) =
        a * determinant n (setrow ?k (\<lambda>c. u (Suc c)) (minor i A)) +
        b * determinant n (setrow ?k (\<lambda>c. v (Suc c)) (minor i A))"
      by (rule Suc.IH[OF k'])
    moreover have "setrow k w A i 0 = A i 0" for w
      using False by (simp add: setrow_def)
    ultimately show ?thesis
      using False by (simp add: minor_setrow_other algebra_simps)
  qed
  show ?case
    by (simp add: step sum.distrib sum_distrib_left)
qed

lemma determinant_adjacent_rows_equal:
  "Suc k < n \<Longrightarrow> A k = A (Suc k) \<Longrightarrow> determinant n A = 0"
proof (induction n arbitrary: k A)
  case 0
  then show ?case by simp
next
  case (Suc n)
  let ?f = "\<lambda>i. (- 1) ^ i * A i 0 * determinant n (minor i A)"
  have other: "?f i = 0" if "i \<le> n" "i \<noteq> k" "i \<noteq> Suc k" for i
  proof -
    let ?k = "if k < i then k else k - 1"
    have "Suc ?k < n"
      using that Suc.prems by auto
    moreover have "minor i A ?k = minor i A (Suc ?k)"
      using that Suc.prems(2) by (auto simp: minor_def skip_def fun_eq_iff)
    ultimately have "determinant n (minor i A) = 0"
      by (rule Suc.IH)
    then show ?thesis by simp
  qed
  have same: "minor k A = minor (Suc k) A"
  proof (intro ext)
    fix r c
    show "minor k A r c = minor (Suc k) A r c"
      using Suc.prems(2) by (cases "r = k") (auto simp: minor_def skip_def)
  qed
  have pair: "?f k + ?f (Suc k) = 0"
    by (simp add: same Suc.prems(2))
  have fin: "finite {..n}" by simp
  have kin: "k \<in> {..n}" "Suc k \<in> {..n} - {k}"
    using Suc.prems by auto
  have "sum ?f {..n} = ?f k + sum ?f ({..n} - {k})"
    by (rule sum.remove[OF fin kin(1)])
  also have "sum ?f ({..n} - {k}) = ?f (Suc k) + sum ?f ({..n} - {k} - {Suc k})"
    by (rule sum.remove[OF _ kin(2)]) simp
  also have "sum ?f ({..n} - {k} - {Suc k}) = 0"
  proof (rule sum.neutral, rule ballI)
    fix i assume "i \<in> {..n} - {k} - {Suc k}"
    then have "i \<le> n" "i \<noteq> k" "i \<noteq> Suc k" by auto
    then show "?f i = 0" by (rule other)
  qed
  finally show ?case
    using pair by simp
qed

lemma setrow_setrow_same: "setrow k u (setrow k v A) = setrow k u A"
  by (auto simp: setrow_def fun_eq_iff)

lemma setrow_commute: "j \<noteq> k \<Longrightarrow> setrow j u (setrow k v A) = setrow k v (setrow j u A)"
  by (auto simp: setrow_def fun_eq_iff)

lemma setrow_id: "setrow k (A k) A = A"
  by (auto simp: setrow_def fun_eq_iff)

lemma determinant_row_add:
  "k < n \<Longrightarrow>
   determinant n (setrow k (\<lambda>c. u c + v c) A) =
     determinant n (setrow k u A) + determinant n (setrow k v A)"
  using determinant_row_linear[of k n 1 u 1 v A] by simp

lemma determinant_swap_adjacent:
  assumes "Suc k < n"
  shows "determinant n (setrow k (A (Suc k)) (setrow (Suc k) (A k) A)) = - determinant n A"
proof -
  let ?u = "A k" and ?v = "A (Suc k)"
  let ?B = "\<lambda>x y. setrow k x (setrow (Suc k) y A)"
  let ?s = "\<lambda>c. ?u c + ?v c"
  have k: "k < n" "Suc k < n" using assms by auto
  have eq0: "determinant n (?B x x) = 0" for x
    by (rule determinant_adjacent_rows_equal[OF assms]) (simp add: setrow_def)
  have "determinant n (?B ?s ?s) =
      determinant n (?B ?u ?s) + determinant n (?B ?v ?s)"
    by (rule determinant_row_add[OF k(1)])
  also have "determinant n (?B ?u ?s) = determinant n (?B ?u ?u) + determinant n (?B ?u ?v)"
    using determinant_row_add[OF k(2), of ?u ?v "setrow k ?u A"]
    by (simp add: setrow_commute[of k "Suc k"])
  also have "determinant n (?B ?v ?s) = determinant n (?B ?v ?u) + determinant n (?B ?v ?v)"
    using determinant_row_add[OF k(2), of ?u ?v "setrow k ?v A"]
    by (simp add: setrow_commute[of k "Suc k"])
  finally have "determinant n (?B ?u ?v) + determinant n (?B ?v ?u) = 0"
    by (simp add: eq0)
  moreover have "?B ?u ?v = A"
    by (auto simp: setrow_def fun_eq_iff)
  ultimately show ?thesis by simp
qed

lemma determinant_rows_equal:
  "p < q \<Longrightarrow> q < n \<Longrightarrow> A p = A q \<Longrightarrow> determinant n A = 0"
proof (induction "q - p" arbitrary: q A)
  case 0
  then show ?case by simp
next
  case (Suc d)
  show ?case
  proof (cases "q = Suc p")
    case True
    then show ?thesis
      using Suc.prems determinant_adjacent_rows_equal[of p n A] by simp
  next
    case False
    then obtain q' where q': "q = Suc q'" "p < q'"
      using Suc.prems(1) by (cases q) auto
    let ?A = "setrow q' (A (Suc q')) (setrow (Suc q') (A q') A)"
    have "d = q' - p" using Suc.hyps(2) q' by simp
    moreover have "q' < n" using Suc.prems(2) q' by simp
    moreover have "?A p = ?A q'"
      using q' Suc.prems(3) by (simp add: setrow_def)
    ultimately have "determinant n ?A = 0"
      using Suc.hyps(1)[of q' ?A] q'(2) by blast
    moreover have "determinant n ?A = - determinant n A"
      by (rule determinant_swap_adjacent) (use Suc.prems(2) q' in simp)
    ultimately show ?thesis by simp
  qed
qed

lemma determinant_row_zero:
  "k < n \<Longrightarrow> determinant n (setrow k (\<lambda>c. 0) A) = 0"
  using determinant_row_linear[of k n 0 "\<lambda>c. 0" 0 "\<lambda>c. 0" A] by simp

lemma determinant_row_scale:
  "k < n \<Longrightarrow> determinant n (setrow k (\<lambda>c. a * u c) A) = a * determinant n (setrow k u A)"
  using determinant_row_linear[of k n a u 0 u A] by simp

lemma determinant_row_sum:
  assumes "k < n" "finite S"
  shows "determinant n (setrow k (\<lambda>c. \<Sum>s\<in>S. a s * u s c) A) =
         (\<Sum>s\<in>S. a s * determinant n (setrow k (u s) A))"
  using assms(2)
proof (induction S rule: finite_induct)
  case empty
  show ?case by (simp add: determinant_row_zero[OF assms(1)])
next
  case (insert x F)
  have "determinant n (setrow k (\<lambda>c. a x * u x c + 1 * (\<Sum>s\<in>F. a s * u s c)) A) =
      a x * determinant n (setrow k (u x) A) +
      1 * determinant n (setrow k (\<lambda>c. \<Sum>s\<in>F. a s * u s c) A)"
    by (rule determinant_row_linear[OF assms(1)])
  then show ?case
    using insert by simp
qed

lemma determinant_lower_triangular_mult:
  assumes L: "lower_triangular n L"
  shows "determinant n (mmul n L M) = (\<Prod>i<n. L i i) * determinant n M"
proof -
  let ?B = "\<lambda>j i. if i < j then M i else mmul n L M i"
  have step: "determinant n (?B j) = L j j * determinant n (?B (Suc j))" if j: "j < n" for j
  proof -
    have row: "?B j = setrow j (\<lambda>c. \<Sum>k\<in>{..<n}. L j k * M k c) (?B j)"
      by (auto simp: setrow_def mmul_def fun_eq_iff)
    have "determinant n (?B j) =
        (\<Sum>k\<in>{..<n}. L j k * determinant n (setrow j (M k) (?B j)))"
      by (subst row, rule determinant_row_sum[OF j]) simp
    also have "\<dots> = (\<Sum>k\<in>{..<n}. if k = j then L j j * determinant n (?B (Suc j)) else 0)"
    proof (rule sum.cong[OF refl])
      fix k assume "k \<in> {..<n}"
      then have k: "k < n" by simp
      consider "k < j" | "k = j" | "j < k" by linarith
      then show "L j k * determinant n (setrow j (M k) (?B j)) =
          (if k = j then L j j * determinant n (?B (Suc j)) else 0)"
      proof cases
        case 1
        have "determinant n (setrow j (M k) (?B j)) = 0"
          by (rule determinant_rows_equal[OF 1 j]) (use 1 in \<open>simp add: setrow_def\<close>)
        with 1 show ?thesis by simp
      next
        case 2
        have "setrow j (M j) (?B j) = ?B (Suc j)"
          by (auto simp: setrow_def fun_eq_iff less_Suc_eq)
        with 2 show ?thesis by simp
      next
        case 3
        with L j k have "L j k = 0" by (simp add: lower_triangular_def)
        with 3 show ?thesis by simp
      qed
    qed
    also have "\<dots> = L j j * determinant n (?B (Suc j))"
      using j by simp
    finally show ?thesis .
  qed
  have "determinant n (?B 0) = (\<Prod>i<j. L i i) * determinant n (?B j)" if "j \<le> n" for j
    using that
  proof (induction j)
    case 0
    show ?case by simp
  next
    case (Suc j)
    then show ?case
      using step[of j] by simp
  qed
  from this[of n] have "determinant n (?B 0) = (\<Prod>i<n. L i i) * determinant n (?B n)"
    by simp
  moreover have "determinant n (?B n) = determinant n M"
    by (rule determinant_cong) simp
  moreover have "?B 0 = mmul n L M" by simp
  ultimately show ?thesis by simp
qed

lemma determinant_upper_triangular:
  "(\<And>i j. i < n \<Longrightarrow> j < n \<Longrightarrow> j < i \<Longrightarrow> U i j = 0) \<Longrightarrow>
   determinant n U = (\<Prod>i<n. U i i)"
proof (induction n arbitrary: U)
  case 0
  show ?case by simp
next
  case (Suc n)
  have "determinant (Suc n) U =
      (\<Sum>i\<le>n. if i = 0 then U 0 0 * determinant n (minor 0 U) else 0)"
    unfolding determinant.simps
    by (rule sum.cong[OF refl]) (auto simp: Suc.prems)
  also have "\<dots> = U 0 0 * determinant n (minor 0 U)"
    by simp
  also have "determinant n (minor 0 U) = (\<Prod>i<n. minor 0 U i i)"
    by (rule Suc.IH) (simp add: minor_def skip_def Suc.prems)
  also have "U 0 0 * (\<Prod>i<n. minor 0 U i i) = (\<Prod>i<Suc n. U i i)"
    by (simp add: prod.lessThan_Suc_shift[of "\<lambda>i. U i i" n] minor_def skip_def del: prod.lessThan_Suc)
  finally show ?case .
qed

lemma determinant_cholesky:
  assumes "lower_triangular n L"
  shows "determinant n (\<lambda>i j. \<Sum>k<n. L i k * L j k) = (\<Prod>i<n. L i i)\<^sup>2"
proof -
  have "determinant n (mmul n L (\<lambda>k j. L j k)) =
      (\<Prod>i<n. L i i) * determinant n (\<lambda>k j. L j k)"
    by (rule determinant_lower_triangular_mult[OF assms])
  also have "determinant n (\<lambda>k j. L j k) = (\<Prod>i<n. L i i)"
    by (rule determinant_upper_triangular) (use assms in \<open>simp add: lower_triangular_def\<close>)
  finally show ?thesis
    by (simp add: mmul_def power2_eq_square)
qed

lemma ln_determinant_cholesky:
  assumes "lower_triangular n L" and pos: "\<And>i. i < n \<Longrightarrow> 0 < L i i"
  shows "ln (determinant n (\<lambda>i j. \<Sum>k<n. L i k * L j k)) = 2 * (\<Sum>i<n. ln (L i i))"
proof -
  have "ln ((\<Prod>i<n. L i i)\<^sup>2) = 2 * ln (\<Prod>i<n. L i i)"
    by (simp add: ln_realpow prod_pos pos)
  also have "ln (\<Prod>i<n. L i i) = (\<Sum>i<n. ln (L i i))"
  proof (rule ln_prod)
    fix i assume "i \<in> {..<n}"
    then have "0 < L i i" by (simp add: pos)
    then show "L i i \<noteq> 0" by simp
  qed simp
  finally show ?thesis
    by (simp add: determinant_cholesky[OF assms(1)])
qed

lemma meq_refl [simp]: "meq n A A"
  by (simp add: meq_def)

lemma meq_sym: "meq n A B \<Longrightarrow> meq n B A"
  by (simp add: meq_def)

lemma meq_trans [trans]: "meq n A B \<Longrightarrow> meq n B C \<Longrightarrow> meq n A C"
  by (simp add: meq_def)

lemma mmul_cong: "meq n A A' \<Longrightarrow> meq n B B' \<Longrightarrow> meq n (mmul n A B) (mmul n A' B')"
  by (simp add: meq_def mmul_def)

lemma mmul_assoc: "mmul n (mmul n A B) C = mmul n A (mmul n B C)"
proof (intro ext)
  fix i j
  have "(\<Sum>l<n. (\<Sum>k<n. A i k * B k l) * C l j) = (\<Sum>l<n. \<Sum>k<n. A i k * (B k l * C l j))"
    by (simp add: sum_distrib_right mult.assoc)
  also have "\<dots> = (\<Sum>k<n. \<Sum>l<n. A i k * (B k l * C l j))"
    by (rule sum.swap)
  also have "\<dots> = (\<Sum>k<n. A i k * (\<Sum>l<n. B k l * C l j))"
    by (simp add: sum_distrib_left)
  finally show "mmul n (mmul n A B) C i j = mmul n A (mmul n B C) i j"
    by (simp add: mmul_def)
qed

lemma mmul_identity_left: "meq n (mmul n identity_matrix A) A"
proof -
  have "(\<Sum>k<n. (if i = k then 1 else 0) * A k j) = A i j" if "i < n" for i j
  proof -
    have "(\<Sum>k<n. (if i = k then 1 else 0) * A k j) = (\<Sum>k<n. if k = i then A k j else 0)"
      by (rule sum.cong) auto
    then show ?thesis using that by simp
  qed
  then show ?thesis
    by (simp add: meq_def mmul_def identity_matrix_def)
qed

lemma mmul_identity_right: "meq n (mmul n A identity_matrix) A"
proof -
  have "(\<Sum>k<n. A i k * (if k = j then 1 else 0)) = A i j" if "j < n" for i j
  proof -
    have "(\<Sum>k<n. A i k * (if k = j then 1 else 0)) = (\<Sum>k<n. if k = j then A i k else 0)"
      by (rule sum.cong) auto
    then show ?thesis using that by simp
  qed
  then show ?thesis
    by (simp add: meq_def mmul_def identity_matrix_def)
qed

lemma mmul_transpose:
  "mmul n (transpose_matrix B) (transpose_matrix A) = transpose_matrix (mmul n A B)"
  by (simp add: mmul_def transpose_matrix_def fun_eq_iff mult.commute)

lemma lower_triangular_kernel:
  assumes L: "lower_triangular n L" and d: "\<And>i. i < n \<Longrightarrow> L i i \<noteq> 0"
    and z: "\<And>i. i < n \<Longrightarrow> (\<Sum>k<n. L i k * x k) = 0"
  shows "i < n \<Longrightarrow> x i = 0"
proof (induction i rule: less_induct)
  case (less i)
  have "(\<Sum>k<n. L i k * x k) = (\<Sum>k<n. if k = i then L i i * x i else 0)"
  proof (rule sum.cong[OF refl])
    fix k assume "k \<in> {..<n}"
    then have k: "k < n" by simp
    consider "k < i" | "k = i" | "i < k" by linarith
    then show "L i k * x k = (if k = i then L i i * x i else 0)"
    proof cases
      case 1
      with less.IH[OF 1 k] show ?thesis by simp
    next
      case 2
      then show ?thesis by simp
    next
      case 3
      with L less.prems k have "L i k = 0" by (simp add: lower_triangular_def)
      with 3 show ?thesis by simp
    qed
  qed
  also have "\<dots> = L i i * x i"
    using less.prems by simp
  finally have "L i i * x i = 0"
    using z[OF less.prems] by simp
  with d[OF less.prems] show ?case by simp
qed

lemma lower_triangular_left_inverse:
  assumes L: "lower_triangular n L" and d: "\<And>i. i < n \<Longrightarrow> L i i \<noteq> 0"
    and r: "meq n (mmul n L Li) identity_matrix"
  shows "meq n (mmul n Li L) identity_matrix"
  unfolding meq_def
proof (intro allI impI)
  fix i j assume i: "i < n" and j: "j < n"
  let ?E = "mmul n Li L"
  let ?x = "\<lambda>k. ?E k j - identity_matrix k j"
  have LE: "meq n (mmul n L ?E) L"
  proof -
    have "mmul n L ?E = mmul n (mmul n L Li) L"
      by (simp add: mmul_assoc)
    moreover have "meq n (mmul n (mmul n L Li) L) (mmul n identity_matrix L)"
      by (rule mmul_cong[OF r meq_refl])
    ultimately show ?thesis
      using mmul_identity_left[of n L] by (simp add: meq_def)
  qed
  have z: "(\<Sum>k<n. L m k * ?x k) = 0" if m: "m < n" for m
  proof -
    have "(\<Sum>k<n. L m k * ?x k) = mmul n L ?E m j - mmul n L identity_matrix m j"
      by (simp add: mmul_def right_diff_distrib sum_subtractf)
    also have "\<dots> = L m j - L m j"
      using LE mmul_identity_right[of n L] m j by (simp add: meq_def)
    finally show ?thesis by simp
  qed
  have "?x i = 0"
    by (rule lower_triangular_kernel[OF L d z i])
  then show "?E i j = identity_matrix i j" by simp
qed

lemma trace_inverse_cholesky:
  assumes L: "lower_triangular n L" and d: "\<And>i. i < n \<Longrightarrow> L i i \<noteq> 0"
    and A: "meq n A (mmul n L (transpose_matrix L))"
    and r: "meq n (mmul n L Li) identity_matrix"
    and B: "meq n (mmul n A B) identity_matrix"
  shows "trace n B = (\<Sum>i<n. \<Sum>j<n. (Li i j)\<^sup>2)"
proof -
  let ?I = identity_matrix
  let ?LiT = "transpose_matrix Li" and ?LT = "transpose_matrix L"
  let ?C = "mmul n ?LiT Li"
  have l: "meq n (mmul n Li L) ?I"
    by (rule lower_triangular_left_inverse[OF L d r])
  have t: "meq n (mmul n ?LiT ?LT) ?I"
    using r by (simp add: mmul_transpose) (simp add: meq_def transpose_matrix_def identity_matrix_def)
  have "meq n (mmul n ?C A) (mmul n ?C (mmul n L ?LT))"
    by (rule mmul_cong[OF meq_refl A])
  also have "mmul n ?C (mmul n L ?LT) = mmul n ?LiT (mmul n (mmul n Li L) ?LT)"
    by (simp add: mmul_assoc)
  also have "meq n \<dots> (mmul n ?LiT (mmul n ?I ?LT))"
    by (intro mmul_cong meq_refl l)
  also have "meq n \<dots> (mmul n ?LiT ?LT)"
    by (intro mmul_cong meq_refl mmul_identity_left)
  also note t
  finally have CA: "meq n (mmul n ?C A) ?I" .
  have "meq n B (mmul n ?I B)"
    by (rule meq_sym[OF mmul_identity_left])
  also have "meq n \<dots> (mmul n (mmul n ?C A) B)"
    by (intro mmul_cong meq_refl meq_sym[OF CA])
  also have "mmul n (mmul n ?C A) B = mmul n ?C (mmul n A B)"
    by (simp add: mmul_assoc)
  also have "meq n \<dots> (mmul n ?C ?I)"
    by (intro mmul_cong meq_refl B)
  also have "meq n \<dots> ?C"
    by (rule mmul_identity_right)
  finally have BC: "meq n B ?C" .
  have "trace n B = (\<Sum>i<n. ?C i i)"
    unfolding trace_def using BC by (intro sum.cong refl) (simp add: meq_def)
  also have "\<dots> = (\<Sum>i<n. \<Sum>k<n. (Li k i)\<^sup>2)"
    by (simp add: mmul_def transpose_matrix_def power2_eq_square)
  also have "\<dots> = (\<Sum>k<n. \<Sum>i<n. (Li k i)\<^sup>2)"
    by (rule sum.swap)
  finally show ?thesis .
qed

section \<open>Properties of the variational models\<close>

lemma OA_log_likelihood_locals_eval:
  fixes self :: "('v, 'l) VGPOpperArchambeau" and ext :: "('v, 'l) externals"
  assumes data: "data self = (X, Y)"
    and N: "num_data self = N" and Lat: "num_latent self = Lat"
    and alpha: "param_value (q_alpha self) = alpha" "shape alpha = [N, Lat]"
    and lam: "param_value (q_lambda self) = lam" "shape lam = [N, Lat]"
    and K: "kernel_call ext (kern self) X None True = Inr K" "shape K = [N, N]"
    and mX: "mean_function_call ext (mean_function self) X = Inr mX" "shape mX = [N, c]"
            "c = Lat \<or> c = 1"
    and L: "cholesky ext
              (tensor3_of Lat N N
                 (\<lambda>l i j. (if i = j then 1 else 0) + elem lam [j, l] * elem lam [i, l] * elem K [i, j])) =
            Inr L" "shape L = [Lat, N, N]"
    and Li: "triangular_solve ext L (tensor3_of Lat N N (\<lambda>l i j. if i = j then 1 else 0)) = Inr Li"
            "shape Li = [Lat, N, N]"
    and fmean: "fmean = matrix_of N Lat (\<lambda>n l.
              (\<Sum>k<N. elem K [n, k] * elem alpha [k, l]) + elem mX [n, if c = 1 then 0 else l])"
    and fvar: "fvar = matrix_of N Lat (\<lambda>n l.
              1 / (elem lam [n, l])\<^sup>2 - (\<Sum>i<N. (elem Li [l, i, n] / elem lam [n, l])\<^sup>2))"
    and KL: "KL = scalar (1 / 2 *
              (2 * (\<Sum>l<Lat. \<Sum>i<N. ln (elem L [l, i, i])) +
               (\<Sum>l<Lat. \<Sum>i<N. \<Sum>j<N. (elem Li [l, i, j])\<^sup>2) -
               real (N * Lat) +
               (\<Sum>n<N. \<Sum>l<Lat. (\<Sum>k<N. elem K [n, k] * elem alpha [k, l]) * elem alpha [n, l])))"
    and ve: "variational_expectations ext (likelihood self) fmean fvar Y = Inr v_exp"
  shows "VGPOpperArchambeau_log_likelihood_locals ext self =
           Inr \<lparr>local_f_mean = fmean, local_f_var = fvar, local_KL = KL,
                local_result = scalar (sum_all (shape v_exp) (elem v_exp) - elem KL [])\<rparr>"
proof -
  let ?Ka = "matrix_of N Lat (\<lambda>n l. \<Sum>k<N. elem K [n, k] * elem alpha [k, l])"
  let ?I = "tensor3_of Lat N N (\<lambda>l i j. if i = j then 1 else (0::real))"
  have Ka: "tf_matmul False K alpha = Inr ?Ka"
    by (rule tf_matmul_2) (simp_all add: K alpha)
  have fm: "tf_add ?Ka mX = Inr fmean"
    unfolding tf_add_def fmean using mX(3)
    by (subst tf_binop_cols2[where n=N and m=Lat and c=c]) (simp_all add: mX(2) cong: matrix_of_cong)
  have eye1: "tf_expand_dims (tf_eye N) 0 = Inr (tensor3_of 1 N N (\<lambda>h i j. if i = j then 1 else 0))"
    by (subst tf_expand_dims_0_2[where n=N and m=N])
       (auto simp: tf_eye_matrix intro!: tensor3_of_cong)
  have I: "tf_tile (tensor3_of 1 N N (\<lambda>h i j. if i = j then 1 else 0)) [Lat, 1, 1] = Inr ?I"
    by (subst tf_tile_3[where n=N and m=N]) (simp_all cong: tensor3_of_cong)
  have lamT: "tf_transpose lam = matrix_of Lat N (\<lambda>l n. elem lam [n, l])"
    by (rule tf_transpose_2) (simp add: lam)
  have row: "tf_expand_dims (matrix_of Lat N (\<lambda>l n. elem lam [n, l])) 1 =
      Inr (tensor3_of Lat 1 N (\<lambda>l i j. elem lam [j, l]))"
    by (subst tf_expand_dims_1_2[where n=Lat and m=N]) (auto intro!: tensor3_of_cong)
  have col: "tf_expand_dims (matrix_of Lat N (\<lambda>l n. elem lam [n, l])) 2 =
      Inr (tensor3_of Lat N 1 (\<lambda>l i j. elem lam [i, l]))"
    by (subst tf_expand_dims_2_2[where n=Lat and m=N]) (auto intro!: tensor3_of_cong)
  have outer: "tf_multiply (tensor3_of Lat 1 N (\<lambda>l i j. elem lam [j, l]))
        (tensor3_of Lat N 1 (\<lambda>l i j. elem lam [i, l])) =
      Inr (tensor3_of Lat N N (\<lambda>l i j. elem lam [j, l] * elem lam [i, l]))"
    unfolding tf_multiply_def
    by (subst tf_binop_row_col3[where l=Lat and n=N]) (auto intro!: tensor3_of_cong)
  have lamK: "tf_multiply (tensor3_of Lat N N (\<lambda>l i j. elem lam [j, l] * elem lam [i, l])) K =
      Inr (tensor3_of Lat N N (\<lambda>l i j. elem lam [j, l] * elem lam [i, l] * elem K [i, j]))"
    unfolding tf_multiply_def
    by (subst tf_binop_3_2[where l=Lat and n=N and m=N]) (auto simp: K intro!: tensor3_of_cong)
  have A: "tf_add ?I (tensor3_of Lat N N (\<lambda>l i j. elem lam [j, l] * elem lam [i, l] * elem K [i, j])) =
      Inr (tensor3_of Lat N N
             (\<lambda>l i j. (if i = j then 1 else 0) + elem lam [j, l] * elem lam [i, l] * elem K [i, j]))"
    unfolding tf_add_def
    by (subst tf_binop_same3[where l=Lat and n=N and m=N]) (auto intro!: tensor3_of_cong)
  have tmp: "tf_divide Li (tensor3_of Lat 1 N (\<lambda>l i j. elem lam [j, l])) =
      Inr (tensor3_of Lat N N (\<lambda>l i j. elem Li [l, i, j] / elem lam [j, l]))"
    unfolding tf_divide_def
    by (subst tf_binop_3_row[where l=Lat and n=N and m=N]) (auto simp: Li intro!: tensor3_of_cong)
  have sq: "tf_square lam = matrix_of N Lat (\<lambda>n l. (elem lam [n, l])\<^sup>2)"
    unfolding tf_square_def by (rule tf_map_2) (simp add: lam)
  have inv: "tf_divide (scalar 1) (matrix_of N Lat (\<lambda>n l. (elem lam [n, l])\<^sup>2)) =
      Inr (matrix_of N Lat (\<lambda>n l. 1 / (elem lam [n, l])\<^sup>2))"
    unfolding tf_divide_def
    by (subst tf_binop_scalar_left2[where n=N and m=Lat]) (simp_all cong: matrix_of_cong)
  have sqtmp: "tf_square (tensor3_of Lat N N (\<lambda>l i j. elem Li [l, i, j] / elem lam [j, l])) =
      tensor3_of Lat N N (\<lambda>l i j. (elem Li [l, i, j] / elem lam [j, l])\<^sup>2)"
    by (subst tf_square_3[where d=Lat and n=N and m=N]) (auto intro!: tensor3_of_cong)
  have cs: "tf_reduce_sum_axis
        (tensor3_of Lat N N (\<lambda>l i j. (elem Li [l, i, j] / elem lam [j, l])\<^sup>2)) 1 =
      Inr (matrix_of Lat N (\<lambda>l n. \<Sum>i<N. (elem Li [l, i, n] / elem lam [n, l])\<^sup>2))"
    by (subst tf_reduce_sum_axis_1_3[where d=Lat and n=N and m=N])
       (auto intro!: matrix_of_cong sum.cong)
  have cst: "tf_transpose (matrix_of Lat N (\<lambda>l n. \<Sum>i<N. (elem Li [l, i, n] / elem lam [n, l])\<^sup>2)) =
      matrix_of N Lat (\<lambda>n l. \<Sum>i<N. (elem Li [l, i, n] / elem lam [n, l])\<^sup>2)"
    by (subst tf_transpose_2[where n=Lat and m=N]) (simp_all cong: matrix_of_cong)
  have fv: "tf_subtract (matrix_of N Lat (\<lambda>n l. 1 / (elem lam [n, l])\<^sup>2))
        (matrix_of N Lat (\<lambda>n l. \<Sum>i<N. (elem Li [l, i, n] / elem lam [n, l])\<^sup>2)) = Inr fvar"
    unfolding tf_subtract_def fvar
    by (subst tf_binop_same2[where n=N and m=Lat]) (simp_all cong: matrix_of_cong)
  have dp: "tf_diag_part L = Inr (matrix_of Lat N (\<lambda>l i. elem L [l, i, i]))"
    by (rule tf_diag_part_3) (simp add: L)
  have lg: "tf_log (matrix_of Lat N (\<lambda>l i. elem L [l, i, i])) =
      matrix_of Lat N (\<lambda>l i. ln (elem L [l, i, i]))"
    unfolding tf_log_def
    by (subst tf_map_2[where n=Lat and m=N]) (simp_all cong: matrix_of_cong)
  have rs1: "tf_reduce_sum (matrix_of Lat N (\<lambda>l i. ln (elem L [l, i, i]))) =
      scalar (\<Sum>l<Lat. \<Sum>i<N. ln (elem L [l, i, i]))"
    by (subst tf_reduce_sum_2[where n=Lat and m=N]) (auto intro!: arg_cong[where f=scalar] sum.cong)
  have logdet: "tf_multiply (scalar 2) (scalar (\<Sum>l<Lat. \<Sum>i<N. ln (elem L [l, i, i]))) =
      Inr (scalar (2 * (\<Sum>l<Lat. \<Sum>i<N. ln (elem L [l, i, i]))))"
    by (simp add: tf_multiply_def tf_binop_scalars)
  have sqLi: "tf_square Li = tensor3_of Lat N N (\<lambda>l i j. (elem Li [l, i, j])\<^sup>2)"
    by (rule tf_square_3) (simp add: Li)
  have trAi: "tf_reduce_sum (tensor3_of Lat N N (\<lambda>l i j. (elem Li [l, i, j])\<^sup>2)) =
      scalar (\<Sum>l<Lat. \<Sum>i<N. \<Sum>j<N. (elem Li [l, i, j])\<^sup>2)"
    by (subst tf_reduce_sum_3[where l=Lat and n=N and m=N])
       (auto intro!: arg_cong[where f=scalar] sum.cong)
  have s1: "tf_add (scalar (2 * (\<Sum>l<Lat. \<Sum>i<N. ln (elem L [l, i, i]))))
        (scalar (\<Sum>l<Lat. \<Sum>i<N. \<Sum>j<N. (elem Li [l, i, j])\<^sup>2)) =
      Inr (scalar (2 * (\<Sum>l<Lat. \<Sum>i<N. ln (elem L [l, i, i])) +
               (\<Sum>l<Lat. \<Sum>i<N. \<Sum>j<N. (elem Li [l, i, j])\<^sup>2)))"
    by (simp add: tf_add_def tf_binop_scalars)
  have s2: "tf_subtract (scalar (2 * (\<Sum>l<Lat. \<Sum>i<N. ln (elem L [l, i, i])) +
               (\<Sum>l<Lat. \<Sum>i<N. \<Sum>j<N. (elem Li [l, i, j])\<^sup>2))) (scalar (real (N * Lat))) =
      Inr (scalar (2 * (\<Sum>l<Lat. \<Sum>i<N. ln (elem L [l, i, i])) +
               (\<Sum>l<Lat. \<Sum>i<N. \<Sum>j<N. (elem Li [l, i, j])\<^sup>2) - real (N * Lat)))"
    by (simp only: tf_subtract_def tf_binop_scalars shape_scalar elem_scalar)
  have Kaa: "tf_multiply ?Ka alpha =
      Inr (matrix_of N Lat (\<lambda>n l. (\<Sum>k<N. elem K [n, k] * elem alpha [k, l]) * elem alpha [n, l]))"
    unfolding tf_multiply_def
    by (subst tf_binop_same2[where n=N and m=Lat]) (simp_all add: alpha cong: matrix_of_cong)
  have rs2: "tf_reduce_sum
        (matrix_of N Lat (\<lambda>n l. (\<Sum>k<N. elem K [n, k] * elem alpha [k, l]) * elem alpha [n, l])) =
      scalar (\<Sum>n<N. \<Sum>l<Lat. (\<Sum>k<N. elem K [n, k] * elem alpha [k, l]) * elem alpha [n, l])"
    by (subst tf_reduce_sum_2[where n=N and m=Lat]) (auto intro!: arg_cong[where f=scalar] sum.cong)
  have s3: "tf_add (scalar (2 * (\<Sum>l<Lat. \<Sum>i<N. ln (elem L [l, i, i])) +
               (\<Sum>l<Lat. \<Sum>i<N. \<Sum>j<N. (elem Li [l, i, j])\<^sup>2) - real (N * Lat)))
        (scalar (\<Sum>n<N. \<Sum>l<Lat. (\<Sum>k<N. elem K [n, k] * elem alpha [k, l]) * elem alpha [n, l])) =
      Inr (scalar (2 * (\<Sum>l<Lat. \<Sum>i<N. ln (elem L [l, i, i])) +
               (\<Sum>l<Lat. \<Sum>i<N. \<Sum>j<N. (elem Li [l, i, j])\<^sup>2) - real (N * Lat) +
               (\<Sum>n<N. \<Sum>l<Lat. (\<Sum>k<N. elem K [n, k] * elem alpha [k, l]) * elem alpha [n, l])))"
    by (simp only: tf_add_def tf_binop_scalars shape_scalar elem_scalar)
  have kl: "tf_multiply (scalar (1 / 2))
        (scalar (2 * (\<Sum>l<Lat. \<Sum>i<N. ln (elem L [l, i, i])) +
               (\<Sum>l<Lat. \<Sum>i<N. \<Sum>j<N. (elem Li [l, i, j])\<^sup>2) - real (N * Lat) +
               (\<Sum>n<N. \<Sum>l<Lat. (\<Sum>k<N. elem K [n, k] * elem alpha [k, l]) * elem alpha [n, l]))) =
      Inr KL"
    unfolding KL by (simp only: tf_multiply_def tf_binop_scalars shape_scalar elem_scalar)
  have res: "tf_subtract (tf_reduce_sum v_exp) KL =
      Inr (scalar (sum_all (shape v_exp) (elem v_exp) - elem KL []))"
    by (simp add: tf_subtract_def tf_binop_scalars tf_reduce_sum_def KL)
  show ?thesis
    unfolding VGPOpperArchambeau_log_likelihood_locals_def Let_def
    by (simp only: data prod.case N Lat alpha lam K Ka mX(1) fm eye1 I lamT row col outer lamK A L Li
        tmp sq inv sqtmp cs cst fv dp lg rs1 logdet sqLi trAi s1 s2 Kaa rs2 s3 kl ve res bind_err_Inr)
qed

lemma bind_err_eq_Inr: "bind_err r f = Inr y \<longleftrightarrow> (\<exists>v. r = Inr v \<and> f v = Inr y)"
  by (cases r) simp_all

lemma bind_err_InrE:
  assumes "bind_err r f = Inr y"
  obtains v where "r = Inr v" "f v = Inr y"
  using assms by (cases r) simp_all

lemma np_zeros_matrix: "np_zeros [n, m] = matrix_of n m (\<lambda>i j. 0)"
  by (simp add: np_zeros_def tensor_of_eq_matrix_ofI)

lemma np_ones_matrix: "np_ones [n, m] = matrix_of n m (\<lambda>i j. 1)"
  by (simp add: np_ones_def tensor_of_eq_matrix_ofI)

lemma OA_log_likelihood_f_mean:
  fixes self :: "('v, 'l) VGPOpperArchambeau" and ext :: "('v, 'l) externals"
  assumes data: "data self = (X, Y)"
    and alpha: "param_value (q_alpha self) = alpha" "shape alpha = [N, Lat]"
    and K: "kernel_call ext (kern self) X None True = Inr K" "shape K = [N, N]"
    and mX: "mean_function_call ext (mean_function self) X = Inr mX" "shape mX = [N, c]"
            "c = Lat \<or> c = 1"
    and ret: "VGPOpperArchambeau_log_likelihood_locals ext self = Inr locals"
  shows "local_f_mean locals = matrix_of N Lat (\<lambda>n l.
              (\<Sum>k<N. elem K [n, k] * elem alpha [k, l]) + elem mX [n, if c = 1 then 0 else l])"
proof -
  let ?Ka = "matrix_of N Lat (\<lambda>n l. \<Sum>k<N. elem K [n, k] * elem alpha [k, l])"
  let ?fm = "matrix_of N Lat (\<lambda>n l.
              (\<Sum>k<N. elem K [n, k] * elem alpha [k, l]) + elem mX [n, if c = 1 then 0 else l])"
  have Ka: "tf_matmul False K alpha = Inr ?Ka"
    by (rule tf_matmul_2) (simp_all add: K alpha)
  have fm: "tf_add ?Ka mX = Inr ?fm"
    unfolding tf_add_def using mX(3)
    by (subst tf_binop_cols2[where n=N and m=Lat and c=c]) (simp_all add: mX(2) cong: matrix_of_cong)
  from ret show ?thesis
    unfolding VGPOpperArchambeau_log_likelihood_locals_def Let_def
    apply (simp only: data prod.case alpha K Ka mX(1) fm bind_err_Inr)
    apply (elim bind_err_InrE)
    apply (clarsimp simp only: sum.inject log_likelihood_locals.simps)
    done
qed

lemma OA_predict_f_mean:
  fixes self :: "('v, 'l) VGPOpperArchambeau" and ext :: "('v, 'l) externals"
  assumes data: "data self = (X, Y)"
    and alpha: "param_value (q_alpha self) = alpha" "shape alpha = [N, Lat]"
    and Kx: "kernel_call ext (kern self) X (Some Xnew) True = Inr Kx" "shape Kx = [N, M]"
    and mX: "mean_function_call ext (mean_function self) Xnew = Inr mX" "shape mX = [M, c]"
            "c = Lat \<or> c = 1"
    and ret: "VGPOpperArchambeau_predict_f ext self Xnew full_cov = Inr (f_mean, f_var)"
  shows "f_mean = matrix_of M Lat (\<lambda>m l.
              (\<Sum>n<N. elem Kx [n, m] * elem alpha [n, l]) + elem mX [m, if c = 1 then 0 else l])"
proof -
  let ?Ka = "matrix_of M Lat (\<lambda>m l. \<Sum>n<N. elem Kx [n, m] * elem alpha [n, l])"
  let ?fm = "matrix_of M Lat (\<lambda>m l.
              (\<Sum>n<N. elem Kx [n, m] * elem alpha [n, l]) + elem mX [m, if c = 1 then 0 else l])"
  have Ka: "tf_matmul True Kx alpha = Inr ?Ka"
    by (rule tf_matmul_2T) (simp_all add: Kx alpha)
  have fm: "tf_add ?Ka mX = Inr ?fm"
    unfolding tf_add_def using mX(3)
    by (subst tf_binop_cols2[where n=M and m=Lat and c=c]) (simp_all add: mX(2) cong: matrix_of_cong)
  from ret show ?thesis
    unfolding VGPOpperArchambeau_predict_f_def Let_def
    apply (simp only: data prod.case alpha Kx Ka bind_err_Inr)
    apply (erule bind_err_InrE)
    apply (simp only: mX(1) fm bind_err_Inr)
    apply (elim bind_err_InrE)
    apply (simp only: sum.inject prod.inject)
    done
qed

lemma sum_lessThan_1 [simp]: "(\<Sum>i<Suc 0. f i) = (f 0 :: real)"
  by simp

lemma VGPOpperArchambeau_predict_f_eval:
  fixes self :: "('v, 'l) VGPOpperArchambeau" and ext :: "('v, 'l) externals"
  assumes data: "data self = (X, Y)"
    and Lat: "num_latent self = Lat"
    and alpha: "param_value (q_alpha self) = alpha" "shape alpha = [N, Lat]"
    and lam: "param_value (q_lambda self) = lam" "shape lam = [N, Lat]"
    and Kx: "kernel_call ext (kern self) X (Some Xnew) True = Inr Kx" "shape Kx = [N, M]"
    and K: "kernel_call ext (kern self) X None True = Inr K" "shape K = [N, N]"
    and mX: "mean_function_call ext (mean_function self) Xnew = Inr mean_new"
            "shape mean_new = [M, c]" "c = Lat \<or> c = 1"
    and L: "cholesky ext
              (tensor3_of Lat N N
                 (\<lambda>l i j. elem K [i, j] + (if i = j then 1 / (elem lam [i, l])\<^sup>2 else 0))) =
            Inr L"
    and LiKx: "triangular_solve ext L (tensor3_of Lat N M (\<lambda>l i j. elem Kx [i, j])) = Inr LiKx"
              "shape LiKx = [Lat, N, M]"
    and Kss: "full_cov \<Longrightarrow>
          kernel_call ext (kern self) Xnew None True = Inr Kss \<and> shape Kss = [M, M]"
    and Kdiag: "\<not> full_cov \<Longrightarrow>
          kernel_call ext (kern self) Xnew None False = Inr Kdiag \<and> shape Kdiag = [M]"
  shows "VGPOpperArchambeau_predict_f ext self Xnew full_cov =
           Inr (matrix_of M Lat (\<lambda>m l.
                  (\<Sum>n<N. elem Kx [n, m] * elem alpha [n, l]) +
                  elem mean_new [m, if c = 1 then 0 else l]),
                if full_cov
                then tensor3_of M M Lat (\<lambda>i j l.
                       elem Kss [j, i] - (\<Sum>n<N. elem LiKx [l, n, j] * elem LiKx [l, n, i]))
                else matrix_of M Lat (\<lambda>m l.
                       elem Kdiag [m] - (\<Sum>n<N. (elem LiKx [l, n, m])\<^sup>2)))"
proof -
  have Kxa: "tf_matmul True Kx alpha =
      Inr (matrix_of M Lat (\<lambda>m l. \<Sum>n<N. elem Kx [n, m] * elem alpha [n, l]))"
    by (rule tf_matmul_2T) (simp_all add: Kx alpha)
  have fm: "tf_add (matrix_of M Lat (\<lambda>m l. \<Sum>n<N. elem Kx [n, m] * elem alpha [n, l])) mean_new =
      Inr (matrix_of M Lat (\<lambda>m l.
                  (\<Sum>n<N. elem Kx [n, m] * elem alpha [n, l]) +
                  elem mean_new [m, if c = 1 then 0 else l]))"
    unfolding tf_add_def using mX(3)
    by (subst tf_binop_cols2[where n=M and m=Lat and c=c]) (simp_all add: mX(2) cong: matrix_of_cong)
  have sq: "tf_square lam = matrix_of N Lat (\<lambda>n l. (elem lam [n, l])\<^sup>2)"
    unfolding tf_square_def by (rule tf_map_2) (simp add: lam)
  have inv: "tf_divide (scalar 1) (matrix_of N Lat (\<lambda>n l. (elem lam [n, l])\<^sup>2)) =
      Inr (matrix_of N Lat (\<lambda>n l. 1 / (elem lam [n, l])\<^sup>2))"
    unfolding tf_divide_def
    by (subst tf_binop_scalar_left2[where n=N and m=Lat]) (simp_all cong: matrix_of_cong)
  have tr: "tf_transpose (matrix_of N Lat (\<lambda>n l. 1 / (elem lam [n, l])\<^sup>2)) =
      matrix_of Lat N (\<lambda>l n. 1 / (elem lam [n, l])\<^sup>2)"
    by (subst tf_transpose_2[where n=N and m=Lat]) (simp_all cong: matrix_of_cong)
  have D: "tf_linalg_diag (matrix_of Lat N (\<lambda>l n. 1 / (elem lam [n, l])\<^sup>2)) =
      Inr (tensor3_of Lat N N (\<lambda>l i j. if i = j then 1 / (elem lam [i, l])\<^sup>2 else 0))"
    by (subst tf_linalg_diag_2[where l=Lat and n=N]) (auto intro!: tensor3_of_cong)
  have A: "tf_add K (tensor3_of Lat N N (\<lambda>l i j. if i = j then 1 / (elem lam [i, l])\<^sup>2 else 0)) =
      Inr (tensor3_of Lat N N
                 (\<lambda>l i j. elem K [i, j] + (if i = j then 1 / (elem lam [i, l])\<^sup>2 else 0)))"
    unfolding tf_add_def
    by (subst tf_binop_2_3[where l=Lat and n=N and m=N]) (auto simp: K intro!: tensor3_of_cong)
  have Kx1: "tf_expand_dims Kx 0 = Inr (tensor3_of 1 N M (\<lambda>h i j. elem Kx [i, j]))"
    by (rule tf_expand_dims_0_2) (simp add: Kx)
  have tile: "tf_tile (tensor3_of 1 N M (\<lambda>h i j. elem Kx [i, j])) [Lat, 1, 1] =
      Inr (tensor3_of Lat N M (\<lambda>l i j. elem Kx [i, j]))"
    by (subst tf_tile_3[where n=N and m=M]) (simp_all cong: tensor3_of_cong)
  have G: "tf_matmul True LiKx LiKx =
      Inr (tensor3_of Lat M M (\<lambda>l i j. \<Sum>n<N. elem LiKx [l, n, i] * elem LiKx [l, n, j]))"
    by (rule tf_matmul_3T) (simp_all add: LiKx)
  have full: "tf_subtract Kss
        (tensor3_of Lat M M (\<lambda>l i j. \<Sum>n<N. elem LiKx [l, n, i] * elem LiKx [l, n, j])) =
      Inr (tensor3_of Lat M M (\<lambda>l i j.
             elem Kss [i, j] - (\<Sum>n<N. elem LiKx [l, n, i] * elem LiKx [l, n, j])))"
    if "shape Kss = [M, M]"
    unfolding tf_subtract_def
    by (subst tf_binop_2_3[where l=Lat and n=M and m=M]) (auto simp: that intro!: tensor3_of_cong)
  have trfull: "tf_transpose (tensor3_of Lat M M (\<lambda>l i j.
             elem Kss [i, j] - (\<Sum>n<N. elem LiKx [l, n, i] * elem LiKx [l, n, j]))) =
      tensor3_of M M Lat (\<lambda>i j l.
             elem Kss [j, i] - (\<Sum>n<N. elem LiKx [l, n, j] * elem LiKx [l, n, i]))"
    by (subst tf_transpose_3[where d=Lat and n=M and m=M]) (auto intro!: tensor3_of_cong)
  have sqL: "tf_square LiKx = tensor3_of Lat N M (\<lambda>l n m. (elem LiKx [l, n, m])\<^sup>2)"
    by (rule tf_square_3) (simp add: LiKx)
  have red: "tf_reduce_sum_axis (tensor3_of Lat N M (\<lambda>l n m. (elem LiKx [l, n, m])\<^sup>2)) 1 =
      Inr (matrix_of Lat M (\<lambda>l m. \<Sum>n<N. (elem LiKx [l, n, m])\<^sup>2))"
    by (subst tf_reduce_sum_axis_1_3[where d=Lat and n=N and m=M])
       (auto intro!: matrix_of_cong sum.cong)
  have diag: "tf_subtract Kdiag (matrix_of Lat M (\<lambda>l m. \<Sum>n<N. (elem LiKx [l, n, m])\<^sup>2)) =
      Inr (matrix_of Lat M (\<lambda>l m. elem Kdiag [m] - (\<Sum>n<N. (elem LiKx [l, n, m])\<^sup>2)))"
    if "shape Kdiag = [M]"
    unfolding tf_subtract_def
    by (subst tf_binop_1_2[where l=Lat and m=M]) (auto simp: that intro!: matrix_of_cong)
  have trdiag: "tf_transpose
        (matrix_of Lat M (\<lambda>l m. elem Kdiag [m] - (\<Sum>n<N. (elem LiKx [l, n, m])\<^sup>2))) =
      matrix_of M Lat (\<lambda>m l. elem Kdiag [m] - (\<Sum>n<N. (elem LiKx [l, n, m])\<^sup>2))"
    by (subst tf_transpose_2[where n=Lat and m=M]) (simp_all cong: matrix_of_cong)
  show ?thesis
  proof (cases full_cov)
    case True
    from Kss[OF True] have Kss': "kernel_call ext (kern self) Xnew None True = Inr Kss"
      and sh: "shape Kss = [M, M]" by simp_all
    from True show ?thesis
      unfolding VGPOpperArchambeau_predict_f_def Let_def
      by (simp only: data prod.case Lat alpha lam Kx K Kxa mX(1) fm sq inv tr D A L Kx1 tile LiKx
          Kss' G full[OF sh] trfull bind_err_Inr if_True)
  next
    case False
    from Kdiag[OF False] have Kdiag': "kernel_call ext (kern self) Xnew None False = Inr Kdiag"
      and sh: "shape Kdiag = [M]" by simp_all
    from False show ?thesis
      unfolding VGPOpperArchambeau_predict_f_def Let_def
      by (simp only: data prod.case Lat alpha lam Kx K Kxa mX(1) fm sq inv tr D A L Kx1 tile LiKx
          Kdiag' sqL red diag[OF sh] trdiag bind_err_Inr if_False)
  qed
qed

lemma sum_lessThan_2: "(\<Sum>i<(2::nat). f i) = (f 0 + f 1 :: real)"
  by (simp add: numeral_2_eq_2)

lemma less_2_iff: "i < (2::nat) \<longleftrightarrow> i = 0 \<or> i = 1"
  by auto

lemma example_cholesky_predict:
  "cholesky example_ext
     (tensor3_of 1 2 2
        (\<lambda>l i j. elem (matrix_of 2 2 (\<lambda>i j. if i = j then 3 else 0)) [i, j] +
                 (if i = j then 1 / (elem (matrix_of 2 1 (\<lambda>i j. 1)) [i, l])\<^sup>2 else 0))) =
   Inr (tensor3_of 1 2 2 (\<lambda>l i j. if i = j then 2 else 0))"
  by (auto simp: example_ext_def tf_map_3[where l=1 and n=2 and m=2] intro!: tensor3_of_cong)

lemma example_solve_Kx:
  "triangular_solve example_ext (tensor3_of 1 2 2 (\<lambda>l i j. if i = j then 2 else 0))
     (tensor3_of 1 2 2 (\<lambda>l i j. elem example_Kx [i, j])) = Inr example_LiKx"
  unfolding example_LiKx_def
  by (auto simp: example_ext_def intro!: tensor_of_eq_tensor3_ofI)

lemma example_cholesky_likelihood:
  "cholesky example_ext
     (tensor3_of 1 2 2
        (\<lambda>l i j. (if i = j then 1 else 0) +
           elem (matrix_of 2 1 (\<lambda>i j. 1)) [j, l] * elem (matrix_of 2 1 (\<lambda>i j. 1)) [i, l] *
           elem (matrix_of 2 2 (\<lambda>i j. if i = j then 3 else 0)) [i, j])) =
   Inr (tensor3_of 1 2 2 (\<lambda>l i j. if i = j then 2 else 0))"
  by (auto simp: example_ext_def tf_map_3[where l=1 and n=2 and m=2] intro!: tensor3_of_cong)

lemma example_solve_identity:
  "triangular_solve example_ext (tensor3_of 1 2 2 (\<lambda>l i j. if i = j then 2 else 0))
     (tensor3_of 1 2 2 (\<lambda>l i j. if i = j then 1 else 0)) =
   Inr (tensor3_of 1 2 2 (\<lambda>l i j. if i = j then 1 / 2 else 0))"
  by (auto simp: example_ext_def intro!: tensor_of_eq_tensor3_ofI)

lemma determinant_2: "determinant 2 A = A 0 0 * A 1 1 - A 1 0 * A 0 1"
  by (simp add: numeral_2_eq_2 minor_def skip_def)

lemma elem_example_Kx:
  "elem example_Kx [0, 0] = 1" "elem example_Kx [0, Suc 0] = 2"
  "elem example_Kx [Suc 0, 0] = 0" "elem example_Kx [Suc 0, Suc 0] = 1"
  by (simp_all add: example_Kx_def)

lemma elem_example_LiKx:
  "elem example_LiKx [0, 0, 0] = 1 / 2" "elem example_LiKx [0, 0, Suc 0] = 1"
  "elem example_LiKx [0, Suc 0, 0] = 0" "elem example_LiKx [0, Suc 0, Suc 0] = 1 / 2"
  by (simp_all add: example_LiKx_def elem_example_Kx)

lemma example_predict_f:
  "VGPOpperArchambeau_predict_f example_ext example_OA example_Xnew False =
     Inr (matrix_of 2 1 (\<lambda>m l. if m = 0 then 1 else 4),
          matrix_of 2 1 (\<lambda>m l. if m = 0 then 11 / 4 else 7 / 4))"
proof -
  let ?alpha = "matrix_of 2 1 (\<lambda>i j. real i + 1)"
  let ?lam = "matrix_of 2 1 (\<lambda>i j. 1)"
  let ?K = "matrix_of 2 2 (\<lambda>i j. if i = j then 3 else 0)"
  let ?Kd = "tensor_of [2] (\<lambda>idx. 3)"
  let ?mX = "np_zeros [2, 1]"
  let ?L = "tensor3_of 1 2 2 (\<lambda>l i j. if i = j then 2 else 0)"
  let ?fm = "matrix_of 2 1 (\<lambda>m l.
      (\<Sum>n<2. elem example_Kx [n, m] * elem ?alpha [n, l]) +
      elem ?mX [m, if (1::nat) = 1 then 0 else l])"
  let ?diag = "matrix_of 2 1 (\<lambda>m l. elem ?Kd [m] - (\<Sum>n<2. (elem example_LiKx [l, n, m])\<^sup>2))"
  let ?full = "tensor3_of 2 2 1 (\<lambda>i j l.
      elem ?K [j, i] - (\<Sum>n<2. elem example_LiKx [l, n, j] * elem example_LiKx [l, n, i]))"
  have "VGPOpperArchambeau_predict_f example_ext example_OA example_Xnew False =
      Inr (?fm, if False then ?full else ?diag)"
    by (rule VGPOpperArchambeau_predict_f_eval[where X=example_X and Y=example_Y and N=2
          and Lat=1 and M=2 and c=1 and alpha="?alpha" and lam="?lam" and Kx="example_Kx"
          and K="?K" and mean_new="?mX" and L="?L" and LiKx="example_LiKx"
          and Kss="?K" and Kdiag="?Kd" and full_cov=False,
          OF _ _ _ _ _ _ _ _ _ _ _ _ _ example_cholesky_predict example_solve_Kx])
       (simp_all add: example_OA_def example_ext_def np_zeros_def example_Kx_def
          example_LiKx_def)
  moreover have "?fm = matrix_of 2 1 (\<lambda>m l. if m = 0 then 1 else 4)"
    by (rule matrix_of_cong)
       (auto simp: less_2_iff sum_lessThan_2 np_zeros_matrix elem_example_Kx)
  moreover have "?diag = matrix_of 2 1 (\<lambda>m l. if m = 0 then 11 / 4 else 7 / 4)"
    by (rule matrix_of_cong)
       (auto simp: less_2_iff sum_lessThan_2 elem_tensor_of elem_example_LiKx power2_eq_square)
  ultimately show ?thesis by simp
qed

lemma example_rowSums:
  "matrix_of 2 1 (\<lambda>m l. elem (tensor_of [2] (\<lambda>idx. 3)) [m] -
       rowSums 2 (\<lambda>n m. (slice example_LiKx l n m)\<^sup>2) m) =
   matrix_of 2 1 (\<lambda>m l. if m = 0 then 7 / 4 else 11 / 4)"
  by (rule matrix_of_cong)
     (auto simp: less_2_iff sum_lessThan_2 rowSums_def slice_def elem_tensor_of
        elem_example_LiKx power2_eq_square)

subsection \<open>Claim C4: the evidence lower bound of \<^verbatim>\<open>VGP\<close>\<close>

text \<open>
  C4.  \<^verbatim>\<open>VGP.log_likelihood\<close> forms \<open>K = kernel(X, X) + jitter \<cdot> I\<close>, takes the Cholesky factor \<open>L\<close>
  of \<open>K\<close>, computes \<open>fmean = L q_mu + mean_function(X)\<close>, computes \<open>fvar\<close> by multiplying \<open>L\<close>
  into the lower-triangular part of every slice of \<open>q_sqrt\<close>, squaring and summing over the
  last axis, transposed to the input-major \<open>N \<times> R\<close> layout, and returns the sum of all entries
  of the likelihood's variational expectations at \<open>(fmean, fvar, Y)\<close> minus the KL divergence
  \<open>gauss_kl(q_mu, q_sqrt)\<close>.  Shapes are as the model declares them; the mean function returns
  \<open>N \<times> R\<close> or \<open>N \<times> 1\<close> (broadcast over the outputs).
\<close>

theorem VGP_log_likelihood_elbo:
  fixes self :: "('v, 'l) VGP" and ext :: "('v, 'l) externals"
  assumes data: "data self = (X, Y)"
    and N: "num_data self = N" and R: "num_latent self = R"
    and mu: "param_value (q_mu self) = mu" "shape mu = [N, R]"
    and S: "param_value (q_sqrt self) = S" "shape S = [R, N, N]"
    and KL: "gauss_kl ext mu S = Inr KL" "shape KL = []"
    and Kxx: "kernel_call ext (kern self) X None True = Inr Kxx" "shape Kxx = [N, N]"
    and L: "cholesky ext
              (matrix_of N N (\<lambda>i j. elem Kxx [i, j] + (if i = j then 1 else 0) * default_jitter ext)) =
            Inr L" "shape L = [N, N]"
    and mX: "mean_function_call ext (mean_function self) X = Inr mX" "shape mX = [N, c]"
            "c = R \<or> c = 1"
    and fmean: "fmean = matrix_of N R (\<lambda>n r.
              (\<Sum>k<N. elem L [n, k] * elem mu [k, r]) + elem mX [n, if c = 1 then 0 else r])"
    and fvar: "fvar = matrix_of N R (\<lambda>n r.
              \<Sum>j<N. (\<Sum>k<N. elem L [n, k] * (if j \<le> k then elem S [r, k, j] else 0))\<^sup>2)"
    and ve: "variational_expectations ext (likelihood self) fmean fvar Y = Inr var_exp"
  shows "VGP_log_likelihood ext self =
           Inr (scalar (sum_all (shape var_exp) (elem var_exp) - elem KL []))"
proof -
  have jit: "tf_multiply (tf_eye N) (scalar (default_jitter ext)) =
      Inr (matrix_of N N (\<lambda>i j. (if i = j then 1 else 0) * default_jitter ext))"
    by (simp add: tf_multiply_def tf_binop_scalar_right2[where n=N and m=N] tf_eye_matrix
        cong: matrix_of_cong)
  have K: "tf_add Kxx (matrix_of N N (\<lambda>i j. (if i = j then 1 else 0) * default_jitter ext)) =
      Inr (matrix_of N N (\<lambda>i j. elem Kxx [i, j] + (if i = j then 1 else 0) * default_jitter ext))"
    by (simp add: tf_add_def tf_binop_same2[where n=N and m=N] Kxx cong: matrix_of_cong)
  have Lmu: "tf_matmul False L mu = Inr (matrix_of N R (\<lambda>i j. \<Sum>l<N. elem L [i, l] * elem mu [l, j]))"
    by (rule tf_matmul_2) (simp_all add: L mu)
  have fm: "tf_add (matrix_of N R (\<lambda>i j. \<Sum>l<N. elem L [i, l] * elem mu [l, j])) mX = Inr fmean"
    unfolding fmean tf_add_def
    using mX(3) by (subst tf_binop_cols2[where n=N and m=R and c=c]) (simp_all add: mX(2) cong: matrix_of_cong)
  have band: "tf_band_part S (- 1) 0 =
      Inr (tensor3_of R N N (\<lambda>h i j. if j \<le> i then elem S [h, i, j] else 0))"
    by (rule tf_band_part_lower3) (simp add: S)
  have exp: "tf_expand_dims L 0 = Inr (tensor3_of 1 N N (\<lambda>h i j. elem L [i, j]))"
    by (rule tf_expand_dims_0_2) (simp add: L)
  have tile: "tf_tile (tensor3_of 1 N N (\<lambda>h i j. elem L [i, j])) [R, 1, 1] =
      Inr (tensor3_of R N N (\<lambda>h i j. elem L [i, j]))"
    by (subst tf_tile_3[where n=N and m=N]) (simp_all cong: tensor3_of_cong)
  have LTA: "tf_matmul False (tensor3_of R N N (\<lambda>h i j. elem L [i, j]))
        (tensor3_of R N N (\<lambda>h i j. if j \<le> i then elem S [h, i, j] else 0)) =
      Inr (tensor3_of R N N (\<lambda>h i j. \<Sum>k<N. elem L [i, k] * (if j \<le> k then elem S [h, k, j] else 0)))"
    by (subst tf_matmul_3[where d=R and n=N and k=N and m=N])
       (auto intro!: tensor3_of_cong sum.cong)
  have sq: "tf_square (tensor3_of R N N
        (\<lambda>h i j. \<Sum>k<N. elem L [i, k] * (if j \<le> k then elem S [h, k, j] else 0))) =
      tensor3_of R N N
        (\<lambda>h i j. (\<Sum>k<N. elem L [i, k] * (if j \<le> k then elem S [h, k, j] else 0))\<^sup>2)"
    by (subst tf_square_3[where d=R and n=N and m=N]) (simp_all cong: tensor3_of_cong)
  have red: "tf_reduce_sum_axis (tensor3_of R N N
        (\<lambda>h i j. (\<Sum>k<N. elem L [i, k] * (if j \<le> k then elem S [h, k, j] else 0))\<^sup>2)) 2 =
      Inr (matrix_of R N
        (\<lambda>h i. \<Sum>j<N. (\<Sum>k<N. elem L [i, k] * (if j \<le> k then elem S [h, k, j] else 0))\<^sup>2))"
    by (subst tf_reduce_sum_axis_2_3[where d=R and n=N and m=N])
       (auto intro!: matrix_of_cong sum.cong)
  have tr: "tf_transpose (matrix_of R N
        (\<lambda>h i. \<Sum>j<N. (\<Sum>k<N. elem L [i, k] * (if j \<le> k then elem S [h, k, j] else 0))\<^sup>2)) = fvar"
    unfolding fvar
    by (subst tf_transpose_2[where n=R and m=N]) (simp_all cong: matrix_of_cong)
  have sub: "tf_subtract (tf_reduce_sum var_exp) KL =
      Inr (scalar (sum_all (shape var_exp) (elem var_exp) - elem KL []))"
    by (simp add: tf_subtract_def tf_binop_scalars tf_reduce_sum_def KL)
  show ?thesis
    unfolding VGP_log_likelihood_def
    by (simp only: data prod.case N R mu S KL Kxx jit K L Lmu mX fm band exp tile LTA sq red tr
        ve sub bind_err_Inr)
qed

text \<open>
  In the example \<open>L = 2 I\<close> and \<open>fmean = 2 q_mu = (2, 4)\<close>; the lower triangle of \<open>q_sqrt\<close> has
  the rows \<open>(1, 0)\<close> and \<open>(3, 4)\<close>, so \<open>fvar = (2\<^sup>2, 6\<^sup>2 + 8\<^sup>2)\<close>, and the bound is
  \<open>(2 - 4) + (4 - 100) - 7\<close>.
\<close>

theorem VGP_log_likelihood_elbo_witness:
  "VGP_log_likelihood example_ext example_VGP = Inr (scalar (- 105))"
proof -
  let ?mu = "matrix_of 2 1 (\<lambda>i j. real i + 1)"
  let ?S = "tensor3_of 1 2 2 (\<lambda>l i j. real (2 * i + j) + 1 + (if i < j then 3 else 0))"
  let ?Kxx = "matrix_of 2 2 (\<lambda>i j. if i = j then 3 else 0)"
  let ?L = "matrix_of 2 2 (\<lambda>i j. if i = j then 2 else 0)"
  let ?mX = "np_zeros [2, 1]"
  let ?fmean = "matrix_of 2 1 (\<lambda>n r.
      (\<Sum>k<2. elem ?L [n, k] * elem ?mu [k, r]) + elem ?mX [n, if (1::nat) = 1 then 0 else r])"
  let ?fvar = "matrix_of 2 1 (\<lambda>n r.
      \<Sum>j<2. (\<Sum>k<2. elem ?L [n, k] * (if j \<le> k then elem ?S [r, k, j] else 0))\<^sup>2)"
  let ?ve = "matrix_of 2 1 (\<lambda>i j. elem ?fmean [i, j] - elem ?fvar [i, j])"
  have chol: "cholesky example_ext
      (matrix_of 2 2 (\<lambda>i j. elem ?Kxx [i, j] + (if i = j then 1 else 0) * default_jitter example_ext)) =
      Inr ?L"
    by (auto simp: example_ext_def tf_map_2[where n=2 and m=2] intro!: matrix_of_cong)
  have ve: "variational_expectations example_ext (likelihood example_VGP) ?fmean ?fvar example_Y =
      Inr ?ve"
    by (simp add: example_ext_def tf_subtract_def tf_binop_same2[where n=2 and m=1])
  have ev: "VGP_log_likelihood example_ext example_VGP =
      Inr (scalar (sum_all (shape ?ve) (elem ?ve) - elem (scalar 7) []))"
    by (rule VGP_log_likelihood_elbo[where X=example_X and Y=example_Y and N=2 and R=1
          and mu="?mu" and S="?S" and Kxx="?Kxx" and L="?L" and mX="?mX" and c=1
          and fmean="?fmean" and fvar="?fvar", OF _ _ _ _ _ _ _ _ _ _ _ chol _ _ _ _ _ _ ve])
       (simp_all add: example_VGP_def example_ext_def np_zeros_matrix)
  have fm: "?fmean = matrix_of 2 1 (\<lambda>n r. if n = 0 then 2 else 4)"
    by (rule matrix_of_cong) (auto simp: np_zeros_matrix less_2_iff sum_lessThan_2)
  have fv: "?fvar = matrix_of 2 1 (\<lambda>n r. if n = 0 then 4 else 100)"
    by (rule matrix_of_cong) (auto simp: less_2_iff sum_lessThan_2)
  have "sum_all (shape ?ve) (elem ?ve) - elem (scalar 7) [] = - 105"
    unfolding fm fv by (simp add: sum_lessThan_2)
  with ev show ?thesis by (simp only:)
qed

subsection \<open>Claim C5: the KL term of \<^verbatim>\<open>VGPOpperArchambeau.log_likelihood\<close>\<close>

text \<open>
  C5.  \<^verbatim>\<open>VGPOpperArchambeau.log_likelihood\<close> uses \<open>K = kernel(X, X)\<close> with no jitter (its result
  does not depend on the jitter setting); for every latent output \<open>l\<close> it builds
  \<open>A l = I + \<lambda>\<^sub>l \<lambda>\<^sub>l\<^sup>T \<circ> K\<close>, takes the Cholesky factor of the batch and solves against the
  identity by a triangular solve.  Where the two primitives meet their contracts (the factor is
  lower triangular with positive diagonal and \<open>L L\<^sup>T = A l\<close>; the solve returns \<open>Li\<close> with
  \<open>L Li = I\<close>), the local variable \<open>KL\<close> is
  \<open>1/2 (\<Sum>l. ln (det (A l)) + \<Sum>l. trace (inverse (A l)) - N \<cdot> Lat + \<Sum> (K q_alpha \<circ> q_alpha))\<close>,
  for any inverse \<open>Ainv l\<close> of \<open>A l\<close>.  The determinant is the Laplace expansion along the first
  column.  The entries of \<open>q_lambda\<close> are positive, as its transform keeps them.
\<close>

theorem VGPOpperArchambeau_KL_term:
  fixes self :: "('v, 'l) VGPOpperArchambeau" and ext :: "('v, 'l) externals"
  assumes data: "data self = (X, Y)"
    and N: "num_data self = N" and Lat: "num_latent self = Lat"
    and alpha: "param_value (q_alpha self) = alpha" "shape alpha = [N, Lat]"
    and lam: "param_value (q_lambda self) = lam" "shape lam = [N, Lat]"
    and K: "kernel_call ext (kern self) X None True = Inr K" "shape K = [N, N]"
    and mX: "mean_function_call ext (mean_function self) X = Inr mX" "shape mX = [N, c]"
            "c = Lat \<or> c = 1"
    and A: "A = (\<lambda>l i j. (if i = j then 1 else 0) + elem lam [j, l] * elem lam [i, l] * elem K [i, j])"
    and L: "cholesky ext (tensor3_of Lat N N A) = Inr L" "shape L = [Lat, N, N]"
    and Li: "triangular_solve ext L (tensor3_of Lat N N (\<lambda>l i j. if i = j then 1 else 0)) = Inr Li"
            "shape Li = [Lat, N, N]"
    and chol_lower: "\<And>l. l < Lat \<Longrightarrow> lower_triangular N (slice L l)"
    and chol_pos: "\<And>l i. l < Lat \<Longrightarrow> i < N \<Longrightarrow> 0 < slice L l i i"
    and chol_factor: "\<And>l. l < Lat \<Longrightarrow>
          meq N (A l) (mmul N (slice L l) (transpose_matrix (slice L l)))"
    and solve: "\<And>l. l < Lat \<Longrightarrow> meq N (mmul N (slice L l) (slice Li l)) identity_matrix"
    and Ainv: "\<And>l. l < Lat \<Longrightarrow> matrix_inverse N (A l) (Ainv l)"
    and fmean: "fmean = matrix_of N Lat (\<lambda>n l.
              (\<Sum>k<N. elem K [n, k] * elem alpha [k, l]) + elem mX [n, if c = 1 then 0 else l])"
    and fvar: "fvar = matrix_of N Lat (\<lambda>n l.
              1 / (elem lam [n, l])\<^sup>2 - (\<Sum>i<N. (elem Li [l, i, n] / elem lam [n, l])\<^sup>2))"
    and ve: "variational_expectations ext (likelihood self) fmean fvar Y = Inr v_exp"
    and KL: "KL = 1 / 2 *
              ((\<Sum>l<Lat. ln (determinant N (A l))) + (\<Sum>l<Lat. trace N (Ainv l)) -
               real (N * Lat) +
               (\<Sum>n<N. \<Sum>l<Lat. (\<Sum>k<N. elem K [n, k] * elem alpha [k, l]) * elem alpha [n, l]))"
    and lam_pos: "\<And>n l. n < N \<Longrightarrow> l < Lat \<Longrightarrow> 0 < elem lam [n, l]"
  shows "VGPOpperArchambeau_log_likelihood_locals ext self =
           Inr \<lparr>local_f_mean = fmean, local_f_var = fvar, local_KL = scalar KL,
                local_result = scalar (sum_all (shape v_exp) (elem v_exp) - KL)\<rparr> \<and>
         VGPOpperArchambeau_log_likelihood_locals (ext\<lparr>default_jitter := jitter\<rparr>) self =
           VGPOpperArchambeau_log_likelihood_locals ext self"
proof
  have logdet: "ln (determinant N (A l)) = 2 * (\<Sum>i<N. ln (elem L [l, i, i]))" if l: "l < Lat" for l
  proof -
    have "determinant N (A l) = determinant N (\<lambda>i j. \<Sum>k<N. slice L l i k * slice L l j k)"
      using chol_factor[OF l]
      by (intro determinant_cong) (simp add: meq_def mmul_def transpose_matrix_def)
    also have "ln \<dots> = 2 * (\<Sum>i<N. ln (slice L l i i))"
      by (rule ln_determinant_cholesky[OF chol_lower[OF l] chol_pos[OF l]])
    finally show ?thesis by (simp add: slice_def)
  qed
  have tr: "trace N (Ainv l) = (\<Sum>i<N. \<Sum>j<N. (elem Li [l, i, j])\<^sup>2)" if l: "l < Lat" for l
  proof -
    have nz: "slice L l i i \<noteq> 0" if "i < N" for i
      using chol_pos[OF l that] by simp
    have "trace N (Ainv l) = (\<Sum>i<N. \<Sum>j<N. (slice Li l i j)\<^sup>2)"
      using Ainv[OF l]
      by (intro trace_inverse_cholesky[OF chol_lower[OF l] nz chol_factor[OF l] solve[OF l]])
         (simp_all add: matrix_inverse_def)
    then show ?thesis by (simp add: slice_def)
  qed
  have "(\<Sum>l<Lat. ln (determinant N (A l))) = 2 * (\<Sum>l<Lat. \<Sum>i<N. ln (elem L [l, i, i]))"
    by (simp add: logdet sum_distrib_left)
  moreover have "(\<Sum>l<Lat. trace N (Ainv l)) = (\<Sum>l<Lat. \<Sum>i<N. \<Sum>j<N. (elem Li [l, i, j])\<^sup>2)"
    by (simp add: tr)
  ultimately have KL': "scalar KL = scalar (1 / 2 *
              (2 * (\<Sum>l<Lat. \<Sum>i<N. ln (elem L [l, i, i])) +
               (\<Sum>l<Lat. \<Sum>i<N. \<Sum>j<N. (elem Li [l, i, j])\<^sup>2) -
               real (N * Lat) +
               (\<Sum>n<N. \<Sum>l<Lat. (\<Sum>k<N. elem K [n, k] * elem alpha [k, l]) * elem alpha [n, l])))"
    unfolding KL by simp
  have "VGPOpperArchambeau_log_likelihood_locals ext self =
           Inr \<lparr>local_f_mean = fmean, local_f_var = fvar, local_KL = scalar KL,
                local_result = scalar (sum_all (shape v_exp) (elem v_exp) - elem (scalar KL) [])\<rparr>"
    by (rule OA_log_likelihood_locals_eval[OF data N Lat alpha lam K mX _ L(2) Li fmean fvar KL' ve])
       (use L(1) in \<open>simp add: A\<close>)
  then show "VGPOpperArchambeau_log_likelihood_locals ext self =
           Inr \<lparr>local_f_mean = fmean, local_f_var = fvar, local_KL = scalar KL,
                local_result = scalar (sum_all (shape v_exp) (elem v_exp) - KL)\<rparr>"
    by simp
  show "VGPOpperArchambeau_log_likelihood_locals (ext\<lparr>default_jitter := jitter\<rparr>) self =
           VGPOpperArchambeau_log_likelihood_locals ext self"
    by (simp add: VGPOpperArchambeau_log_likelihood_locals_def)
qed

text \<open>
  In the example \<open>A = I + 3 I\<close> has the determinant 16, the factor \<open>2 I\<close> and the inverse
  \<open>I / 4\<close> of trace \<open>1/2\<close>, and \<open>\<Sum> (K q_alpha \<circ> q_alpha) = 3 \<cdot> 1 + 6 \<cdot> 2\<close>.
\<close>

theorem VGPOpperArchambeau_KL_term_witness:
  "\<exists>locals.
     VGPOpperArchambeau_log_likelihood_locals example_ext example_OA = Inr locals \<and>
     local_KL locals = scalar (1 / 2 * (ln 16 + 1 / 2 - 2 + 15)) \<and>
     local_f_mean locals = matrix_of 2 1 (\<lambda>n l. if n = 0 then 3 else 6) \<and>
     local_f_var locals = matrix_of 2 1 (\<lambda>n l. 3 / 4)"
proof -
  let ?alpha = "matrix_of 2 1 (\<lambda>i j. real i + 1)"
  let ?lam = "matrix_of 2 1 (\<lambda>i j. 1)"
  let ?K = "matrix_of 2 2 (\<lambda>i j. if i = j then 3 else 0)"
  let ?mX = "np_zeros [2, 1]"
  let ?A = "\<lambda>l i j. (if i = j then 1 else 0) + elem ?lam [j, l] * elem ?lam [i, l] * elem ?K [i, j]"
  let ?L = "tensor3_of 1 2 2 (\<lambda>l i j. if i = j then 2 else 0)"
  let ?Li = "tensor3_of 1 2 2 (\<lambda>l i j. if i = j then 1 / 2 else 0)"
  let ?Ainv = "\<lambda>(l::nat) (i::nat) (j::nat). if i = j then 1 / (4::real) else 0"
  let ?fm = "matrix_of 2 1 (\<lambda>n l.
      (\<Sum>k<2. elem ?K [n, k] * elem ?alpha [k, l]) + elem ?mX [n, if (1::nat) = 1 then 0 else l])"
  let ?fv = "matrix_of 2 1 (\<lambda>n l.
      1 / (elem ?lam [n, l])\<^sup>2 - (\<Sum>i<2. (elem ?Li [l, i, n] / elem ?lam [n, l])\<^sup>2))"
  let ?ve = "matrix_of 2 1 (\<lambda>i j. elem ?fm [i, j] - elem ?fv [i, j])"
  let ?KL = "1 / 2 *
      ((\<Sum>l<1. ln (determinant 2 (?A l))) + (\<Sum>l<1. trace 2 (?Ainv l)) - real (2 * 1) +
       (\<Sum>n<2. \<Sum>l<1. (\<Sum>k<2. elem ?K [n, k] * elem ?alpha [k, l]) * elem ?alpha [n, l]))"
  have ve: "variational_expectations example_ext (likelihood example_OA) ?fm ?fv example_Y = Inr ?ve"
    by (simp add: example_ext_def tf_subtract_def tf_binop_same2[where n=2 and m=1])
  have lower: "lower_triangular 2 (slice ?L l)" if "l < 1" for l
    using that by (auto simp: lower_triangular_def slice_def)
  have pos: "0 < slice ?L l i i" if "l < 1" "i < 2" for l i
    using that by (simp add: slice_def)
  have factor: "meq 2 (?A l) (mmul 2 (slice ?L l) (transpose_matrix (slice ?L l)))" if "l < 1" for l
    using that by (auto simp: meq_def mmul_def transpose_matrix_def slice_def less_2_iff sum_lessThan_2)
  have sol: "meq 2 (mmul 2 (slice ?L l) (slice ?Li l)) identity_matrix" if "l < 1" for l
    using that by (auto simp: meq_def mmul_def slice_def identity_matrix_def less_2_iff sum_lessThan_2)
  have inv: "matrix_inverse 2 (?A l) (?Ainv l)" if "l < 1" for l
    using that
    by (auto simp: matrix_inverse_def meq_def mmul_def identity_matrix_def less_2_iff sum_lessThan_2)
  have ev: "VGPOpperArchambeau_log_likelihood_locals example_ext example_OA =
           Inr \<lparr>local_f_mean = ?fm, local_f_var = ?fv, local_KL = scalar ?KL,
                local_result = scalar (sum_all (shape ?ve) (elem ?ve) - ?KL)\<rparr>"
    by (rule VGPOpperArchambeau_KL_term[where X=example_X and Y=example_Y and N=2 and Lat=1
          and c=1 and alpha="?alpha" and lam="?lam" and K="?K" and mX="?mX" and A="?A"
          and L="?L" and Li="?Li" and Ainv="?Ainv" and jitter=0, THEN conjunct1,
          OF _ _ _ _ _ _ _ _ _ _ _ _ refl example_cholesky_likelihood _ example_solve_identity _
             lower pos factor sol inv refl refl ve refl])
       (simp_all add: example_OA_def example_ext_def np_zeros_def)
  have kl: "?KL = 1 / 2 * (ln 16 + 1 / 2 - 2 + 15)"
    by (simp add: trace_def determinant_2 sum_lessThan_2)
  have fm: "?fm = matrix_of 2 1 (\<lambda>n l. if n = 0 then 3 else 6)"
    by (rule matrix_of_cong) (auto simp: np_zeros_matrix less_2_iff sum_lessThan_2)
  have fv: "?fv = matrix_of 2 1 (\<lambda>n l. 3 / 4)"
    by (rule matrix_of_cong) (auto simp: less_2_iff sum_lessThan_2 power2_eq_square field_simps)
  from ev have "\<exists>locals.
     VGPOpperArchambeau_log_likelihood_locals example_ext example_OA = Inr locals \<and>
     local_KL locals = scalar ?KL \<and> local_f_mean locals = ?fm \<and> local_f_var locals = ?fv"
    by simp
  then show ?thesis
    unfolding kl fm fv .
qed

subsection \<open>Claim C6: the prediction of \<^verbatim>\<open>VGPOpperArchambeau\<close>\<close>

text \<open>
  C6 (amended).  \<^verbatim>\<open>VGPOpperArchambeau.predict_f\<close> returns the mean
  \<open>Kx\<^sup>T q_alpha + mean_function(Xnew)\<close> with \<open>Kx = kernel(X, Xnew)\<close>; it forms
  \<open>A = K + diag(1 / \<lambda>\<^sup>2)\<close> for every latent output, takes the Cholesky factor \<open>L\<close> of the batch,
  and obtains \<open>LiKx\<close> from the batched triangular solve of \<open>L\<close> against the tiled \<open>Kx\<close>.  With
  \<open>full_cov\<close> the variance is \<open>kernel(Xnew, Xnew) - LiKx\<^sup>T LiKx\<close>; otherwise it is the kernel
  diagonal at \<open>Xnew\<close> minus the column sums of \<open>square(LiKx)\<close>: for the new input \<open>m\<close>, the sum
  over the training inputs \<open>n\<close> of \<open>LiKx[n, m]\<^sup>2\<close>.  In both cases the variance is transposed, so
  that the latent output is the last axis.  The entries of \<open>q_lambda\<close> are positive, as its
  transform keeps them.
\<close>

theorem VGPOpperArchambeau_predict_f_formula:
  fixes self :: "('v, 'l) VGPOpperArchambeau" and ext :: "('v, 'l) externals"
  assumes data: "data self = (X, Y)"
    and Lat: "num_latent self = Lat"
    and alpha: "param_value (q_alpha self) = alpha" "shape alpha = [N, Lat]"
    and lam: "param_value (q_lambda self) = lam" "shape lam = [N, Lat]"
    and Kx: "kernel_call ext (kern self) X (Some Xnew) True = Inr Kx" "shape Kx = [N, M]"
    and K: "kernel_call ext (kern self) X None True = Inr K" "shape K = [N, N]"
    and mX: "mean_function_call ext (mean_function self) Xnew = Inr mean_new"
            "shape mean_new = [M, c]" "c = Lat \<or> c = 1"
    and L: "cholesky ext
              (tensor3_of Lat N N
                 (\<lambda>l i j. elem K [i, j] + (if i = j then 1 / (elem lam [i, l])\<^sup>2 else 0))) =
            Inr L"
    and LiKx: "triangular_solve ext L (tensor3_of Lat N M (\<lambda>l i j. elem Kx [i, j])) = Inr LiKx"
              "shape LiKx = [Lat, N, M]"
    and Kss: "full_cov \<Longrightarrow>
          kernel_call ext (kern self) Xnew None True = Inr Kss \<and> shape Kss = [M, M]"
    and Kdiag: "\<not> full_cov \<Longrightarrow>
          kernel_call ext (kern self) Xnew None False = Inr Kdiag \<and> shape Kdiag = [M]"
    and lam_pos: "\<And>n l. n < N \<Longrightarrow> l < Lat \<Longrightarrow> 0 < elem lam [n, l]"
  shows "VGPOpperArchambeau_predict_f ext self Xnew full_cov =
           Inr (matrix_of M Lat (\<lambda>m l.
                  (\<Sum>n<N. elem Kx [n, m] * elem alpha [n, l]) +
                  elem mean_new [m, if c = 1 then 0 else l]),
                if full_cov
                then tensor3_of M M Lat (\<lambda>i j l.
                       elem Kss [j, i] - (\<Sum>n<N. elem LiKx [l, n, j] * elem LiKx [l, n, i]))
                else matrix_of M Lat (\<lambda>m l.
                       elem Kdiag [m] - colSums N (\<lambda>n m. (slice LiKx l n m)\<^sup>2) m))"
  unfolding colSums_def slice_def
  by (rule VGPOpperArchambeau_predict_f_eval[OF data Lat alpha lam Kx K mX L LiKx Kss Kdiag])

text \<open>
  In the example \<open>A = 3 I + I\<close>, \<open>L = 2 I\<close> and \<open>LiKx = Kx / 2\<close>, with rows
  \<open>(1/2, 1)\<close> and \<open>(0, 1/2)\<close>.  The mean is \<open>Kx\<^sup>T q_alpha = (1, 4)\<close>; the columns of \<open>LiKx\<close>
  have the sums of squares \<open>1/4\<close> and \<open>5/4\<close>, so the variances are \<open>3 - 1/4\<close> and \<open>3 - 5/4\<close>.
\<close>

theorem VGPOpperArchambeau_predict_f_formula_witness:
  "VGPOpperArchambeau_predict_f example_ext example_OA example_Xnew True =
     Inr (matrix_of 2 1 (\<lambda>m l. if m = 0 then 1 else 4),
          tensor3_of 2 2 1
            (\<lambda>i j l. if i = j then (if i = 0 then 11 / 4 else 7 / 4) else - (1 / 2))) \<and>
   VGPOpperArchambeau_predict_f example_ext example_OA example_Xnew False =
     Inr (matrix_of 2 1 (\<lambda>m l. if m = 0 then 1 else 4),
          matrix_of 2 1 (\<lambda>m l. if m = 0 then 11 / 4 else 7 / 4))"
proof -
  let ?alpha = "matrix_of 2 1 (\<lambda>i j. real i + 1)"
  let ?lam = "matrix_of 2 1 (\<lambda>i j. 1)"
  let ?K = "matrix_of 2 2 (\<lambda>i j. if i = j then 3 else 0)"
  let ?Kd = "tensor_of [2] (\<lambda>idx. 3)"
  let ?mX = "np_zeros [2, 1]"
  let ?L = "tensor3_of 1 2 2 (\<lambda>l i j. if i = j then 2 else 0)"
  let ?fm = "matrix_of 2 1 (\<lambda>m l.
      (\<Sum>n<2. elem example_Kx [n, m] * elem ?alpha [n, l]) +
      elem ?mX [m, if (1::nat) = 1 then 0 else l])"
  let ?diag = "matrix_of 2 1 (\<lambda>m l.
      elem ?Kd [m] - colSums 2 (\<lambda>n m. (slice example_LiKx l n m)\<^sup>2) m)"
  let ?full = "tensor3_of 2 2 1 (\<lambda>i j l.
      elem ?K [j, i] - (\<Sum>n<2. elem example_LiKx [l, n, j] * elem example_LiKx [l, n, i]))"
  have "VGPOpperArchambeau_predict_f example_ext example_OA example_Xnew full_cov =
      Inr (?fm, if full_cov then ?full else ?diag)" for full_cov
    by (rule VGPOpperArchambeau_predict_f_formula[where X=example_X and Y=example_Y and N=2
          and Lat=1 and M=2 and c=1 and alpha="?alpha" and lam="?lam" and Kx="example_Kx"
          and K="?K" and mean_new="?mX" and L="?L" and LiKx="example_LiKx"
          and Kss="?K" and Kdiag="?Kd",
          OF _ _ _ _ _ _ _ _ _ _ _ _ _ example_cholesky_predict example_solve_Kx])
       (simp_all add: example_OA_def example_ext_def np_zeros_def example_Kx_def
          example_LiKx_def)
  moreover have "?fm = matrix_of 2 1 (\<lambda>m l. if m = 0 then 1 else 4)"
    by (rule matrix_of_cong)
       (auto simp: less_2_iff sum_lessThan_2 np_zeros_matrix elem_example_Kx)
  moreover have "?diag = matrix_of 2 1 (\<lambda>m l. if m = 0 then 11 / 4 else 7 / 4)"
    by (rule matrix_of_cong)
       (auto simp: less_2_iff sum_lessThan_2 colSums_def slice_def elem_tensor_of
          elem_example_LiKx power2_eq_square)
  moreover have "?full = tensor3_of 2 2 1
      (\<lambda>i j l. if i = j then (if i = 0 then 11 / 4 else 7 / 4) else - (1 / 2))"
    by (rule tensor3_of_cong)
       (auto simp: less_2_iff sum_lessThan_2 elem_example_LiKx)
  ultimately show ?thesis by simp
qed

text \<open>
  C6 as the specification words it, with the row sums of \<open>square(L\<^sup>-\<^sup>1 Kx)\<close>, fails on the
  example.  There the kernel diagonal is \<open>(3, 3)\<close> and the triangular solve returns
  \<open>LiKx\<close> with the rows \<open>(1/2, 1)\<close> and \<open>(0, 1/2)\<close>; the rows have the sums of squares
  \<open>5/4\<close> and \<open>1/4\<close>, so the worded variance is \<open>(7/4, 11/4)\<close>, whereas the code returns
  \<open>(11/4, 7/4)\<close>.  (With as many new inputs as training inputs the two have the same
  shape; otherwise the row sums do not even have the shape of the kernel diagonal.)
\<close>

theorem predict_f_rowSums_counterexample:
  "kernel_call example_ext (kern example_OA) example_Xnew None False =
     Inr (tensor_of [2] (\<lambda>idx. 3)) \<and>
   triangular_solve example_ext (tensor3_of 1 2 2 (\<lambda>l i j. if i = j then 2 else 0))
     (tensor3_of 1 2 2 (\<lambda>l i j. elem example_Kx [i, j])) = Inr example_LiKx \<and>
   VGPOpperArchambeau_predict_f example_ext example_OA example_Xnew False =
     Inr (matrix_of 2 1 (\<lambda>m l. if m = 0 then 1 else 4),
          matrix_of 2 1 (\<lambda>m l. if m = 0 then 11 / 4 else 7 / 4)) \<and>
   matrix_of 2 1 (\<lambda>m l. elem (tensor_of [2] (\<lambda>idx. 3)) [m] -
       rowSums 2 (\<lambda>n m. (slice example_LiKx l n m)\<^sup>2) m) =
     matrix_of 2 1 (\<lambda>m l. if m = 0 then 7 / 4 else 11 / 4) \<and>
   matrix_of 2 1 (\<lambda>m l. if m = 0 then 11 / 4 else 7 / 4) \<noteq>
   matrix_of 2 1 (\<lambda>m l. if m = 0 then 7 / 4 else (11 / 4 :: real))"
proof -
  have "elem (matrix_of 2 1 (\<lambda>m l. if m = 0 then 11 / 4 else 7 / 4)) [0, 0] \<noteq>
        elem (matrix_of 2 1 (\<lambda>m l. if m = 0 then 7 / 4 else (11 / 4 :: real))) [0, 0]"
    by simp
  then have "matrix_of 2 1 (\<lambda>m l. if m = 0 then 11 / 4 else 7 / 4) \<noteq>
        matrix_of 2 1 (\<lambda>m l. if m = 0 then 7 / 4 else (11 / 4 :: real))"
    by (metis (no_types))
  moreover have "kernel_call example_ext (kern example_OA) example_Xnew None False =
     Inr (tensor_of [2] (\<lambda>idx. 3))"
    by (simp add: example_ext_def)
  ultimately show ?thesis
    using example_predict_f example_rowSums example_solve_Kx by simp
qed

subsection \<open>Claim C8: the prediction of \<^verbatim>\<open>VGP\<close>\<close>

text \<open>
  C8.  \<^verbatim>\<open>VGP.predict_f\<close> calls the conditional with the training inputs, the kernel, \<open>q_mu\<close> and
  \<open>q_sqrt\<close> unchanged, the caller's \<open>full_cov\<close> and the whitened flag set; it returns the
  conditional's mean plus \<open>mean_function(Xnew)\<close> and the conditional's variance unchanged,
  whatever \<open>full_output_cov\<close> is.
\<close>

theorem VGP_predict_f_delegates:
  fixes self :: "('v, 'l) VGP" and ext :: "('v, 'l) externals"
  assumes data: "data self = (X, Y)"
    and cond: "conditional ext Xnew X (kern self) (param_value (q_mu self))
                 (Some (param_value (q_sqrt self))) full_cov True = Inr (mu, var)"
    and mu: "shape mu = [M, R]"
    and mX: "mean_function_call ext (mean_function self) Xnew = Inr mean_new"
            "shape mean_new = [M, c]" "c = R \<or> c = 1"
  shows "VGP_predict_f ext self Xnew full_cov full_output_cov =
           Inr (matrix_of M R (\<lambda>n r. elem mu [n, r] + elem mean_new [n, if c = 1 then 0 else r]),
                var)"
proof -
  have "tf_add mu mean_new =
      Inr (matrix_of M R (\<lambda>n r. elem mu [n, r] + elem mean_new [n, if c = 1 then 0 else r]))"
    unfolding tf_add_def using mX(3)
    by (subst tf_binop_cols2[where n=M and m=R and c=c]) (simp_all add: mu mX(2))
  then show ?thesis
    unfolding VGP_predict_f_def
    by (simp only: data prod.case cond mX(1) bind_err_Inr)
qed

text \<open>
  The example conditional refuses a call that is not whitened, and returns \<open>q_mu = (1, 2)\<close> as
  mean; the mean function adds 0.
\<close>

theorem VGP_predict_f_delegates_witness:
  "VGP_predict_f example_ext example_VGP example_Xnew False False =
     Inr (matrix_of 2 1 (\<lambda>n r. real n + 1), np_ones [2, 1]) \<and>
   VGP_predict_f example_ext example_VGP example_Xnew True True =
     Inr (matrix_of 2 1 (\<lambda>n r. real n + 1), np_ones [2, 1])"
proof -
  let ?mu = "matrix_of 2 1 (\<lambda>i j. real i + 1)"
  let ?mean = "matrix_of 2 1 (\<lambda>n r.
      elem ?mu [n, r] + elem (np_zeros [2, 1]) [n, if (1::nat) = 1 then 0 else r])"
  have "VGP_predict_f example_ext example_VGP example_Xnew full_cov full_output_cov =
      Inr (?mean, np_ones [2, 1])" for full_cov full_output_cov
    by (rule VGP_predict_f_delegates[where X=example_X and Y=example_Y and M=2 and R=1 and c=1])
       (simp_all add: example_VGP_def example_ext_def np_zeros_matrix)
  moreover have "?mean = matrix_of 2 1 (\<lambda>n r. real n + 1)"
    by (rule matrix_of_cong) (simp add: np_zeros_matrix)
  ultimately show ?thesis by simp
qed

subsection \<open>Claim C10: a freshly constructed \<^verbatim>\<open>VGPOpperArchambeau\<close>\<close>

text \<open>
  C10.  Constructing a \<^verbatim>\<open>VGPOpperArchambeau\<close> model without a mean function stores the Zero mean
  function, \<open>q_alpha\<close> as the \<open>N \<times> Lat\<close> zero matrix and \<open>q_lambda\<close> as the \<open>N \<times> Lat\<close> matrix of
  ones under the positive transform (\<open>Lat\<close> is the given number of latent outputs, or the number
  of columns of \<open>Y\<close> when none or 0 is given).  Every entry of \<open>q_lambda\<close> is positive, and the
  posterior mean at the training inputs, as \<^verbatim>\<open>log_likelihood\<close> computes it and as
  \<^verbatim>\<open>predict_f\<close> returns it at \<open>X\<close>, is the value of the mean function alone (broadcast over the
  latent outputs).
\<close>

theorem VGPOpperArchambeau_init_defaults:
  fixes k :: "'v kernel" and lik :: 'l
  assumes X: "shape X = [N, D]" and Y: "shape Y = [N, R]"
    and Lat: "Lat = (case num_latent_arg of Some n \<Rightarrow> if n \<noteq> 0 then n else R | None \<Rightarrow> R)"
  shows "\<exists>self.
      VGPOpperArchambeau_init (X, Y) k lik None num_latent_arg = Inr self \<and>
      mean_function self = Zero \<and>
      param_value (q_alpha self) = matrix_of N Lat (\<lambda>n l. 0) \<and>
      param_value (q_lambda self) = matrix_of N Lat (\<lambda>n l. 1) \<and>
      param_transform (q_lambda self) = Some Positive \<and>
      (\<forall>n<N. \<forall>l<Lat. 0 < elem (param_value (q_lambda self)) [n, l]) \<and>
      (\<forall>(ext :: ('v, 'l) externals) K mX c locals.
         kernel_call ext k X None True = Inr K \<and> shape K = [N, N] \<and>
         mean_function_call ext Zero X = Inr mX \<and> shape mX = [N, c] \<and> (c = Lat \<or> c = 1) \<and>
         VGPOpperArchambeau_log_likelihood_locals ext self = Inr locals \<longrightarrow>
         local_f_mean locals = matrix_of N Lat (\<lambda>n l. elem mX [n, if c = 1 then 0 else l])) \<and>
      (\<forall>(ext :: ('v, 'l) externals) Kx mX c full_cov f_mean f_var.
         kernel_call ext k X (Some X) True = Inr Kx \<and> shape Kx = [N, N] \<and>
         mean_function_call ext Zero X = Inr mX \<and> shape mX = [N, c] \<and> (c = Lat \<or> c = 1) \<and>
         VGPOpperArchambeau_predict_f ext self X full_cov = Inr (f_mean, f_var) \<longrightarrow>
         f_mean = matrix_of N Lat (\<lambda>n l. elem mX [n, if c = 1 then 0 else l]))"
proof -
  let ?self = "\<lparr>kern = k, likelihood = lik, mean_function = Zero, data = (X, Y),
      num_data = N, num_latent = Lat,
      q_alpha = \<lparr>param_value = np_zeros [N, Lat], param_transform = None\<rparr>,
      q_lambda = \<lparr>param_value = np_ones [N, Lat], param_transform = Some Positive\<rparr>\<rparr>"
  have init: "VGPOpperArchambeau_init (X, Y) k lik None num_latent_arg = Inr ?self"
    by (cases num_latent_arg) (simp_all add: VGPOpperArchambeau_init_def shape_at_def X Y Lat)
  have zero: "(\<Sum>k<N. elem K [n, k] * elem (matrix_of N Lat (\<lambda>i j. 0)) [k, l]) = 0"
    if "l < Lat" for K n l
    by (rule sum.neutral) (use that in simp)
  have ll: "local_f_mean locals = matrix_of N Lat (\<lambda>n l. elem mX [n, if c = 1 then 0 else l])"
    if "kernel_call ext k X None True = Inr K" "shape K = [N, N]"
      "mean_function_call ext Zero X = Inr mX" "shape mX = [N, c]" "c = Lat \<or> c = 1"
      "VGPOpperArchambeau_log_likelihood_locals ext ?self = Inr locals"
    for ext :: "('v, 'l) externals" and K mX c locals
  proof -
    have "local_f_mean locals = matrix_of N Lat (\<lambda>n l.
        (\<Sum>k<N. elem K [n, k] * elem (matrix_of N Lat (\<lambda>i j. 0)) [k, l]) +
        elem mX [n, if c = 1 then 0 else l])"
      by (rule OA_log_likelihood_f_mean[where self="?self" and ext=ext and X=X and Y=Y])
         (use that in \<open>simp_all add: np_zeros_matrix\<close>)
    also have "\<dots> = matrix_of N Lat (\<lambda>n l. elem mX [n, if c = 1 then 0 else l])"
      by (rule matrix_of_cong) (simp add: zero)
    finally show ?thesis .
  qed
  have pf: "f_mean = matrix_of N Lat (\<lambda>n l. elem mX [n, if c = 1 then 0 else l])"
    if "kernel_call ext k X (Some X) True = Inr Kx" "shape Kx = [N, N]"
      "mean_function_call ext Zero X = Inr mX" "shape mX = [N, c]" "c = Lat \<or> c = 1"
      "VGPOpperArchambeau_predict_f ext ?self X full_cov = Inr (f_mean, f_var)"
    for ext :: "('v, 'l) externals" and Kx mX c full_cov f_mean f_var
  proof -
    have "f_mean = matrix_of N Lat (\<lambda>m l.
        (\<Sum>n<N. elem Kx [n, m] * elem (matrix_of N Lat (\<lambda>i j. 0)) [n, l]) +
        elem mX [m, if c = 1 then 0 else l])"
      by (rule OA_predict_f_mean[where self="?self" and ext=ext and X=X and Y=Y and Xnew=X])
         (use that in \<open>simp_all add: np_zeros_matrix\<close>)
    also have "\<dots> = matrix_of N Lat (\<lambda>n l. elem mX [n, if c = 1 then 0 else l])"
      by (rule matrix_of_cong) (simp add: zero)
    finally show ?thesis .
  qed
  show ?thesis
  proof (intro exI conjI)
    show "VGPOpperArchambeau_init (X, Y) k lik None num_latent_arg = Inr ?self"
      by (rule init)
    show "\<forall>n<N. \<forall>l<Lat. 0 < elem (param_value (q_lambda ?self)) [n, l]"
      by (simp add: np_ones_matrix)
    show "\<forall>(ext :: ('v, 'l) externals) K mX c locals.
         kernel_call ext k X None True = Inr K \<and> shape K = [N, N] \<and>
         mean_function_call ext Zero X = Inr mX \<and> shape mX = [N, c] \<and> (c = Lat \<or> c = 1) \<and>
         VGPOpperArchambeau_log_likelihood_locals ext ?self = Inr locals \<longrightarrow>
         local_f_mean locals = matrix_of N Lat (\<lambda>n l. elem mX [n, if c = 1 then 0 else l])"
      using ll by blast
    show "\<forall>(ext :: ('v, 'l) externals) Kx mX c full_cov f_mean f_var.
         kernel_call ext k X (Some X) True = Inr Kx \<and> shape Kx = [N, N] \<and>
         mean_function_call ext Zero X = Inr mX \<and> shape mX = [N, c] \<and> (c = Lat \<or> c = 1) \<and>
         VGPOpperArchambeau_predict_f ext ?self X full_cov = Inr (f_mean, f_var) \<longrightarrow>
         f_mean = matrix_of N Lat (\<lambda>n l. elem mX [n, if c = 1 then 0 else l])"
      using pf by blast
  qed (simp_all add: np_zeros_matrix np_ones_matrix)
qed

text \<open>The constructor on the example data, and the posterior mean of the new model.\<close>

theorem VGPOpperArchambeau_init_defaults_witness:
  "\<exists>self.
     VGPOpperArchambeau_init (example_X, example_Y) (Atomic 0 ()) () None None = Inr self \<and>
     mean_function self = Zero \<and>
     param_value (q_alpha self) = matrix_of 2 1 (\<lambda>n l. 0) \<and>
     param_value (q_lambda self) = matrix_of 2 1 (\<lambda>n l. 1) \<and>
     0 < elem (param_value (q_lambda self)) [0, 0] \<and>
     0 < elem (param_value (q_lambda self)) [1, 0] \<and>
     (\<exists>locals. VGPOpperArchambeau_log_likelihood_locals example_ext self = Inr locals \<and>
        local_f_mean locals = matrix_of 2 1 (\<lambda>n l. 0))"
proof -
  obtain self :: "(unit, unit) VGPOpperArchambeau" where
    init: "VGPOpperArchambeau_init (example_X, example_Y) (Atomic 0 ()) () None None = Inr self"
    and zero: "mean_function self = Zero"
    and alpha: "param_value (q_alpha self) = matrix_of 2 1 (\<lambda>n l. 0)"
    and lam: "param_value (q_lambda self) = matrix_of 2 1 (\<lambda>n l. 1)"
    and pos: "\<forall>n<2. \<forall>l<1. 0 < elem (param_value (q_lambda self)) [n, l]"
    and mean: "\<forall>(ext :: (unit, unit) externals) K mX c locals.
         kernel_call ext (Atomic 0 ()) example_X None True = Inr K \<and> shape K = [2, 2] \<and>
         mean_function_call ext Zero example_X = Inr mX \<and> shape mX = [2, c] \<and> (c = 1 \<or> c = 1) \<and>
         VGPOpperArchambeau_log_likelihood_locals ext self = Inr locals \<longrightarrow>
         local_f_mean locals = matrix_of 2 1 (\<lambda>n l. elem mX [n, if c = 1 then 0 else l])"
    using VGPOpperArchambeau_init_defaults[where X=example_X and Y=example_Y and N=2 and D=1
        and R=1 and Lat=1 and num_latent_arg=None and k="Atomic 0 ()" and lik="()"]
    by (auto simp: example_X_def example_Y_def)
  let ?alpha = "matrix_of 2 1 (\<lambda>n l. 0)"
  let ?lam = "matrix_of 2 1 (\<lambda>i j. 1)"
  let ?K = "matrix_of 2 2 (\<lambda>i j. if i = j then 3 else 0)"
  let ?mX = "np_zeros [2, 1]"
  let ?L = "tensor3_of 1 2 2 (\<lambda>l i j. if i = j then 2 else 0)"
  let ?Li = "tensor3_of 1 2 2 (\<lambda>l i j. if i = j then 1 / 2 else 0)"
  have self: "self = \<lparr>kern = Atomic 0 (), likelihood = (), mean_function = Zero,
      data = (example_X, example_Y), num_data = 2, num_latent = 1,
      q_alpha = \<lparr>param_value = np_zeros [2, 1], param_transform = None\<rparr>,
      q_lambda = \<lparr>param_value = np_ones [2, 1], param_transform = Some Positive\<rparr>\<rparr>"
    using init
    by (simp add: VGPOpperArchambeau_init_def shape_at_def example_X_def example_Y_def)
  have "\<exists>locals. VGPOpperArchambeau_log_likelihood_locals example_ext self = Inr locals"
    by (rule exI, rule OA_log_likelihood_locals_eval[where X=example_X and Y=example_Y and N=2
          and Lat=1 and c=1 and alpha="?alpha" and lam="?lam" and K="?K" and mX="?mX"
          and L="?L" and Li="?Li", OF _ _ _ _ _ _ _ _ _ _ _ _
          example_cholesky_likelihood _ example_solve_identity _ refl refl refl])
       (simp_all add: self example_ext_def np_zeros_matrix np_ones_matrix
          tf_subtract_def tf_binop_same2[where n=2 and m=1])
  then obtain locals where
    locals: "VGPOpperArchambeau_log_likelihood_locals example_ext self = Inr locals"
    by blast
  have "local_f_mean locals =
      matrix_of 2 1 (\<lambda>n l. elem ?mX [n, if (1::nat) = 1 then 0 else l])"
    using mean[rule_format, of example_ext ?K ?mX 1 locals] locals
    by (simp add: example_ext_def np_zeros_def)
  also have "\<dots> = matrix_of 2 1 (\<lambda>n l. 0)"
    by (rule matrix_of_cong) (simp add: np_zeros_matrix)
  finally have "local_f_mean locals = matrix_of 2 1 (\<lambda>n l. 0)" .
  with init zero alpha lam pos locals show ?thesis
    by auto
qed

end
